theory Spec2Isabelle
  imports Main "HOL-Library.Sublist"
begin


section \<open>Configuration (internal/config/config.go)\<close>

text \<open>
  A track ties a store track to a branch of the repository and to a GitHub environment.
  The three fields are the struct's \<^verbatim>\<open>Name\<close>, \<^verbatim>\<open>Branch\<close> and \<^verbatim>\<open>Environment\<close>.
\<close>

record Track =
  Track_Name :: string
  Track_Branch :: string
  Track_Environment :: string

text \<open>
  A configured repository: \<^verbatim>\<open>Name\<close>, \<^verbatim>\<open>Snaps\<close> and \<^verbatim>\<open>Tracks\<close>. (The older struct
  \<^verbatim>\<open>Snap\<close> of the same file has the fields \<^verbatim>\<open>Name\<close> and \<^verbatim>\<open>Tracks\<close> and the same
  \<^verbatim>\<open>SetDefaults\<close>.)
\<close>

record Repo =
  Repo_Name :: string
  Repo_Snaps :: "string list"
  Repo_Tracks :: "Track list"

record Config =
  Config_Org :: string
  Config_Repos :: "Repo list"

record LoginCredentials =
  Login :: string
  Password :: string
  TOTPSecret :: string

record GithubAppCredentials =
  App_ID :: int
  App_Secret :: string

record Credentials =
  GithubToken :: string
  SnapStore :: LoginCredentials
  Launchpad :: string
  Bot :: LoginCredentials
  GithubApp :: GithubAppCredentials

text \<open>
  \<^verbatim>\<open>func (s *Repo) SetDefaults()\<close> overwrites the track list with the single default
  track; the receiver is updated in place, so the model returns the updated value.
\<close>

definition SetDefaults :: "Repo \<Rightarrow> Repo" where
  "SetDefaults s =
     s\<lparr>Repo_Tracks :=
         [\<lparr>Track_Name = ''latest'', Track_Branch = ''candidate'',
           Track_Environment = ''Candidate Branch''\<rparr>]\<rparr>"

section \<open>Values, errors and panics\<close>

text \<open>
  Go strings and byte slices are byte sequences: \<open>string\<close>. An error value is modelled
  by its message (\<^verbatim>\<open>err.Error()\<close>).
  A function returning \<^verbatim>\<open>(T, error)\<close> returns \<open>error + T\<close>, with \<open>Inl\<close> for a non-nil error.
  A run-time panic (index out of range, nil dereference) is not an error value: it is
  the outcome \<open>Panic\<close>, which unwinds through every caller.
\<close>

type_synonym bytes = string
type_synonym error = string

datatype 'a outcome = Val 'a | Panic string

datatype json =
    JNull
  | JBool bool
  | JNum int
  | JStr string
  | JArr "json list"
  | JObj "(string \<times> json) list"

text \<open>\<^verbatim>\<open>slices.IndexFunc\<close>: the first index whose element satisfies \<open>f\<close>, or \<open>-1\<close>.\<close>

fun IndexFunc :: "'a list \<Rightarrow> ('a \<Rightarrow> bool) \<Rightarrow> int" where
  "IndexFunc [] f = -1"
| "IndexFunc (x # xs) f =
     (if f x then 0 else (let i = IndexFunc xs f in if i < 0 then -1 else i + 1))"

text \<open>A Go index expression \<^verbatim>\<open>s[i]\<close>: it panics when \<open>i\<close> is out of range.\<close>

definition index :: "'a list \<Rightarrow> int \<Rightarrow> 'a outcome" where
  "index s i =
     (if 0 \<le> i \<and> i < int (length s) then Val (s ! nat i)
      else Panic ''runtime error: index out of range'')"

text \<open>Dereferencing a pointer field (\<^verbatim>\<open>*p\<close>): \<open>None\<close> is the nil pointer.\<close>

definition deref :: "'a option \<Rightarrow> 'a outcome" where
  "deref p =
     (case p of
        None \<Rightarrow> Panic ''runtime error: invalid memory address or nil pointer dereference''
      | Some v \<Rightarrow> Val v)"

section \<open>The outside world\<close>

text \<open>
  Everything the program does to the outside is a \<open>call\<close>: an HTTP request of a plain
  \<^verbatim>\<open>http.Client\<close>, a method of the go-github REST client, a request of the cookie-jar
  session of the personal-access-token client, a read of the clock, a draw of
  randomness for the sealed box, a read of the configuration file, or an error line
  written to the log (\<^verbatim>\<open>slog.Error\<close>; the \<^verbatim>\<open>Info\<close> and \<^verbatim>\<open>Debug\<close> lines are left out).
  The calls made so far are kept in order.
\<close>

record request =
  rq_method :: string
  rq_url :: string
  rq_headers :: "(string \<times> string) list"
  rq_body :: bytes

text \<open>
  \<^verbatim>\<open>github.BranchPolicy\<close> and \<^verbatim>\<open>github.CreateUpdateEnvironment\<close>, with the fields the
  program sets (the others stay nil). A pointer field is an option, \<open>None\<close> for nil.
\<close>

record BranchPolicy =
  ProtectedBranches :: "bool option"
  CustomBranchPolicies :: "bool option"

record CreateUpdateEnvironment =
  CanAdminsBypass :: "bool option"
  DeploymentBranchPolicy :: "BranchPolicy option"
  PreventSelfReview :: "bool option"

text \<open>\<^verbatim>\<open>github.EncryptedSecret\<close>.\<close>

record EncryptedSecret =
  Secret_Name :: string
  Secret_KeyID :: string
  Secret_EncryptedValue :: string

datatype call =
    HttpDo request
  | ReposGet string string
  | GetEnvironment string string string
  | CreateUpdateEnv string string string CreateUpdateEnvironment
  | CreateDeploymentBranchPolicy string string string string
  | GetEnvPublicKey int string
  | SealAnonymous bytes bytes
  | CreateOrUpdateEnvSecret int string EncryptedSecret
  | ReviewPersonalAccessTokenRequest string int string
  | WebHead string
  | WebGet string
  | WebPostForm string "(string \<times> string list) list"
  | WebDo request
  | TimeNow
  | ReadInConfig
  | ViperUnmarshal
  | SlogError string

text \<open>
  The program's only mutable field besides its loop variables is the organisation
  client's \<^verbatim>\<open>token\<close> (\<^verbatim>\<open>OrgClient.githubClient\<close> is never assigned). The state is that
  field and the calls made so far.
\<close>

record mstate =
  calls :: "call list"
  oc_token :: string

type_synonym 'a io = "mstate \<Rightarrow> 'a outcome \<times> mstate"

definition ret :: "'a \<Rightarrow> 'a io" where
  "ret x s = (Val x, s)"

definition panic :: "string \<Rightarrow> 'a io" where
  "panic msg s = (Panic msg, s)"

definition bnd :: "'a io \<Rightarrow> ('a \<Rightarrow> 'b io) \<Rightarrow> 'b io" where
  "bnd m k s = (case m s of (Val x, s') \<Rightarrow> k x s' | (Panic msg, s') \<Rightarrow> (Panic msg, s'))"

text \<open>A pure computation that may panic, run inside \<open>io\<close>.\<close>

definition lift :: "'a outcome \<Rightarrow> 'a io" where
  "lift r s = (r, s)"

text \<open>
  \<^verbatim>\<open>fmt.Errorf("<prefix>%w", err)\<close>, by its message: the prefix, then the message of
  the wrapped error.
\<close>

definition Errorf :: "string \<Rightarrow> error \<Rightarrow> error" where
  "Errorf pre e = pre @ e"

text \<open>
  The Go idiom \<^verbatim>\<open>x, err := m(); if err != nil { return wrap(err) }; k(x)\<close>.
\<close>

definition on_err :: "(error + 'a) io \<Rightarrow> (error \<Rightarrow> error) \<Rightarrow> ('a \<Rightarrow> (error + 'b) io) \<Rightarrow> (error + 'b) io" where
  "on_err m wrap k = bnd m (\<lambda>r. case r of Inl e \<Rightarrow> ret (Inl (wrap e)) | Inr x \<Rightarrow> k x)"

text \<open>
  One call to the outside: it is appended to the calls made, and its answer is what the
  world gives after the calls made before it.
\<close>

definition perform :: "call \<Rightarrow> (call list \<Rightarrow> 'a) \<Rightarrow> 'a io" where
  "perform c answer s = (Val (answer (calls s)), s\<lparr>calls := calls s @ [c]\<rparr>)"


subsection \<open>Library values\<close>

text \<open>\<^verbatim>\<open>macaroon.Caveat\<close> and the parts of \<^verbatim>\<open>macaroon.Macaroon\<close> (gopkg.in/macaroon.v1).\<close>

record Caveat =
  Caveat_Id :: string
  Caveat_Location :: string

record Macaroon =
  Macaroon_Location :: string
  Macaroon_Id :: string
  Caveats :: "Caveat list"
  Macaroon_Signature :: bytes

text \<open>\<^verbatim>\<open>url.URL\<close>, with the two fields the program reads.\<close>

record URL =
  Host :: string
  Path :: string

text \<open>
  \<^verbatim>\<open>github.Repository\<close> and \<^verbatim>\<open>github.PublicKey\<close>: their fields are pointers, \<open>None\<close> is nil.
\<close>

record Repository =
  Repository_ID :: "int option"
  FullName :: "string option"

record PublicKey =
  KeyID :: "string option"
  Key :: "string option"

text \<open>\<^verbatim>\<open>patRequest\<close> (the organisation client), with the fields the program reads.\<close>

record patRequest =
  patRequest_ID :: int
  RepositoriesURL :: string

text \<open>The claims of the JSON web token: \<^verbatim>\<open>iat\<close>, \<^verbatim>\<open>exp\<close>, \<^verbatim>\<open>iss\<close>.\<close>

record MapClaims =
  iat :: int
  exp :: int
  iss :: int

text \<open>
  A parsed HTML page (\<^verbatim>\<open>goquery.Document\<close>), seen through the selectors the program
  applies to it. An element matching \<^verbatim>\<open>.access-token\<close> is seen through its
  \<^verbatim>\<open>data-id\<close> attribute, the text of its links, the \<^verbatim>\<open>value\<close> of its first
  \<^verbatim>\<open>input[name=authenticity_token]\<close> and the \<^verbatim>\<open>value\<close> of \<^verbatim>\<open>#new-access-token\<close>. \<open>None\<close> is
  a missing element or attribute.
\<close>

record token_elem =
  te_data_id :: "string option"
  te_link_text :: string
  te_authenticity_token :: "string option"
  te_new_access_token :: "string option"

record doc =
  doc_total_pages :: "string option"
  doc_access_tokens :: "token_elem list"
  doc_new_form_token :: "string option"
  doc_error_text :: string
  doc_flash_errors :: "string list"
  doc_hidden_inputs :: "(string \<times> string) list"
  doc_remove_buttons :: "(string \<times> string) list"

text \<open>
  The pure functions of the libraries the program calls: encoding/json, gjson,
  encoding/base64 (\<^verbatim>\<open>RawURLEncoding\<close> and \<^verbatim>\<open>StdEncoding\<close>), macaroon.v1, net/url, net/http
  (\<^verbatim>\<open>NewRequest\<close>), jwt, crypto/sha256 printed with \<^verbatim>\<open>%x\<close>,
  \<^verbatim>\<open>time.Time.AddDate(1, 0, 0).Format("2006-01-02")\<close> of a Unix time, \<^verbatim>\<open>strconv.Atoi\<close>, the
  verb \<^verbatim>\<open>%d\<close>, \<^verbatim>\<open>strings.ToLower\<close>, and \<^verbatim>\<open>fmt.Errorf\<close> of a format with no operand. They
  are parameters of the model.
\<close>

record libs =
  json_Marshal :: "json \<Rightarrow> error + bytes"
  gjson_Get :: "bytes \<Rightarrow> string \<Rightarrow> string option"
  b64raw_Decode :: "string \<Rightarrow> error + bytes"
  b64raw_Encode :: "bytes \<Rightarrow> string"
  b64std_Decode :: "string \<Rightarrow> error + bytes"
  b64std_Encode :: "bytes \<Rightarrow> string"
  UnmarshalBinary :: "bytes \<Rightarrow> error + Macaroon"
  MarshalBinary :: "Macaroon \<Rightarrow> error + bytes"
  url_Parse :: "string \<Rightarrow> error + URL"
  Values_Encode :: "(string \<times> string list) list \<Rightarrow> string"
  http_NewRequest :: "string \<Rightarrow> string \<Rightarrow> error option"
  Unmarshal_patRequests :: "bytes \<Rightarrow> error + patRequest list"
  Unmarshal_Repositories :: "bytes \<Rightarrow> error + Repository list"
  ParseRSAPrivateKeyFromPEM :: "bytes \<Rightarrow> error + bytes"
  SignedString :: "MapClaims \<Rightarrow> bytes \<Rightarrow> error + string"
  sha256_hex :: "bytes \<Rightarrow> string"
  next_year_date :: "int \<Rightarrow> string"
  Atoi :: "string \<Rightarrow> error + int"
  Itoa :: "int \<Rightarrow> string"
  ToLower :: "string \<Rightarrow> string"
  Errorf0 :: "string \<Rightarrow> string"

text \<open>
  The answers of the outside world, each after the calls made so far. A plain HTTP
  exchange answers with a transport error or a response, whose body reads to an error
  or to bytes; a request of the web session answers with a transport error or a page that
  parses to an error or a document. \<^verbatim>\<open>GetEnvironment\<close> answers with the response's status
  code (\<open>None\<close>: no response at all) and an error or nil. The command line and the
  environment variables are inputs of the run: \<open>w_Flags\<close> is what the command-line parser
  makes of the arguments, \<open>w_GetString\<close> and \<open>w_GetInt\<close> read a bound variable.
\<close>

datatype parsed_flags =
    FlagError error
  | HelpOrVersion
  | Run "string list" bool

datatype viper_error = ConfigFileNotFoundError | OtherConfigError

record world =
  w_HttpDo :: "call list \<Rightarrow> request \<Rightarrow> error + (error + bytes)"
  w_ReposGet :: "call list \<Rightarrow> string \<Rightarrow> string \<Rightarrow> error + Repository"
  w_GetEnvironment :: "call list \<Rightarrow> string \<Rightarrow> string \<Rightarrow> string \<Rightarrow> int option \<times> error option"
  w_CreateUpdateEnv ::
    "call list \<Rightarrow> string \<Rightarrow> string \<Rightarrow> string \<Rightarrow> CreateUpdateEnvironment \<Rightarrow> error + unit"
  w_CreateDeploymentBranchPolicy ::
    "call list \<Rightarrow> string \<Rightarrow> string \<Rightarrow> string \<Rightarrow> string \<Rightarrow> error + unit"
  w_GetEnvPublicKey :: "call list \<Rightarrow> int \<Rightarrow> string \<Rightarrow> error + PublicKey"
  w_SealAnonymous :: "call list \<Rightarrow> bytes \<Rightarrow> bytes \<Rightarrow> error + bytes"
  w_CreateOrUpdateEnvSecret :: "call list \<Rightarrow> int \<Rightarrow> string \<Rightarrow> EncryptedSecret \<Rightarrow> error + unit"
  w_Review :: "call list \<Rightarrow> string \<Rightarrow> int \<Rightarrow> string \<Rightarrow> error + unit"
  w_WebHead :: "call list \<Rightarrow> string \<Rightarrow> error + string"
  w_WebGet :: "call list \<Rightarrow> string \<Rightarrow> error + (error + doc)"
  w_WebPostForm :: "call list \<Rightarrow> string \<Rightarrow> (string \<times> string list) list \<Rightarrow> error + (error + doc)"
  w_WebDo :: "call list \<Rightarrow> request \<Rightarrow> error + (error + doc)"
  w_TimeNow :: "call list \<Rightarrow> int"
  w_Flags :: parsed_flags
  w_ReadInConfig :: "call list \<Rightarrow> viper_error option"
  w_ViperUnmarshal :: "call list \<Rightarrow> error + Config"
  w_GetString :: "string \<Rightarrow> string"
  w_GetInt :: "string \<Rightarrow> int"

section \<open>The store client (internal/store)\<close>

record StoreEndpoints =
  BaseURL :: string
  StorageURL :: string

definition SNAP_STORE_ENDPOINTS :: StoreEndpoints where
  "SNAP_STORE_ENDPOINTS =
     \<lparr>BaseURL = ''https://dashboard.snapcraft.io'',
      StorageURL = ''https://upload.apps.staging.ubuntu.com''\<rparr>"

record StoreAuthEndpoints =
  AuthURL :: string
  Namespace :: string
  Whoami :: string
  Tokens :: string
  TokensExchange :: string
  TokensRefresh :: string
  ValidPackageTypes :: "string list"

definition UBUNTU_ONE_SNAP_STORE_AUTH_ENDPOINTS :: StoreAuthEndpoints where
  "UBUNTU_ONE_SNAP_STORE_AUTH_ENDPOINTS =
     \<lparr>AuthURL = ''https://login.ubuntu.com'',
      Namespace = ''snap'',
      Whoami = ''/api/v2/tokens/whoami'',
      Tokens = ''/dev/api/acl/'',
      TokensExchange = ''/api/v2/tokens/discharge'',
      TokensRefresh = ''/api/v2/tokens/refresh'',
      ValidPackageTypes = [''snap'']\<rparr>"

record Package =
  Package_Name :: string
  Package_Type :: string

definition NewSnapPackage :: "string \<Rightarrow> Package" where
  "NewSnapPackage name = \<lparr>Package_Name = name, Package_Type = ''snap''\<rparr>"

text \<open>The permissions of a store token, by the channel the token is for.\<close>

definition channelPermissions :: "string \<rightharpoonup> string list" where
  "channelPermissions =
     [''candidate'' \<mapsto> [''package_access'', ''package_push'', ''package_update'', ''package_release''],
      ''stable'' \<mapsto> [''package_access'', ''package_release'']]"

record StoreClient =
  authEndpoints :: StoreAuthEndpoints
  credentials :: LoginCredentials
  endpoints :: StoreEndpoints

definition NewSnapStoreClient :: "LoginCredentials \<Rightarrow> StoreClient" where
  "NewSnapStoreClient creds =
     \<lparr>authEndpoints = UBUNTU_ONE_SNAP_STORE_AUTH_ENDPOINTS,
      credentials = creds,
      endpoints = SNAP_STORE_ENDPOINTS\<rparr>"

record tokenRequest =
  tr_Permissions :: "string list"
  tr_Description :: string
  tr_TTL :: int
  tr_Packages :: "Package list"
  tr_Channels :: "string list"

record tokenParams =
  tp_Channels :: "string list"
  tp_Credentials :: LoginCredentials
  tp_Description :: string
  tp_Packages :: "string list"
  tp_Permissions :: "string list"
  tp_TTL :: int

record macaroonDischargeParams =
  mdp_Email :: string
  mdp_Password :: string
  mdp_CaveatId :: string

record ubuntuOneMacaroons =
  RootMacaroon :: string
  DischargedMacaroon :: string

record UbuntuOneToken =
  TokenType :: string
  UbuntuOneMacaroons :: ubuntuOneMacaroons

text \<open>
  What \<^verbatim>\<open>json.Marshal\<close> is given: the JSON value of each struct, its members named by
  the struct's \<^verbatim>\<open>json:"..."\<close> tags, in the order of the fields.
\<close>

definition Package_json :: "Package \<Rightarrow> json" where
  "Package_json p = JObj [(''name'', JStr (Package_Name p)), (''type'', JStr (Package_Type p))]"

definition tokenRequest_json :: "tokenRequest \<Rightarrow> json" where
  "tokenRequest_json r =
     JObj [(''permissions'', JArr (map JStr (tr_Permissions r))),
           (''description'', JStr (tr_Description r)),
           (''ttl'', JNum (tr_TTL r)),
           (''packages'', JArr (map Package_json (tr_Packages r))),
           (''channels'', JArr (map JStr (tr_Channels r)))]"

definition macaroonDischargeParams_json :: "macaroonDischargeParams \<Rightarrow> json" where
  "macaroonDischargeParams_json b =
     JObj [(''email'', JStr (mdp_Email b)),
           (''password'', JStr (mdp_Password b)),
           (''caveat_id'', JStr (mdp_CaveatId b))]"

definition ubuntuOneMacaroons_json :: "ubuntuOneMacaroons \<Rightarrow> json" where
  "ubuntuOneMacaroons_json m =
     JObj [(''r'', JStr (RootMacaroon m)), (''d'', JStr (DischargedMacaroon m))]"

definition UbuntuOneToken_json :: "UbuntuOneToken \<Rightarrow> json" where
  "UbuntuOneToken_json t =
     JObj [(''t'', JStr (TokenType t)), (''v'', ubuntuOneMacaroons_json (UbuntuOneMacaroons t))]"

text \<open>\<^verbatim>\<open>NewUbuntuOneToken\<close>: the discharge macaroon is marshalled first, then the root.\<close>

definition NewUbuntuOneToken :: "libs \<Rightarrow> Macaroon \<Rightarrow> Macaroon \<Rightarrow> error + UbuntuOneToken" where
  "NewUbuntuOneToken L rootMacaroon dischargedMacaroon =
     (case MarshalBinary L dischargedMacaroon of
        Inl e \<Rightarrow> Inl (Errorf ''failed to marshal discharged macaroon to binary format: '' e)
      | Inr binaryDischargedMacaroon \<Rightarrow>
          (case MarshalBinary L rootMacaroon of
             Inl e \<Rightarrow> Inl (Errorf ''failed to marshal root macaroon to binary format: '' e)
           | Inr binaryRootMacaroon \<Rightarrow>
               Inr \<lparr>TokenType = ''u1-macaroon'',
                    UbuntuOneMacaroons =
                      \<lparr>RootMacaroon = b64raw_Encode L binaryRootMacaroon,
                       DischargedMacaroon = b64raw_Encode L binaryDischargedMacaroon\<rparr>\<rparr>))"

text \<open>
  \<^verbatim>\<open>post\<close>: marshal the body, build the request, send it. The response is returned
  whatever its status code.
\<close>

definition post :: "libs \<Rightarrow> world \<Rightarrow> string \<Rightarrow> json \<Rightarrow> (error + (error + bytes)) io" where
  "post L W url body =
     (case json_Marshal L body of
        Inl e \<Rightarrow> ret (Inl (Errorf ''failed to marshal request body to json: '' e))
      | Inr jsonBody \<Rightarrow>
          (case http_NewRequest L ''POST'' url of
             Some e \<Rightarrow>
               ret (Inl (Errorf (''failed to construct post request to url '' @ [CHR 0x27] @ url
                                 @ [CHR 0x27] @ '': '') e))
           | None \<Rightarrow>
               (let req = \<lparr>rq_method = ''POST'', rq_url = url,
                           rq_headers = [(''Content-Type'', ''application/json''),
                                         (''Accept'', ''application/json'')],
                           rq_body = jsonBody\<rparr>
                in on_err (perform (HttpDo req) (\<lambda>h. w_HttpDo W h req))
                     (Errorf (''failed to request url '' @ [CHR 0x27] @ url @ [CHR 0x27] @ '': ''))
                     (\<lambda>resp. ret (Inr resp)))))"

definition deserializeMacaroon :: "libs \<Rightarrow> error + bytes \<Rightarrow> string \<Rightarrow> error + Macaroon" where
  "deserializeMacaroon L resp field =
     (case resp of
        Inl e \<Rightarrow> Inl (Errorf ''failed to read macaroon response body: '' e)
      | Inr respBytes \<Rightarrow>
          (case gjson_Get L respBytes field of
             None \<Rightarrow> Inl ''no macaroon found in response json''
           | Some respMac \<Rightarrow>
               (case b64raw_Decode L respMac of
                  Inl e \<Rightarrow> Inl ''failed to decode unmarshalled macaroon''
                | Inr decoded \<Rightarrow>
                    (case UnmarshalBinary L decoded of
                       Inl e \<Rightarrow> Inl (Errorf ''failed to deserialize macaroon: '' e)
                     | Inr mac \<Rightarrow> Inr mac))))"

definition getRootMacaroon :: "libs \<Rightarrow> world \<Rightarrow> StoreClient \<Rightarrow> tokenRequest \<Rightarrow> (error + Macaroon) io" where
  "getRootMacaroon L W sc tr =
     on_err (post L W (BaseURL (endpoints sc) @ Tokens (authEndpoints sc)) (tokenRequest_json tr))
       (Errorf ''failed to request token exchange endpoint: '')
       (\<lambda>resp.
          case deserializeMacaroon L resp ''macaroon'' of
            Inl e \<Rightarrow> ret (Inl (Errorf ''failed to deserialize macaroon: '' e))
          | Inr rootMacaroon \<Rightarrow> ret (Inr rootMacaroon))"

text \<open>
  \<^verbatim>\<open>getDischargedMacaroon\<close>. The error of \<^verbatim>\<open>url.Parse\<close> is dropped, so a failed parse
  leaves \<^verbatim>\<open>u\<close> nil and the first evaluation of \<^verbatim>\<open>u.Host\<close> panics. The index returned by
  \<^verbatim>\<open>slices.IndexFunc\<close> is used as it is in \<^verbatim>\<open>root.Caveats()[idx]\<close>.
\<close>

definition getDischargedMacaroon ::
  "libs \<Rightarrow> world \<Rightarrow> StoreClient \<Rightarrow> Macaroon \<Rightarrow> tokenParams \<Rightarrow> (error + Macaroon) io" where
  "getDischargedMacaroon L W sc root params =
     bnd (lift (case url_Parse L (AuthURL (authEndpoints sc)) of
                  Inl e \<Rightarrow> (if Caveats root = [] then Val (- 1) else deref None)
                | Inr u \<Rightarrow> Val (IndexFunc (Caveats root) (\<lambda>c. Caveat_Location c = Host u))))
       (\<lambda>idx.
     bnd (lift (index (Caveats root) idx))
       (\<lambda>c.
          (let body = \<lparr>mdp_Email = Login (tp_Credentials params),
                       mdp_Password = Password (tp_Credentials params),
                       mdp_CaveatId = Caveat_Id c\<rparr>
           in on_err (post L W (AuthURL (authEndpoints sc) @ TokensExchange (authEndpoints sc))
                        (macaroonDischargeParams_json body))
                (Errorf ''failed to request token exchange endpoint: '')
                (\<lambda>resp.
                   case deserializeMacaroon L resp ''discharge_macaroon'' of
                     Inl e \<Rightarrow> ret (Inl (Errorf ''failed to deserialize macaroon: '' e))
                   | Inr dischargedMacaroon \<Rightarrow> ret (Inr dischargedMacaroon)))))"

text \<open>\<^verbatim>\<open>StoreClient.login\<close>.\<close>

definition StoreClient_login :: "libs \<Rightarrow> world \<Rightarrow> StoreClient \<Rightarrow> tokenParams \<Rightarrow> (error + string) io" where
  "StoreClient_login L W sc params =
     (let tokenRequest =
            \<lparr>tr_Permissions = tp_Permissions params,
             tr_Description = tp_Description params,
             tr_TTL = tp_TTL params,
             tr_Packages = map NewSnapPackage (tp_Packages params),
             tr_Channels = tp_Channels params\<rparr>
      in on_err (getRootMacaroon L W sc tokenRequest)
           (Errorf ''failed to get root macaroon: '')
           (\<lambda>rootMacaroon.
         on_err (getDischargedMacaroon L W sc rootMacaroon params)
           (Errorf ''failed to get discharged macaroon: '')
           (\<lambda>dischargedMacaroon.
              case NewUbuntuOneToken L rootMacaroon dischargedMacaroon of
                Inl e \<Rightarrow> ret (Inl (Errorf ''failed to create a valid Ubuntu One token: '' e))
              | Inr token \<Rightarrow>
                  (case json_Marshal L (UbuntuOneToken_json token) of
                     Inl e \<Rightarrow> ret (Inl (Errorf ''failed to marshal Ubuntu One to JSON: '' e))
                   | Inr tokenJSON \<Rightarrow> ret (Inr (b64std_Encode L tokenJSON))))))"

definition GenerateStoreToken ::
  "libs \<Rightarrow> world \<Rightarrow> StoreClient \<Rightarrow> string \<Rightarrow> string \<Rightarrow> string \<Rightarrow> (error + string) io" where
  "GenerateStoreToken L W sc snap track channel =
     (case channelPermissions channel of
        None \<Rightarrow> ret (Inl ''invalid channel specified'')
      | Some permissions \<Rightarrow>
          (let tokenParams =
                 \<lparr>tp_Channels = [track @ ''/'' @ channel],
                  tp_Credentials = credentials sc,
                  tp_Description = ''tokenator-'' @ snap @ ''-'' @ track,
                  tp_Packages = [snap],
                  tp_Permissions = permissions,
                  tp_TTL = 60 * 60 * 24 * 365\<rparr>
           in on_err (StoreClient_login L W sc tokenParams)
                (Errorf ''failed to generate store token: '')
                (\<lambda>token. ret (Inr token))))"

section \<open>The repository client (internal/gh, RepoClient)\<close>

record RepoClient =
  rc_org :: string

definition NewRepoClient :: "string \<Rightarrow> string \<Rightarrow> RepoClient" where
  "NewRepoClient token org = \<lparr>rc_org = org\<rparr>"

text \<open>
  \<^verbatim>\<open>createEnvironment\<close>: the environment is created with its settings, then one
  deployment branch policy is added for the track's branch.
\<close>

definition createEnvironment :: "world \<Rightarrow> RepoClient \<Rightarrow> string \<Rightarrow> Track \<Rightarrow> (error + unit) io" where
  "createEnvironment W rc repo track =
     (let createArgs =
            \<lparr>CanAdminsBypass = Some True,
             DeploymentBranchPolicy =
               Some \<lparr>ProtectedBranches = Some False, CustomBranchPolicies = Some True\<rparr>,
             PreventSelfReview = Some True\<rparr>
      in on_err (perform (CreateUpdateEnv (rc_org rc) repo (Track_Environment track) createArgs)
                   (\<lambda>h. w_CreateUpdateEnv W h (rc_org rc) repo (Track_Environment track) createArgs))
           (Errorf ''failed to create branch policy: '')
           (\<lambda>_.
         on_err (perform (CreateDeploymentBranchPolicy (rc_org rc) repo (Track_Environment track)
                            (Track_Branch track))
                   (\<lambda>h. w_CreateDeploymentBranchPolicy W h (rc_org rc) repo
                          (Track_Environment track) (Track_Branch track)))
           (Errorf ''failed to create branch policy for environment: '')
           (\<lambda>_. ret (Inr ()))))"

text \<open>
  \<^verbatim>\<open>ensureEnvironment\<close> reads \<^verbatim>\<open>resp.StatusCode\<close> before it looks at the error: with no
  response at all the read is a nil dereference.
\<close>

definition ensureEnvironment :: "world \<Rightarrow> RepoClient \<Rightarrow> string \<Rightarrow> Track \<Rightarrow> (error + unit) io" where
  "ensureEnvironment W rc repo track =
     bnd (perform (GetEnvironment (rc_org rc) repo (Track_Environment track))
            (\<lambda>h. w_GetEnvironment W h (rc_org rc) repo (Track_Environment track)))
       (\<lambda>(resp, err).
     bnd (lift (deref resp))
       (\<lambda>StatusCode.
          if StatusCode = 404 then
            on_err (createEnvironment W rc repo track)
              (Errorf ''failed to create environment: '')
              (\<lambda>_. ret (Inr ()))
          else
            (case err of
               Some e \<Rightarrow> ret (Inl (Errorf ''failed to get environment: '' e))
             | None \<Rightarrow> ret (Inr ()))))"

text \<open>
  \<^verbatim>\<open>encryptSecret\<close>. The conversion \<^verbatim>\<open>(*[32]byte)(keyBytes)\<close> panics on a key shorter
  than 32 bytes, and uses the first 32 bytes of a longer one.
\<close>

definition encryptSecret ::
  "libs \<Rightarrow> world \<Rightarrow> RepoClient \<Rightarrow> Repository \<Rightarrow> string \<Rightarrow> string \<Rightarrow> string
   \<Rightarrow> (error + EncryptedSecret) io" where
  "encryptSecret L W rc repo envName secretName secretValue =
     bnd (lift (deref (Repository_ID repo)))
       (\<lambda>repoID.
     on_err (perform (GetEnvPublicKey repoID envName) (\<lambda>h. w_GetEnvPublicKey W h repoID envName))
       (Errorf ''failed to get environment public key: '')
       (\<lambda>key.
     bnd (lift (deref (Key key)))
       (\<lambda>keyText.
          case b64std_Decode L keyText of
            Inl e \<Rightarrow> ret (Inl (Errorf ''failed to decode key: '' e))
          | Inr keyBytes \<Rightarrow>
              if length keyBytes < 32 then
                panic ''cannot convert slice to array or pointer to array: length too short''
              else
                on_err (perform (SealAnonymous (take 32 keyBytes) secretValue)
                          (\<lambda>h. w_SealAnonymous W h (take 32 keyBytes) secretValue))
                  (Errorf ''failed to encrypt secret: '')
                  (\<lambda>encrypted.
                     bnd (lift (deref (KeyID key)))
                       (\<lambda>keyID.
                          ret (Inr \<lparr>Secret_Name = secretName,
                                    Secret_KeyID = keyID,
                                    Secret_EncryptedValue = b64std_Encode L encrypted\<rparr>))))))"

definition SetEnvSecret ::
  "libs \<Rightarrow> world \<Rightarrow> RepoClient \<Rightarrow> string \<Rightarrow> Track \<Rightarrow> string \<Rightarrow> string \<Rightarrow> (error + unit) io" where
  "SetEnvSecret L W rc repo track secretName secretValue =
     on_err (perform (ReposGet (rc_org rc) repo) (\<lambda>h. w_ReposGet W h (rc_org rc) repo))
       (Errorf ''failed to get repository: '')
       (\<lambda>r.
     on_err (ensureEnvironment W rc repo track)
       (Errorf ''failed to get environment: '')
       (\<lambda>_.
     on_err (encryptSecret L W rc r (Track_Environment track) secretName secretValue)
       (Errorf ''failed to encrypt secret: '')
       (\<lambda>secret.
     bnd (lift (deref (Repository_ID r)))
       (\<lambda>repoID.
     on_err (perform (CreateOrUpdateEnvSecret repoID (Track_Environment track) secret)
               (\<lambda>h. w_CreateOrUpdateEnvSecret W h repoID (Track_Environment track) secret))
       (Errorf ''failed to set secret in environment: '')
       (\<lambda>_. ret (Inr ()))))))"

section \<open>The application token (internal/gh/app_token.go)\<close>

text \<open>A plain exchange of \<^verbatim>\<open>http.Client\<close>: \<^verbatim>\<open>client.Do(req)\<close>.\<close>

definition client_Do :: "world \<Rightarrow> request \<Rightarrow> (error + (error + bytes)) io" where
  "client_Do W req = perform (HttpDo req) (\<lambda>h. w_HttpDo W h req)"

text \<open>\<^verbatim>\<open>encodeJWT\<close> reads the clock twice: for \<^verbatim>\<open>iat\<close>, and for \<^verbatim>\<open>exp\<close> ten minutes on.\<close>

definition encodeJWT :: "libs \<Rightarrow> world \<Rightarrow> int \<Rightarrow> string \<Rightarrow> (error + string) io" where
  "encodeJWT L W appId appSecret =
     bnd (perform TimeNow (w_TimeNow W))
       (\<lambda>now1.
     bnd (perform TimeNow (w_TimeNow W))
       (\<lambda>now2.
          (let token = \<lparr>iat = now1, exp = now2 + 10 * 60, iss = appId\<rparr>
           in case ParseRSAPrivateKeyFromPEM L appSecret of
                Inl e \<Rightarrow> ret (Inl (Errorf ''error parsing private key for JWT: '' e))
              | Inr key \<Rightarrow>
                  (case SignedString L token key of
                     Inl e \<Rightarrow> ret (Inl (Errorf ''error signing JWT: '' e))
                   | Inr jwt \<Rightarrow> ret (Inr jwt)))))"

definition getAppTokenEndpoint :: "libs \<Rightarrow> world \<Rightarrow> string \<Rightarrow> (error + string) io" where
  "getAppTokenEndpoint L W jwt =
     (case http_NewRequest L ''GET'' ''https://api.github.com/app/installations'' of
        Some e \<Rightarrow> ret (Inl (Errorf ''failed to construct installations endpoint request: '' e))
      | None \<Rightarrow>
          on_err (client_Do W
                    \<lparr>rq_method = ''GET'', rq_url = ''https://api.github.com/app/installations'',
                     rq_headers = [(''Authorization'', ''Bearer '' @ jwt),
                                   (''Accept'', ''application/vnd.github.v3+json'')],
                     rq_body = []\<rparr>)
            (Errorf ''failed to GET Github app installations endpoint: '')
            (\<lambda>resp.
               case resp of
                 Inl e \<Rightarrow> ret (Inl (Errorf ''failed to read response body: '' e))
               | Inr respBytes \<Rightarrow>
                   (case gjson_Get L respBytes ''0.access_tokens_url'' of
                      None \<Rightarrow> ret (Inl ''no access token URL found in response json'')
                    | Some accessTokensUrl \<Rightarrow> ret (Inr accessTokensUrl))))"

definition fetchAppToken :: "libs \<Rightarrow> world \<Rightarrow> string \<Rightarrow> string \<Rightarrow> (error + string) io" where
  "fetchAppToken L W url jwt =
     (case http_NewRequest L ''POST'' url of
        Some e \<Rightarrow> ret (Inl (Errorf ''failed to construct token request: '' e))
      | None \<Rightarrow>
          on_err (client_Do W
                    \<lparr>rq_method = ''POST'', rq_url = url,
                     rq_headers = [(''Authorization'', ''Bearer '' @ jwt),
                                   (''Accept'', ''application/vnd.github.v3+json'')],
                     rq_body = []\<rparr>)
            (Errorf ''failed to POST access token URL: '')
            (\<lambda>resp.
               case resp of
                 Inl e \<Rightarrow> ret (Inl (Errorf ''failed to read response body: '' e))
               | Inr respBytes \<Rightarrow>
                   (case gjson_Get L respBytes ''token'' of
                      None \<Rightarrow> ret (Inl ''no access token found in response json'')
                    | Some token \<Rightarrow> ret (Inr token))))"

definition GetAppToken :: "libs \<Rightarrow> world \<Rightarrow> GithubAppCredentials \<Rightarrow> (error + string) io" where
  "GetAppToken L W creds =
     on_err (encodeJWT L W (App_ID creds) (App_Secret creds))
       (Errorf ''failed to encode JWT for Github API: '')
       (\<lambda>jwt.
     on_err (getAppTokenEndpoint L W jwt)
       (Errorf ''failed to get token endpoint for app: '')
       (\<lambda>accessTokensUrl.
     on_err (fetchAppToken L W accessTokensUrl jwt)
       (Errorf ''failed to get token for app: '')
       (\<lambda>token. ret (Inr token))))"

section \<open>The organisation client (internal/gh, OrgClient)\<close>

record OrgClient =
  oc_org :: string
  oc_credentials :: GithubAppCredentials

definition NewOrgClient :: "GithubAppCredentials \<Rightarrow> string \<Rightarrow> OrgClient" where
  "NewOrgClient creds org = \<lparr>oc_org = org, oc_credentials = creds\<rparr>"

definition get_oc_token :: "string io" where
  "get_oc_token s = (Val (oc_token s), s)"

definition set_oc_token :: "string \<Rightarrow> unit io" where
  "set_oc_token t s = (Val (), s\<lparr>oc_token := t\<rparr>)"

text \<open>
  \<^verbatim>\<open>OrgClient.client\<close>: \<^verbatim>\<open>githubClient\<close> is nil from \<^verbatim>\<open>NewOrgClient\<close> on and is assigned
  nowhere, so every call mints a token, stores it in \<^verbatim>\<open>oc.token\<close> and returns a client
  built on it. The returned client is modelled by its token.
\<close>

definition OrgClient_client :: "libs \<Rightarrow> world \<Rightarrow> OrgClient \<Rightarrow> (error + string) io" where
  "OrgClient_client L W oc =
     on_err (GetAppToken L W (oc_credentials oc))
       (Errorf ''failed to create token for Github app: '')
       (\<lambda>token. bnd (set_oc_token token) (\<lambda>_. ret (Inr token)))"

definition listPATRequests :: "libs \<Rightarrow> world \<Rightarrow> OrgClient \<Rightarrow> (error + patRequest list) io" where
  "listPATRequests L W oc =
     (let url = ''https://api.github.com/orgs/'' @ oc_org oc @ ''/personal-access-token-requests''
      in case http_NewRequest L ''GET'' url of
           Some e \<Rightarrow> ret (Inl (Errorf ''failed to construct PAT list request: '' e))
         | None \<Rightarrow>
             bnd get_oc_token
               (\<lambda>token.
             on_err (client_Do W
                       \<lparr>rq_method = ''GET'', rq_url = url,
                        rq_headers = [(''Authorization'', ''Bearer '' @ token),
                                      (''Accept'', ''application/vnd.github.json''),
                                      (''X-GitHub-Api-Version'', ''2022-11-28'')],
                        rq_body = []\<rparr>)
               (Errorf ''failed to GET Github PAT list endpoint: '')
               (\<lambda>resp.
                  case resp of
                    Inl e \<Rightarrow> ret (Inl (Errorf ''failed to read response body: '' e))
                  | Inr respBytes \<Rightarrow>
                      (case Unmarshal_patRequests L respBytes of
                         Inl e \<Rightarrow> ret (Inl (Errorf ''failed to unmarshal PAT request: '' e))
                       | Inr ghPATReqs \<Rightarrow> ret (Inr ghPATReqs)))))"

definition listPATRequestRepositories ::
  "libs \<Rightarrow> world \<Rightarrow> OrgClient \<Rightarrow> patRequest \<Rightarrow> (error + Repository list) io" where
  "listPATRequestRepositories L W oc patReq =
     (case http_NewRequest L ''GET'' (RepositoriesURL patReq) of
        Some e \<Rightarrow> ret (Inl (Errorf ''failed to construct PAT request repo list request: '' e))
      | None \<Rightarrow>
          bnd get_oc_token
            (\<lambda>token.
          on_err (client_Do W
                    \<lparr>rq_method = ''GET'', rq_url = RepositoriesURL patReq,
                     rq_headers = [(''Authorization'', ''Bearer '' @ token),
                                   (''Accept'', ''application/vnd.github.json''),
                                   (''X-GitHub-Api-Version'', ''2022-11-28'')],
                     rq_body = []\<rparr>)
            (Errorf ''failed to GET Github PAT request repo list endpoint: '')
            (\<lambda>resp.
               case resp of
                 Inl e \<Rightarrow> ret (Inl (Errorf ''failed to read response body: '' e))
               | Inr respBytes \<Rightarrow>
                   (case Unmarshal_Repositories L respBytes of
                      Inl e \<Rightarrow> ret (Inl (Errorf ''failed to unmarshal PAT repos request: '' e))
                    | Inr repos \<Rightarrow> ret (Inr repos)))))"

text \<open>
  \<^verbatim>\<open>slices.ContainsFunc\<close> with the predicate \<^verbatim>\<open>*(r.FullName) == name\<close>: the elements are
  tried in order up to the first match, and a nil \<^verbatim>\<open>FullName\<close> met on the way panics.
\<close>

fun ContainsFullName :: "Repository list \<Rightarrow> string \<Rightarrow> bool outcome" where
  "ContainsFullName [] name = Val False"
| "ContainsFullName (r # rs) name =
     (case deref (FullName r) of
        Panic msg \<Rightarrow> Panic msg
      | Val n \<Rightarrow> if n = name then Val True else ContainsFullName rs name)"

text \<open>
  The loop of \<^verbatim>\<open>findPATRequest\<close> over the pending requests: the first request whose
  repository list has two entries and holds both names is returned.
\<close>

fun findPATRequest_loop ::
  "libs \<Rightarrow> world \<Rightarrow> OrgClient \<Rightarrow> string \<Rightarrow> patRequest list \<Rightarrow> (error + int) io" where
  "findPATRequest_loop L W oc repo [] =
     ret (Inl (''could not find PAT request for '' @ oc_org oc @ ''/'' @ repo))"
| "findPATRequest_loop L W oc repo (req # reqs) =
     on_err (listPATRequestRepositories L W oc req)
       (Errorf ''failed to list PAT request repositories: '')
       (\<lambda>repos.
          if length repos \<noteq> 2 then findPATRequest_loop L W oc repo reqs
          else
            bnd (lift (ContainsFullName repos (oc_org oc @ ''/'' @ repo)))
              (\<lambda>containsSnapRepo.
            bnd (lift (ContainsFullName repos (oc_org oc @ ''/ci-screenshots'')))
              (\<lambda>containsScreenshotRepo.
                 if containsScreenshotRepo \<and> containsSnapRepo then ret (Inr (patRequest_ID req))
                 else findPATRequest_loop L W oc repo reqs)))"

definition findPATRequest :: "libs \<Rightarrow> world \<Rightarrow> OrgClient \<Rightarrow> string \<Rightarrow> (error + int) io" where
  "findPATRequest L W oc repo =
     on_err (listPATRequests L W oc)
       (Errorf ''failed to list PAT requests: '')
       (\<lambda>reqs. findPATRequest_loop L W oc repo reqs)"

text \<open>
  \<^verbatim>\<open>ApprovePATRequest\<close>. An error of \<^verbatim>\<open>findPATRequest\<close> is replaced, not wrapped, by the
  message that no request was found.
\<close>

definition ApprovePATRequest :: "libs \<Rightarrow> world \<Rightarrow> OrgClient \<Rightarrow> string \<Rightarrow> (error + unit) io" where
  "ApprovePATRequest L W oc repo =
     on_err (OrgClient_client L W oc)
       (Errorf ''unable to get org client: '')
       (\<lambda>client.
     on_err (findPATRequest L W oc repo)
       (\<lambda>e. ''could not find PAT request for '' @ oc_org oc @ ''/'' @ repo)
       (\<lambda>requestId.
     on_err (perform (ReviewPersonalAccessTokenRequest (oc_org oc) requestId ''approve'')
               (\<lambda>h. w_Review W h (oc_org oc) requestId ''approve''))
       (Errorf ''failed to approve personal access token request: '')
       (\<lambda>_. ret (Inr ()))))"

section \<open>Strings and form values\<close>

text \<open>
  \<^verbatim>\<open>strings.Contains(s, substr)\<close>: \<open>substr\<close> occurs in \<open>s\<close> as a contiguous run of bytes.
\<close>

definition Contains :: "string \<Rightarrow> string \<Rightarrow> bool" where
  "Contains s substr = sublist substr s"

text \<open>
  \<^verbatim>\<open>strings.Split(s, sep)\<close> for a separator that is not empty: the pieces of \<open>s\<close> between
  the occurrences of \<open>sep\<close>, found from the left; a string without the separator is
  returned whole, as the only piece. (An empty separator, which the program never
  passes, splits after every character.)
\<close>

function Split_from :: "string \<Rightarrow> string \<Rightarrow> string \<Rightarrow> string list" where
  "Split_from sep cur rest =
     (if sep \<noteq> [] \<and> prefix sep rest then cur # Split_from sep [] (drop (length sep) rest)
      else (case rest of
              [] \<Rightarrow> [cur]
            | c # cs \<Rightarrow> Split_from sep (cur @ [c]) cs))"
  by pat_completeness auto
termination
  by (relation "measure (\<lambda>(sep, cur, rest). length rest)") (auto simp: prefix_def)

declare Split_from.simps [simp del]

definition Split :: "string \<Rightarrow> string \<Rightarrow> string list" where
  "Split s sep = (if sep = [] then map (\<lambda>c. [c]) s else Split_from sep [] s)"

text \<open>
  \<^verbatim>\<open>strings.ToUpper\<close> on the ASCII letters; every other byte is kept. (The program
  applies it to the channel names only.)
\<close>

definition ToUpper :: "string \<Rightarrow> string" where
  "ToUpper s =
     map (\<lambda>c. case map_of (zip ''abcdefghijklmnopqrstuvwxyz'' ''ABCDEFGHIJKLMNOPQRSTUVWXYZ'') c of
                 None \<Rightarrow> c
               | Some u \<Rightarrow> u) s"

text \<open>
  \<^verbatim>\<open>url.Values\<close>: the keys with their values, here in the order the keys were first set.
  \<^verbatim>\<open>Set\<close> replaces the values of a key, \<^verbatim>\<open>Add\<close> appends one.
\<close>

fun Values_Set :: "(string \<times> string list) list \<Rightarrow> string \<Rightarrow> string \<Rightarrow> (string \<times> string list) list" where
  "Values_Set [] k v = [(k, [v])]"
| "Values_Set ((k', vs) # rest) k v =
     (if k' = k then (k, [v]) # rest else (k', vs) # Values_Set rest k v)"

fun Values_Add :: "(string \<times> string list) list \<Rightarrow> string \<Rightarrow> string \<Rightarrow> (string \<times> string list) list" where
  "Values_Add [] k v = [(k, [v])]"
| "Values_Add ((k', vs) # rest) k v =
     (if k' = k then (k, vs @ [v]) # rest else (k', vs) # Values_Add rest k v)"

section \<open>The personal-access-token client (internal/gh, PATClient)\<close>

record PAT =
  PAT_ID :: string
  PAT_Name :: string
  PAT_Token :: string
  deleteToken :: string

record PATClient =
  username :: string
  password :: string

definition NewPATClient :: "LoginCredentials \<Rightarrow> PATClient" where
  "NewPATClient creds = \<lparr>username = Login creds, password = Password creds\<rparr>"

text \<open>\<^verbatim>\<open>getWebpage\<close> and \<^verbatim>\<open>postForm\<close> return either error as it is.\<close>

definition getWebpage :: "world \<Rightarrow> string \<Rightarrow> (error + doc) io" where
  "getWebpage W url =
     bnd (perform (WebGet url) (\<lambda>h. w_WebGet W h url))
       (\<lambda>r. case r of
               Inl e \<Rightarrow> ret (Inl e)
             | Inr parsed \<Rightarrow> (case parsed of Inl e \<Rightarrow> ret (Inl e) | Inr d \<Rightarrow> ret (Inr d)))"

definition postForm :: "world \<Rightarrow> string \<Rightarrow> (string \<times> string list) list \<Rightarrow> (error + doc) io" where
  "postForm W url formFields =
     bnd (perform (WebPostForm url formFields) (\<lambda>h. w_WebPostForm W h url formFields))
       (\<lambda>r. case r of
               Inl e \<Rightarrow> ret (Inl e)
             | Inr parsed \<Rightarrow> (case parsed of Inl e \<Rightarrow> ret (Inl e) | Inr d \<Rightarrow> ret (Inr d)))"

text \<open>
  \<^verbatim>\<open>PATClient.login\<close> returns \<^verbatim>\<open>(true, nil)\<close> or \<^verbatim>\<open>(false, err)\<close>: \<open>Inr ()\<close> or \<open>Inl err\<close>.
  The banner text of a refused login is lower-cased and used as the format of
  \<^verbatim>\<open>fmt.Errorf\<close>.
\<close>

definition PATClient_login :: "libs \<Rightarrow> world \<Rightarrow> PATClient \<Rightarrow> (error + unit) io" where
  "PATClient_login L W pc =
     on_err (perform (WebHead ''https://github.com/settings/'')
               (\<lambda>h. w_WebHead W h ''https://github.com/settings/''))
       (\<lambda>e. ''failed to detect Github session login status'')
       (\<lambda>path.
          if path \<noteq> ''/login'' then ret (Inr ())
          else
            on_err (getWebpage W ''https://github.com/login'')
              (\<lambda>e. ''failed to parse Github login page'')
              (\<lambda>page.
                 (let hidden = foldl (\<lambda>f (name, v). Values_Set f name v) [] (doc_hidden_inputs page);
                      formFields = Values_Set (Values_Set hidden ''login'' (username pc))
                                 ''password'' (password pc)
                  in on_err (postForm W ''https://github.com/session'' formFields)
                       (\<lambda>e. ''failed to parse Github login form response'')
                       (\<lambda>answer.
                          case doc_flash_errors answer of
                            [] \<Rightarrow> ret (Inr ())
                          | errorMsg # _ \<Rightarrow> ret (Inl (Errorf0 L (ToLower L errorMsg)))))))"

text \<open>\<^verbatim>\<open>PAT.Delete\<close>.\<close>

definition PAT_Delete :: "libs \<Rightarrow> world \<Rightarrow> PATClient \<Rightarrow> PAT \<Rightarrow> (error + unit) io" where
  "PAT_Delete L W pc p =
     on_err (PATClient_login L W pc)
       (Errorf ''error deleting personal access token: '')
       (\<lambda>_.
          (let formFields = Values_Set (Values_Set [] ''_method'' ''delete'')
                          ''authenticity_token'' (deleteToken p);
               url = ''https://github.com/settings/personal-access-tokens/'' @ PAT_ID p
           in on_err (postForm W url formFields)
                (Errorf ''error deleting personal access token: '')
                (\<lambda>_. ret (Inr ()))))"

definition parsePATListPage :: "doc \<Rightarrow> string \<Rightarrow> PAT list" where
  "parsePATListPage page flt =
     map (\<lambda>s. \<lparr>PAT_ID = (case te_data_id s of None \<Rightarrow> [] | Some v \<Rightarrow> v),
               PAT_Name = te_link_text s,
               PAT_Token = [],
               deleteToken = (case te_authenticity_token s of None \<Rightarrow> [] | Some v \<Rightarrow> v)\<rparr>)
       (filter (\<lambda>s. Contains (te_link_text s) flt) (doc_access_tokens page))"

text \<open>
  \<^verbatim>\<open>PATClient.List\<close> fetches the pages after the first in goroutines that append to one
  slice. The model runs them one after the other in page order, which is one of the
  schedules: every page is fetched, and the error returned is that of the first page that
  failed.
\<close>

fun List_pages ::
  "libs \<Rightarrow> world \<Rightarrow> string \<Rightarrow> int list \<Rightarrow> PAT list \<Rightarrow> error option \<Rightarrow> (error + PAT list) io" where
  "List_pages L W flt [] accessTokens err =
     ret (case err of Some e \<Rightarrow> Inl e | None \<Rightarrow> Inr accessTokens)"
| "List_pages L W flt (j # js) accessTokens err =
     bnd (getWebpage W (''https://github.com/settings/tokens?page='' @ Itoa L j @ ''&type=beta''))
       (\<lambda>r. case r of
               Inl e \<Rightarrow>
                 List_pages L W flt js accessTokens
                   (case err of
                      None \<Rightarrow> Some (''failed to parse personal access tokens page '' @ Itoa L j)
                    | Some e0 \<Rightarrow> Some e0)
             | Inr page \<Rightarrow> List_pages L W flt js (accessTokens @ parsePATListPage page flt) err)"

definition PATClient_List :: "libs \<Rightarrow> world \<Rightarrow> PATClient \<Rightarrow> string \<Rightarrow> (error + PAT list) io" where
  "PATClient_List L W pc flt =
     on_err (PATClient_login L W pc)
       (Errorf ''failed to login to Github: '')
       (\<lambda>_.
     on_err (getWebpage W ''https://github.com/settings/tokens?page=1&type=beta'')
       (Errorf ''failed to get personal access tokens page: '')
       (\<lambda>page.
          (let accessTokens = parsePATListPage page flt;
               pageCount = (case Atoi L (case doc_total_pages page of None \<Rightarrow> ''1'' | Some v \<Rightarrow> v) of
                              Inl e \<Rightarrow> 0
                            | Inr n \<Rightarrow> n)
           in List_pages L W flt [2..pageCount] accessTokens None)))"

definition getRepositoryID :: "libs \<Rightarrow> world \<Rightarrow> PATClient \<Rightarrow> string \<Rightarrow> string \<Rightarrow> (error + string) io" where
  "getRepositoryID L W pc owner repo =
     (case http_NewRequest L ''GET'' ''https://github.com/settings/personal-access-tokens/suggestions'' of
        Some e \<Rightarrow> ret (Inl ''failed to setup request to repository suggestions endpoint'')
      | None \<Rightarrow>
          (let q = Values_Add (Values_Add [] ''target_name'' owner) ''q'' repo;
               req = \<lparr>rq_method = ''GET'',
                      rq_url = ''https://github.com/settings/personal-access-tokens/suggestions?''
                               @ Values_Encode L q,
                      rq_headers = [(''Accept'', ''text/fragment+html'')],
                      rq_body = []\<rparr>
           in on_err (perform (WebDo req) (\<lambda>h. w_WebDo W h req))
                (\<lambda>e. ''failed to poll repository suggestions endpoint'')
                (\<lambda>parsed.
                   case parsed of
                     Inl e \<Rightarrow> ret (Inl ''failed to parse repository suggestions endpoint'')
                   | Inr page \<Rightarrow>
                       (case map_of (doc_remove_buttons page) repo of
                          None \<Rightarrow> ret (Inl (''failed to find repository id for '' @ owner @ ''/'' @ repo))
                        | Some repoID \<Rightarrow> ret (Inr repoID)))))"

text \<open>
  The loop of \<^verbatim>\<open>Create\<close> that resolves the repositories: each name is split at
  \<^verbatim>\<open>"/"\<close> and the first two pieces, \<^verbatim>\<open>r[0]\<close> and \<^verbatim>\<open>r[1]\<close>, are read.
\<close>

fun Create_repoIDs ::
  "libs \<Rightarrow> world \<Rightarrow> PATClient \<Rightarrow> string list \<Rightarrow> string list \<Rightarrow> (error + string list) io" where
  "Create_repoIDs L W pc repoIDs [] = ret (Inr repoIDs)"
| "Create_repoIDs L W pc repoIDs (repo # repos) =
     (let r = Split repo ''/''
      in bnd (lift (index r 0))
           (\<lambda>r0.
         bnd (lift (index r 1))
           (\<lambda>r1.
         on_err (getRepositoryID L W pc r0 r1)
           (Errorf (''failed to get repo ID for '' @ repo @ '': ''))
           (\<lambda>repoID. Create_repoIDs L W pc (repoIDs @ [repoID]) repos))))"

definition Create ::
  "libs \<Rightarrow> world \<Rightarrow> PATClient \<Rightarrow> string \<Rightarrow> string list \<Rightarrow> string \<Rightarrow> (error + PAT) io" where
  "Create L W pc name repos resourceOwner =
     on_err (PATClient_login L W pc)
       (\<lambda>e. e)
       (\<lambda>_.
     on_err (getWebpage W ''https://github.com/settings/personal-access-tokens/new'')
       (Errorf ''failed to get the personal access token form: '')
       (\<lambda>form.
          case doc_new_form_token form of
            None \<Rightarrow> ret (Inl ''failed to identify authenticity token on personal access token form'')
          | Some createToken \<Rightarrow>
     on_err (Create_repoIDs L W pc [] repos)
       (\<lambda>e. e)
       (\<lambda>repoIDs.
     bnd (perform TimeNow (w_TimeNow W))
       (\<lambda>now.
          (let expiry = next_year_date L now;
               formFields0 =
                 foldl (\<lambda>f (k, v). Values_Set f k v) []
                   [(''authenticity_token'', createToken),
                    (''user_programmatic_access[name]'', name),
                    (''user_programmatic_access[default_expires_at]'', ''custom''),
                    (''user_programmatic_access[custom_expires_at]'', expiry),
                    (''user_programmatic_access[description]'', ''''),
                    (''target_name'', resourceOwner),
                    (''install_target'', ''selected''),
                    (''integration[default_permissions][contents]'', ''write''),
                    (''integration[default_permissions][metadata]'', ''read'')];
               formFields = foldl (\<lambda>f repoID. Values_Add f ''repository_ids[]'' repoID) formFields0 repoIDs
           in on_err (postForm W ''https://github.com/settings/personal-access-tokens'' formFields)
                (Errorf ''failed to POST personal access token form: '')
                (\<lambda>answer.
                   (let tokenElem =
                          (case doc_access_tokens answer of
                             [] \<Rightarrow> \<lparr>te_data_id = None, te_link_text = [],
                                    te_authenticity_token = None, te_new_access_token = None\<rparr>
                           | el # _ \<Rightarrow> el)
                    in case te_new_access_token tokenElem of
                         None \<Rightarrow> ret (Inl (ToLower L (doc_error_text answer)))
                       | Some tokenValue \<Rightarrow>
                           (case te_data_id tokenElem of
                              None \<Rightarrow> ret (Inl ''failed to retrieve ID of new personal access token'')
                            | Some tokenId \<Rightarrow>
                                (case te_authenticity_token tokenElem of
                                   None \<Rightarrow>
                                     ret (Inl ''failed to retrieve delete token for new personal access token'')
                                 | Some delToken \<Rightarrow>
                                     ret (Inr \<lparr>PAT_ID = tokenId, PAT_Name = name,
                                               PAT_Token = tokenValue,
                                               deleteToken = delToken\<rparr>))))))))))"

section \<open>The manager (internal/tokenator/manager.go)\<close>

record Manager =
  m_id :: string
  m_config :: Config
  m_credentials :: Credentials
  orgClient :: OrgClient
  patClient :: PATClient
  repoClient :: RepoClient
  storeClient :: StoreClient

text \<open>
  \<^verbatim>\<open>generateID\<close>: the first four characters of the SHA-256 of the Unix time, printed
  in hexadecimal.
\<close>

definition generateID :: "libs \<Rightarrow> world \<Rightarrow> string io" where
  "generateID L W =
     bnd (perform TimeNow (w_TimeNow W))
       (\<lambda>now.
          (let digest = sha256_hex L (Itoa L now)
           in if length digest < 4 then panic ''runtime error: slice bounds out of range''
              else ret (take 4 digest)))"

definition NewManager :: "libs \<Rightarrow> world \<Rightarrow> Config \<Rightarrow> Credentials \<Rightarrow> Manager io" where
  "NewManager L W cfg creds =
     bnd (generateID L W)
       (\<lambda>ident.
          ret \<lparr>m_id = ident,
               m_config = cfg,
               m_credentials = creds,
               orgClient = NewOrgClient (GithubApp creds) (Config_Org cfg),
               patClient = NewPATClient (Bot creds),
               repoClient = NewRepoClient (GithubToken creds) (Config_Org cfg),
               storeClient = NewSnapStoreClient (SnapStore creds)\<rparr>)"

definition filterRepos :: "Manager \<Rightarrow> string list \<Rightarrow> Repo list" where
  "filterRepos m flt =
     (if length flt > 0 then filter (\<lambda>repo. Repo_Name repo \<in> set flt) (Config_Repos (m_config m))
      else Config_Repos (m_config m))"

definition setLaunchpadSecret :: "libs \<Rightarrow> world \<Rightarrow> Manager \<Rightarrow> string \<Rightarrow> Track \<Rightarrow> (error + unit) io" where
  "setLaunchpadSecret L W m snap track =
     on_err (SetEnvSecret L W (repoClient m) snap track ''LP_BUILD_SECRET'' (Launchpad (m_credentials m)))
       (Errorf ''failed to set LP_BUILD_SECRET secret: '')
       (\<lambda>_. ret (Inr ()))"

definition setStoreSecret ::
  "libs \<Rightarrow> world \<Rightarrow> Manager \<Rightarrow> string \<Rightarrow> Track \<Rightarrow> string \<Rightarrow> (error + unit) io" where
  "setStoreSecret L W m snap track channel =
     on_err (GenerateStoreToken L W (storeClient m) snap (Track_Name track) channel)
       (\<lambda>e. e)
       (\<lambda>token.
          (let secretName = ''SNAP_STORE_'' @ ToUpper channel
           in on_err (SetEnvSecret L W (repoClient m) snap track secretName token)
                (Errorf (''failed to set '' @ secretName @ '' secret: ''))
                (\<lambda>_. ret (Inr ()))))"

text \<open>
  The clean-up loop of \<^verbatim>\<open>setBotCommitSecret\<close> over the tokens listed at the start of
  the run: a token is deleted when its name contains \<^verbatim>\<open><snap>-<track>\<close> and does not
  contain the manager's id; the first deletion that fails ends the loop.
\<close>

fun cleanup_loop ::
  "libs \<Rightarrow> world \<Rightarrow> Manager \<Rightarrow> string \<Rightarrow> Track \<Rightarrow> PAT list \<Rightarrow> (error + unit) io" where
  "cleanup_loop L W m snap track [] = ret (Inr ())"
| "cleanup_loop L W m snap track (pat # pats) =
     (let patSuffix = snap @ ''-'' @ Track_Name track
      in if Contains (PAT_Name pat) patSuffix \<and> \<not> Contains (PAT_Name pat) (m_id m) then
           on_err (PAT_Delete L W (patClient m) pat)
             (Errorf ''failed to delete personal access token: '')
             (\<lambda>_. cleanup_loop L W m snap track pats)
         else cleanup_loop L W m snap track pats)"

definition setBotCommitSecret ::
  "libs \<Rightarrow> world \<Rightarrow> Manager \<Rightarrow> string \<Rightarrow> Track \<Rightarrow> PAT list \<Rightarrow> (error + unit) io" where
  "setBotCommitSecret L W m snap track pats =
     (let fullName = Config_Org (m_config m) @ ''/'' @ snap;
          tokenRepos = [fullName, ''snapcrafters/ci-screenshots'']
      in on_err (Create L W (patClient m)
                   (''token8r-'' @ m_id m @ ''-'' @ snap @ ''-'' @ Track_Name track)
                   tokenRepos (Config_Org (m_config m)))
           (Errorf ''failed to create personal access token: '')
           (\<lambda>pat.
         on_err (ApprovePATRequest L W (orgClient m) snap)
           (Errorf ''failed to approve personal access token request: '')
           (\<lambda>_.
         on_err (SetEnvSecret L W (repoClient m) snap track ''SNAPCRAFTERS_BOT_COMMIT'' (PAT_Token pat))
           (Errorf ''failed to set SNAPCRAFTERS_BOT_COMMIT secret: '')
           (\<lambda>_. cleanup_loop L W m snap track pats))))"

text \<open>The inner loop of \<^verbatim>\<open>Process\<close>, over the tracks of one repository.\<close>

fun Process_tracks ::
  "libs \<Rightarrow> world \<Rightarrow> Manager \<Rightarrow> PAT list \<Rightarrow> Repo \<Rightarrow> Track list \<Rightarrow> (error + unit) io" where
  "Process_tracks L W m pats repo [] = ret (Inr ())"
| "Process_tracks L W m pats repo (track # tracks) =
     on_err (setStoreSecret L W m (Repo_Name repo) track ''candidate'')
       (Errorf (''failed to set '' @ Track_Name track @ ''/candidate store secret: ''))
       (\<lambda>_.
     on_err (setStoreSecret L W m (Repo_Name repo) track ''stable'')
       (Errorf (''failed to set '' @ Track_Name track @ ''/stable store secret: ''))
       (\<lambda>_.
     on_err (setLaunchpadSecret L W m (Repo_Name repo) track)
       (Errorf ''failed to set Launchpad secret: '')
       (\<lambda>_.
     on_err (setBotCommitSecret L W m (Repo_Name repo) track pats)
       (Errorf ''failed to set bot commit secret: '')
       (\<lambda>_. Process_tracks L W m pats repo tracks))))"

text \<open>
  The outer loop of \<^verbatim>\<open>Process\<close>, over the repositories: a repository with no track
  gets the defaults (on the loop's copy of it), then its tracks are processed.
\<close>

fun Process_repos ::
  "libs \<Rightarrow> world \<Rightarrow> Manager \<Rightarrow> PAT list \<Rightarrow> Repo list \<Rightarrow> (error + unit) io" where
  "Process_repos L W m pats [] = ret (Inr ())"
| "Process_repos L W m pats (repo # repos) =
     (let repo' = (if length (Repo_Tracks repo) = 0 then SetDefaults repo else repo)
      in on_err (Process_tracks L W m pats repo' (Repo_Tracks repo'))
           (\<lambda>e. e)
           (\<lambda>_. Process_repos L W m pats repos))"

definition Process :: "libs \<Rightarrow> world \<Rightarrow> Manager \<Rightarrow> string list \<Rightarrow> (error + unit) io" where
  "Process L W m flt =
     on_err (PATClient_List L W (patClient m) ''token8r'')
       (Errorf ''failed to list personal access tokens: '')
       (\<lambda>pats. Process_repos L W m pats (filterRepos m flt))"

section \<open>The command (main.go)\<close>

definition parseCreds :: "world \<Rightarrow> error + Credentials" where
  "parseCreds W =
     Inr \<lparr>GithubToken = w_GetString W ''snapcrafters_org_pat'',
          SnapStore = \<lparr>Login = w_GetString W ''snapcraft_login'',
                       Password = w_GetString W ''snapcraft_password'',
                       TOTPSecret = []\<rparr>,
          Launchpad = w_GetString W ''lp_auth'',
          Bot = \<lparr>Login = w_GetString W ''snapcrafters_bot_login'',
                 Password = w_GetString W ''snapcrafters_bot_password'',
                 TOTPSecret = []\<rparr>,
          GithubApp = \<lparr>App_ID = w_GetInt W ''app_id'', App_Secret = w_GetString W ''app_secret''\<rparr>\<rparr>"

definition parseConfig :: "world \<Rightarrow> (error + Config) io" where
  "parseConfig W =
     bnd (perform ReadInConfig (w_ReadInConfig W))
       (\<lambda>err.
          case err of
            Some ConfigFileNotFoundError \<Rightarrow>
              ret (Inl ''no config file found, see 'tokenator --help' for details'')
          | Some OtherConfigError \<Rightarrow> ret (Inl ''error parsing tokenator config file'')
          | None \<Rightarrow>
              bnd (perform ViperUnmarshal (w_ViperUnmarshal W))
                (\<lambda>r. case r of
                        Inl e \<Rightarrow> ret (Inl ''error parsing tokenator config file'')
                      | Inr conf \<Rightarrow> ret (Inr conf)))"

text \<open>
  The \<^verbatim>\<open>RunE\<close> function of the root command, for the repositories given on the command
  line. An error of \<^verbatim>\<open>Process\<close> is logged; the function then returns nil.
\<close>

definition RunE :: "libs \<Rightarrow> world \<Rightarrow> string list \<Rightarrow> (error + unit) io" where
  "RunE L W repositories =
     on_err (parseConfig W)
       (Errorf ''failed to parse config: '')
       (\<lambda>cfg.
     on_err (ret (parseCreds W))
       (Errorf ''failed to parse credentials: '')
       (\<lambda>creds.
     bnd (NewManager L W cfg creds)
       (\<lambda>mgr.
     bnd (Process L W mgr repositories)
       (\<lambda>err.
          case err of
            Inl e \<Rightarrow> bnd (perform (SlogError e) (\<lambda>h. ())) (\<lambda>_. ret (Inr ()))
          | Inr _ \<Rightarrow> ret (Inr ())))))"

text \<open>
  \<^verbatim>\<open>rootCmd.Execute()\<close>: the command-line parser returns its own error, or returns nil
  after printing the help or the version, or runs \<^verbatim>\<open>RunE\<close> and returns its error.
\<close>

definition Execute :: "libs \<Rightarrow> world \<Rightarrow> (error + unit) io" where
  "Execute L W =
     (case w_Flags W of
        FlagError e \<Rightarrow> ret (Inl e)
      | HelpOrVersion \<Rightarrow> ret (Inr ())
      | Run repositories verbose \<Rightarrow> RunE L W repositories)"

text \<open>
  \<^verbatim>\<open>main\<close>, by the exit status of the process: 1 through \<^verbatim>\<open>os.Exit(1)\<close> after an error
  of \<^verbatim>\<open>Execute\<close>, 0 when \<^verbatim>\<open>main\<close> returns.
\<close>

definition main :: "libs \<Rightarrow> world \<Rightarrow> int io" where
  "main L W =
     bnd (Execute L W)
       (\<lambda>err.
          case err of
            Inl e \<Rightarrow> bnd (perform (SlogError e) (\<lambda>h. ())) (\<lambda>_. ret 1)
          | Inr _ \<Rightarrow> ret 0)"

section \<open>Observing the calls\<close>

text \<open>
  A computation appends when the calls it leaves are the calls it found, followed by its
  own. It issues \<open>c\<close> first, from the state \<open>s\<close>, when the first call it adds is \<open>c\<close>.
\<close>

definition appends :: "'a io \<Rightarrow> bool" where
  "appends m = (\<forall>s. prefix (calls s) (calls (snd (m s))))"

definition issues_first :: "call \<Rightarrow> 'a io \<Rightarrow> mstate \<Rightarrow> bool" where
  "issues_first c m s = (\<exists>rest. calls (snd (m s)) = calls s @ c # rest)"

text \<open>The calls a computation adds to those of \<open>s\<close>.\<close>

definition new_calls :: "'a io \<Rightarrow> mstate \<Rightarrow> call list" where
  "new_calls m s = drop (length (calls s)) (calls (snd (m s)))"

section \<open>Reading a credential back\<close>

text \<open>
  A JSON value decodes as a binary macaroon when it is a string that the raw URL base64
  decoding and then \<^verbatim>\<open>UnmarshalBinary\<close> accept: the two steps by which the program itself
  reads a macaroon out of a response.
\<close>

definition decode_macaroon :: "libs \<Rightarrow> json \<Rightarrow> Macaroon option" where
  "decode_macaroon L j =
     (case j of
        JStr text \<Rightarrow>
          (case b64raw_Decode L text of
             Inl e \<Rightarrow> None
           | Inr b \<Rightarrow> (case UnmarshalBinary L b of Inl e \<Rightarrow> None | Inr m \<Rightarrow> Some m))
      | _ \<Rightarrow> None)"

text \<open>
  The credential \<open>cred\<close> is the standard base64 encoding of the JSON text of \<open>j\<close>: decoding
  \<open>cred\<close> from base64 and then from JSON yields \<open>j\<close>.
\<close>

definition encodes_credential :: "libs \<Rightarrow> json \<Rightarrow> string \<Rightarrow> bool" where
  "encodes_credential L j cred =
     (case json_Marshal L j of Inl e \<Rightarrow> False | Inr b \<Rightarrow> b64std_Encode L b = cred)"

text \<open>An object with exactly two members, both of which decode as binary macaroons.\<close>

definition two_macaroon_fields :: "libs \<Rightarrow> json \<Rightarrow> bool" where
  "two_macaroon_fields L j =
     (case j of
        JObj [(k1, v1), (k2, v2)] \<Rightarrow> decode_macaroon L v1 \<noteq> None \<and> decode_macaroon L v2 \<noteq> None
      | _ \<Rightarrow> False)"

section \<open>Calls of the repository client\<close>

definition is_env_creation :: "call \<Rightarrow> bool" where
  "is_env_creation c = (case c of CreateUpdateEnv org repo env args \<Rightarrow> True | _ \<Rightarrow> False)"

definition is_secret_upload :: "call \<Rightarrow> bool" where
  "is_secret_upload c = (case c of CreateOrUpdateEnvSecret repoID env secret \<Rightarrow> True | _ \<Rightarrow> False)"

text \<open>
  The settings \<^verbatim>\<open>createEnvironment\<close> asks for: administrators may bypass, self-review is
  prevented, and the deployment branches follow custom policies, not the protected
  branches.
\<close>

definition created_env_settings :: CreateUpdateEnvironment where
  "created_env_settings =
     \<lparr>CanAdminsBypass = Some True,
      DeploymentBranchPolicy =
        Some \<lparr>ProtectedBranches = Some False, CustomBranchPolicies = Some True\<rparr>,
      PreventSelfReview = Some True\<rparr>"

text \<open>Every call a computation adds satisfies \<open>Q\<close>.\<close>

definition adds_only :: "(call \<Rightarrow> bool) \<Rightarrow> 'a io \<Rightarrow> bool" where
  "adds_only Q m = (\<forall>s. \<exists>xs. calls (snd (m s)) = calls s @ xs \<and> list_all Q xs)"

text \<open>From \<open>s\<close>, the first call a computation adds is \<open>c\<close>, and every later one satisfies \<open>Q\<close>.\<close>

definition first_then :: "call \<Rightarrow> (call \<Rightarrow> bool) \<Rightarrow> 'a io \<Rightarrow> mstate \<Rightarrow> bool" where
  "first_then c Q m s = (\<exists>xs. calls (snd (m s)) = calls s @ c # xs \<and> list_all Q xs)"

section \<open>Calls of the organisation client\<close>

definition is_review :: "call \<Rightarrow> bool" where
  "is_review c = (case c of ReviewPersonalAccessTokenRequest org requestId action \<Rightarrow> True | _ \<Rightarrow> False)"

text \<open>
  The repository list of a pending request matches when it has exactly two entries and
  holds both the repository \<^verbatim>\<open><org>/<repo>\<close> and the repository \<^verbatim>\<open><org>/ci-screenshots\<close>.
\<close>

definition request_matches :: "string \<Rightarrow> string \<Rightarrow> Repository list \<Rightarrow> bool" where
  "request_matches org repo repos =
     (length repos = 2 \<and>
      Some (org @ ''/'' @ repo) \<in> set (map FullName repos) \<and>
      Some (org @ ''/ci-screenshots'') \<in> set (map FullName repos))"

text \<open>Every repository of the list has a name (no nil \<^verbatim>\<open>FullName\<close>).\<close>

definition named :: "Repository list \<Rightarrow> bool" where
  "named repos = list_all (\<lambda>r. FullName r \<noteq> None) repos"

text \<open>
  The request by which \<^verbatim>\<open>listPATRequestRepositories\<close> fetches the repositories of the
  pending request \<open>q\<close> with the bearer token \<open>token\<close>.
\<close>

definition listing_call :: "string \<Rightarrow> patRequest \<Rightarrow> call" where
  "listing_call token q =
     HttpDo \<lparr>rq_method = ''GET'', rq_url = RepositoriesURL q,
             rq_headers = [(''Authorization'', ''Bearer '' @ token),
                           (''Accept'', ''application/vnd.github.json''),
                           (''X-GitHub-Api-Version'', ''2022-11-28'')],
             rq_body = []\<rparr>"

text \<open>
  From the state \<open>s\<close>, the repositories of the requests \<open>qs\<close> are fetched one after the
  other, each fetch succeeds, and none of the lists matches: each has another length than
  two, or has only named repositories and lacks one of the two names. The result is the
  state after the last fetch.
\<close>

fun skips :: "libs \<Rightarrow> world \<Rightarrow> OrgClient \<Rightarrow> string \<Rightarrow> patRequest list \<Rightarrow> mstate \<Rightarrow> mstate option" where
  "skips L W oc repo [] s = Some s"
| "skips L W oc repo (q # qs) s =
     (case listPATRequestRepositories L W oc q s of
        (Val (Inr repos), s') \<Rightarrow>
          if length repos \<noteq> 2 \<or> (named repos \<and> \<not> request_matches (oc_org oc) repo repos)
          then skips L W oc repo qs s' else None
      | _ \<Rightarrow> None)"

section \<open>Calls of the personal-access-token client\<close>

text \<open>The form post by which \<^verbatim>\<open>PAT.Delete\<close> deletes the token \<open>p\<close>.\<close>

definition delete_call :: "PAT \<Rightarrow> call" where
  "delete_call p =
     WebPostForm (''https://github.com/settings/personal-access-tokens/'' @ PAT_ID p)
       [(''_method'', [''delete'']), (''authenticity_token'', [deleteToken p])]"

text \<open>
  A call deletes a token when it posts a form to the page of one token,
  \<^verbatim>\<open>https://github.com/settings/personal-access-tokens/<id>\<close>.
\<close>

definition is_delete :: "call \<Rightarrow> bool" where
  "is_delete c =
     (case c of
        WebPostForm url formFields \<Rightarrow> prefix ''https://github.com/settings/personal-access-tokens/'' url
      | _ \<Rightarrow> False)"

text \<open>
  The computation deletes the tokens \<open>ps\<close>: whatever it returns, the deletions among its
  calls are those of an initial part of \<open>ps\<close>, in order; when it returns without error,
  they are those of all of \<open>ps\<close>.
\<close>

definition deletes :: "PAT list \<Rightarrow> (error + unit) io \<Rightarrow> bool" where
  "deletes ps m =
     (\<forall>s. \<exists>xs. calls (snd (m s)) = calls s @ xs \<and>
             prefix (filter is_delete xs) (map delete_call ps) \<and>
             (fst (m s) = Val (Inr ()) \<longrightarrow> filter is_delete xs = map delete_call ps))"

section \<open>A concrete library and a concrete world\<close>

text \<open>
  To run the model, the library functions and the world are instantiated. The library
  keeps things small: JSON is printed compactly and without escapes, a response body that
  gjson reads has the form \<^verbatim>\<open>field=value\<close>, base64 is the identity, and the macaroon
  codec knows the three macaroons of \<open>demo_macaroons\<close> by name.
\<close>

function demo_digits :: "int \<Rightarrow> string" where
  "demo_digits n =
     (if n < 10 then [''0123456789'' ! nat n]
      else demo_digits (n div 10) @ [''0123456789'' ! nat (n mod 10)])"
  by pat_completeness auto
termination
  by (relation "measure nat") auto

definition demo_Itoa :: "int \<Rightarrow> string" where
  "demo_Itoa n = (if n < 0 then ''-'' @ demo_digits (- n) else demo_digits n)"

text \<open>Decimal digits only, no sign: enough for a page count.\<close>

definition demo_Atoi :: "string \<Rightarrow> error + int" where
  "demo_Atoi s =
     (if s \<noteq> [] \<and> list_all (\<lambda>c. c \<in> set ''0123456789'') s
      then Inr (foldl (\<lambda>n c. 10 * n + int (length (takeWhile (\<lambda>d. d \<noteq> c) ''0123456789''))) 0 s)
      else Inl ''invalid syntax'')"

fun demo_render :: "json \<Rightarrow> string" where
  "demo_render JNull = ''null''"
| "demo_render (JBool b) = (if b then ''true'' else ''false'')"
| "demo_render (JNum n) = demo_Itoa n"
| "demo_render (JStr s) = [CHR 0x22] @ s @ [CHR 0x22]"
| "demo_render (JArr xs) = ''['' @ concat (map (\<lambda>x. demo_render x @ '','') xs) @ '']''"
| "demo_render (JObj kvs) =
     ''{'' @ concat (map (\<lambda>(k, v). [CHR 0x22] @ k @ [CHR 0x22] @ '':'' @ demo_render v @ '','') kvs)
     @ ''}''"

definition demo_root :: Macaroon where
  "demo_root =
     \<lparr>Macaroon_Location = ''api.snapcraft.io'', Macaroon_Id = ''root-id'',
      Caveats = [\<lparr>Caveat_Id = ''cav-store'', Caveat_Location = ''''\<rparr>,
                 \<lparr>Caveat_Id = ''cav-sso'', Caveat_Location = ''login.ubuntu.com''\<rparr>],
      Macaroon_Signature = ''sig-root''\<rparr>"

definition demo_discharge :: Macaroon where
  "demo_discharge =
     \<lparr>Macaroon_Location = ''login.ubuntu.com'', Macaroon_Id = ''cav-sso'',
      Caveats = [], Macaroon_Signature = ''sig-discharge''\<rparr>"

definition demo_root_nomatch :: Macaroon where
  "demo_root_nomatch =
     \<lparr>Macaroon_Location = ''api.snapcraft.io'', Macaroon_Id = ''root-id'',
      Caveats = [\<lparr>Caveat_Id = ''cav-store'', Caveat_Location = ''''\<rparr>,
                 \<lparr>Caveat_Id = ''cav-other'', Caveat_Location = ''login.staging.ubuntu.com''\<rparr>],
      Macaroon_Signature = ''sig-root''\<rparr>"

definition demo_macaroons :: "(bytes \<times> Macaroon) list" where
  "demo_macaroons =
     [(''ROOT'', demo_root), (''DISCHARGE'', demo_discharge), (''ROOT-NOMATCH'', demo_root_nomatch)]"

definition demo_UnmarshalBinary :: "bytes \<Rightarrow> error + Macaroon" where
  "demo_UnmarshalBinary b =
     (case map_of demo_macaroons b of None \<Rightarrow> Inl ''not a macaroon'' | Some m \<Rightarrow> Inr m)"

definition demo_MarshalBinary :: "Macaroon \<Rightarrow> error + bytes" where
  "demo_MarshalBinary m =
     (if m = demo_root then Inr ''ROOT''
      else if m = demo_discharge then Inr ''DISCHARGE''
      else if m = demo_root_nomatch then Inr ''ROOT-NOMATCH''
      else Inl ''unknown macaroon'')"

text \<open>The host of a URL \<^verbatim>\<open>scheme://host/path\<close> with no port, user or query.\<close>

definition demo_url_Parse :: "string \<Rightarrow> error + URL" where
  "demo_url_Parse u =
     (case Split u ''://'' of
        [scheme, rest] \<Rightarrow>
          Inr \<lparr>Host = takeWhile (\<lambda>c. c \<noteq> CHR ''/'') rest, Path = dropWhile (\<lambda>c. c \<noteq> CHR ''/'') rest\<rparr>
      | _ \<Rightarrow> Inl ''parse error'')"

definition demo_gjson_Get :: "bytes \<Rightarrow> string \<Rightarrow> string option" where
  "demo_gjson_Get body field =
     (if prefix (field @ ''='') body then Some (drop (length field + 1) body) else None)"

text \<open>
  The two JSON documents of the organisation's API that the library decodes: the list of
  pending requests is written \<^verbatim>\<open>requests:\<close> followed by the ids, one character each, and
  the repository list of a request is written \<^verbatim>\<open>repos:\<close> followed by the full names,
  separated by commas.
\<close>

definition demo_Unmarshal_patRequests :: "bytes \<Rightarrow> error + patRequest list" where
  "demo_Unmarshal_patRequests b =
     (if prefix ''requests:'' b
      then Inr (map (\<lambda>c. \<lparr>patRequest_ID = int (length (takeWhile (\<lambda>d. d \<noteq> c) ''0123456789'')),
                          RepositoriesURL = ''https://api.github.com/request/'' @ [c] @ ''/repositories''\<rparr>)
                  (drop 9 b))
      else Inl ''unexpected end of JSON input'')"

definition demo_Unmarshal_Repositories :: "bytes \<Rightarrow> error + Repository list" where
  "demo_Unmarshal_Repositories b =
     (if prefix ''repos:'' b
      then Inr (map (\<lambda>n. \<lparr>Repository_ID = None, FullName = Some n\<rparr>)
                  (filter (\<lambda>n. n \<noteq> []) (Split (drop 6 b) '','')))
      else Inl ''unexpected end of JSON input'')"

definition demo_libs :: libs where
  "demo_libs =
     \<lparr>json_Marshal = (\<lambda>j. Inr (demo_render j)),
      gjson_Get = demo_gjson_Get,
      b64raw_Decode = Inr,
      b64raw_Encode = (\<lambda>b. b),
      b64std_Decode = Inr,
      b64std_Encode = (\<lambda>b. b),
      UnmarshalBinary = demo_UnmarshalBinary,
      MarshalBinary = demo_MarshalBinary,
      url_Parse = demo_url_Parse,
      Values_Encode = (\<lambda>q. concat (map (\<lambda>(k, vs). k @ ''='' @ concat vs @ ''&'') q)),
      http_NewRequest = (\<lambda>m u. None),
      Unmarshal_patRequests = demo_Unmarshal_patRequests,
      Unmarshal_Repositories = demo_Unmarshal_Repositories,
      ParseRSAPrivateKeyFromPEM = Inr,
      SignedString = (\<lambda>c k. Inr ''jwt''),
      sha256_hex = (\<lambda>b. ''9f86d081884c7d659a2feaa0c55ad015a3bf4f1b2b0b822cd15d6c15b0f00a08''),
      next_year_date = (\<lambda>t. ''2027-01-01''),
      Atoi = demo_Atoi,
      Itoa = demo_Itoa,
      ToLower = (\<lambda>s. s),
      Errorf0 = (\<lambda>s. s)\<rparr>"

text \<open>
  The world: a store that issues \<open>demo_root\<close> and discharges it, an organisation
  \<^verbatim>\<open>snapcrafters\<close> whose repositories have no environment until one is created, a
  web session that is logged in once the login form has been posted, three tokens listed
  from earlier runs, and four pending requests: request 5 for three repositories, request 6
  for \<^verbatim>\<open>other-app\<close>, and the requests 7 and 8, both for \<^verbatim>\<open>sample-app\<close> and
  \<^verbatim>\<open>ci-screenshots\<close>.
\<close>

definition demo_HttpDo :: "call list \<Rightarrow> request \<Rightarrow> error + (error + bytes)" where
  "demo_HttpDo h req =
     (if rq_url req = ''https://dashboard.snapcraft.io/dev/api/acl/''
        then Inr (Inr ''macaroon=ROOT'')
      else if rq_url req = ''https://login.ubuntu.com/api/v2/tokens/discharge''
        then Inr (Inr ''discharge_macaroon=DISCHARGE'')
      else if rq_url req = ''https://api.github.com/app/installations''
        then Inr (Inr ''0.access_tokens_url=https://api.github.com/app/installations/1/access_tokens'')
      else if rq_url req = ''https://api.github.com/app/installations/1/access_tokens''
        then Inr (Inr ''token=ghs_demo'')
      else if rq_url req = ''https://api.github.com/orgs/snapcrafters/personal-access-token-requests''
        then Inr (Inr ''requests:5678'')
      else if rq_url req = ''https://api.github.com/request/7/repositories''
        then Inr (Inr ''repos:snapcrafters/sample-app,snapcrafters/ci-screenshots'')
      else if rq_url req = ''https://api.github.com/request/8/repositories''
        then Inr (Inr ''repos:snapcrafters/ci-screenshots,snapcrafters/sample-app'')
      else if rq_url req = ''https://api.github.com/request/5/repositories''
        then Inr (Inr ''repos:snapcrafters/sample-app,snapcrafters/ci-screenshots,snapcrafters/ci'')
      else if rq_url req = ''https://api.github.com/request/6/repositories''
        then Inr (Inr ''repos:snapcrafters/other-app,snapcrafters/ci-screenshots'')
      else Inl ''no such host'')"

definition demo_env_created :: "call list \<Rightarrow> string \<Rightarrow> string \<Rightarrow> string \<Rightarrow> bool" where
  "demo_env_created h org repo env =
     list_ex (\<lambda>c. case c of
                     CreateUpdateEnv org' repo' env' args \<Rightarrow> org' = org \<and> repo' = repo \<and> env' = env
                   | _ \<Rightarrow> False) h"

definition demo_logged_in :: "call list \<Rightarrow> bool" where
  "demo_logged_in h =
     list_ex (\<lambda>c. case c of
                     WebPostForm url formFields \<Rightarrow> url = ''https://github.com/session''
                   | _ \<Rightarrow> False) h"

definition empty_doc :: doc where
  "empty_doc =
     \<lparr>doc_total_pages = None, doc_access_tokens = [], doc_new_form_token = None,
      doc_error_text = [], doc_flash_errors = [], doc_hidden_inputs = [],
      doc_remove_buttons = []\<rparr>"

definition demo_listed :: "token_elem list" where
  "demo_listed =
     [\<lparr>te_data_id = Some ''11'', te_link_text = ''token8r-0000-sample-app-latest'',
       te_authenticity_token = Some ''del-11'', te_new_access_token = None\<rparr>,
      \<lparr>te_data_id = Some ''12'', te_link_text = ''token8r-0000-other-app-latest'',
       te_authenticity_token = Some ''del-12'', te_new_access_token = None\<rparr>,
      \<lparr>te_data_id = Some ''13'', te_link_text = ''token8r-0000-my-sample-app-latest'',
       te_authenticity_token = Some ''del-13'', te_new_access_token = None\<rparr>]"

definition demo_WebGet :: "call list \<Rightarrow> string \<Rightarrow> error + (error + doc)" where
  "demo_WebGet h url =
     (if url = ''https://github.com/login''
        then Inr (Inr (empty_doc\<lparr>doc_hidden_inputs := [(''authenticity_token'', ''tok-login'')]\<rparr>))
      else if url = ''https://github.com/settings/tokens?page=1&type=beta''
        then Inr (Inr (empty_doc\<lparr>doc_access_tokens := demo_listed\<rparr>))
      else if url = ''https://github.com/settings/personal-access-tokens/new''
        then Inr (Inr (empty_doc\<lparr>doc_new_form_token := Some ''tok-new''\<rparr>))
      else Inl ''not found'')"

definition demo_WebPostForm ::
  "call list \<Rightarrow> string \<Rightarrow> (string \<times> string list) list \<Rightarrow> error + (error + doc)" where
  "demo_WebPostForm h url formFields =
     (if url = ''https://github.com/settings/personal-access-tokens''
        then Inr (Inr (empty_doc\<lparr>doc_access_tokens :=
                          [\<lparr>te_data_id = Some ''101'', te_link_text = [],
                            te_authenticity_token = Some ''del-101'',
                            te_new_access_token = Some ''github_pat_NEW''\<rparr>]\<rparr>))
      else Inr (Inr empty_doc))"

definition demo_config :: Config where
  "demo_config =
     \<lparr>Config_Org = ''snapcrafters'',
      Config_Repos = [\<lparr>Repo_Name = ''sample-app'', Repo_Snaps = [], Repo_Tracks = []\<rparr>]\<rparr>"

definition demo_world :: world where
  "demo_world =
     \<lparr>w_HttpDo = demo_HttpDo,
      w_ReposGet = (\<lambda>h org repo. Inr \<lparr>Repository_ID = Some 42, FullName = Some (org @ ''/'' @ repo)\<rparr>),
      w_GetEnvironment =
        (\<lambda>h org repo env. if demo_env_created h org repo env then (Some 200, None)
                           else (Some 404, Some ''404 Not Found'')),
      w_CreateUpdateEnv = (\<lambda>h org repo env args. Inr ()),
      w_CreateDeploymentBranchPolicy = (\<lambda>h org repo env name. Inr ()),
      w_GetEnvPublicKey =
        (\<lambda>h repoID env. Inr \<lparr>KeyID = Some ''key-1'', Key = Some ''0123456789abcdef0123456789abcdef''\<rparr>),
      w_SealAnonymous = (\<lambda>h key msg. Inr (''sealed:'' @ msg)),
      w_CreateOrUpdateEnvSecret = (\<lambda>h repoID env secret. Inr ()),
      w_Review = (\<lambda>h org requestId action. Inr ()),
      w_WebHead = (\<lambda>h url. if demo_logged_in h then Inr ''/settings/profile'' else Inr ''/login''),
      w_WebGet = demo_WebGet,
      w_WebPostForm = demo_WebPostForm,
      w_WebDo =
        (\<lambda>h req. Inr (Inr (empty_doc\<lparr>doc_remove_buttons :=
                                        [(''sample-app'', ''1001''), (''ci-screenshots'', ''1002'')]\<rparr>))),
      w_TimeNow = (\<lambda>h. 1700000000),
      w_Flags = Run [] False,
      w_ReadInConfig = (\<lambda>h. None),
      w_ViperUnmarshal = (\<lambda>h. Inr demo_config),
      w_GetString = (\<lambda>k. k @ ''-value''),
      w_GetInt = (\<lambda>k. 1)\<rparr>"

definition s0 :: mstate where
  "s0 = \<lparr>calls = [], oc_token = []\<rparr>"

text \<open>
  The credentials the command reads from the environment of this world, the manager it
  builds from them, and that manager's store client.
\<close>

definition demo_creds :: Credentials where
  "demo_creds =
     \<lparr>GithubToken = ''snapcrafters_org_pat-value'',
      SnapStore = \<lparr>Login = ''snapcraft_login-value'', Password = ''snapcraft_password-value'',
                   TOTPSecret = []\<rparr>,
      Launchpad = ''lp_auth-value'',
      Bot = \<lparr>Login = ''snapcrafters_bot_login-value'',
             Password = ''snapcrafters_bot_password-value'', TOTPSecret = []\<rparr>,
      GithubApp = \<lparr>App_ID = 1, App_Secret = ''app_secret-value''\<rparr>\<rparr>"

definition demo_manager :: Manager where
  "demo_manager =
     \<lparr>m_id = ''9f86'',
      m_config = demo_config,
      m_credentials = demo_creds,
      orgClient = NewOrgClient (GithubApp demo_creds) ''snapcrafters'',
      patClient = NewPATClient (Bot demo_creds),
      repoClient = NewRepoClient (GithubToken demo_creds) ''snapcrafters'',
      storeClient = NewSnapStoreClient (SnapStore demo_creds)\<rparr>"

definition demo_sc :: StoreClient where
  "demo_sc = NewSnapStoreClient (SnapStore demo_creds)"

text \<open>
  The two requests of the store client in this world for the snap \<^verbatim>\<open>sample-app\<close>, the
  track \<^verbatim>\<open>latest\<close> and a channel with its permissions, and the credential it then returns.
\<close>

definition demo_store_calls :: "string \<Rightarrow> string list \<Rightarrow> call list" where
  "demo_store_calls channel perms =
     [HttpDo \<lparr>rq_method = ''POST'', rq_url = ''https://dashboard.snapcraft.io/dev/api/acl/'',
              rq_headers = [(''Content-Type'', ''application/json''), (''Accept'', ''application/json'')],
              rq_body = demo_render (tokenRequest_json
                          \<lparr>tr_Permissions = perms,
                           tr_Description = ''tokenator-sample-app-latest'',
                           tr_TTL = 31536000,
                           tr_Packages = [NewSnapPackage ''sample-app''],
                           tr_Channels = [''latest/'' @ channel]\<rparr>)\<rparr>,
      HttpDo \<lparr>rq_method = ''POST'', rq_url = ''https://login.ubuntu.com/api/v2/tokens/discharge'',
              rq_headers = [(''Content-Type'', ''application/json''), (''Accept'', ''application/json'')],
              rq_body = demo_render (macaroonDischargeParams_json
                          \<lparr>mdp_Email = ''snapcraft_login-value'',
                           mdp_Password = ''snapcraft_password-value'',
                           mdp_CaveatId = ''cav-sso''\<rparr>)\<rparr>]"

definition demo_envelope :: json where
  "demo_envelope =
     JObj [(''t'', JStr ''u1-macaroon''),
           (''v'', JObj [(''r'', JStr ''ROOT''), (''d'', JStr ''DISCHARGE'')])]"

definition demo_credential :: string where
  "demo_credential = demo_render demo_envelope"

text \<open>
  The same world, but the store issues \<open>demo_root_nomatch\<close>: a root macaroon none of
  whose caveats is located at the authentication host \<^verbatim>\<open>login.ubuntu.com\<close>.
\<close>

definition nomatch_world :: world where
  "nomatch_world =
     demo_world\<lparr>w_HttpDo :=
       (\<lambda>h req. if rq_url req = ''https://dashboard.snapcraft.io/dev/api/acl/''
                  then Inr (Inr ''macaroon=ROOT-NOMATCH'')
                  else demo_HttpDo h req)\<rparr>"

text \<open>The default track, and the manager's repository client.\<close>

definition demo_track :: Track where
  "demo_track =
     \<lparr>Track_Name = ''latest'', Track_Branch = ''candidate'', Track_Environment = ''Candidate Branch''\<rparr>"

definition demo_rc :: RepoClient where
  "demo_rc = NewRepoClient (GithubToken demo_creds) ''snapcrafters''"

text \<open>
  The calls by which a secret is set in this world, in an environment that does not exist
  yet and in one that does.
\<close>

definition demo_secret_calls :: "bool \<Rightarrow> string \<Rightarrow> string \<Rightarrow> call list" where
  "demo_secret_calls fresh name v =
     [ReposGet ''snapcrafters'' ''sample-app'',
      GetEnvironment ''snapcrafters'' ''sample-app'' ''Candidate Branch''] @
     (if fresh
      then [CreateUpdateEnv ''snapcrafters'' ''sample-app'' ''Candidate Branch'' created_env_settings,
            CreateDeploymentBranchPolicy ''snapcrafters'' ''sample-app'' ''Candidate Branch''
              ''candidate'']
      else []) @
     [GetEnvPublicKey 42 ''Candidate Branch'',
      SealAnonymous ''0123456789abcdef0123456789abcdef'' v,
      CreateOrUpdateEnvSecret 42 ''Candidate Branch''
        \<lparr>Secret_Name = name, Secret_KeyID = ''key-1'', Secret_EncryptedValue = ''sealed:'' @ v\<rparr>]"

definition demo_oc :: OrgClient where
  "demo_oc = NewOrgClient (GithubApp demo_creds) ''snapcrafters''"

text \<open>The repository lists of the four pending requests, by request.\<close>

definition demo_repos_of :: "patRequest \<Rightarrow> Repository list" where
  "demo_repos_of q =
     map (\<lambda>n. \<lparr>Repository_ID = None, FullName = Some n\<rparr>)
       (if patRequest_ID q = 5
          then [''snapcrafters/sample-app'', ''snapcrafters/ci-screenshots'', ''snapcrafters/ci'']
        else if patRequest_ID q = 6
          then [''snapcrafters/other-app'', ''snapcrafters/ci-screenshots'']
        else if patRequest_ID q = 7
          then [''snapcrafters/sample-app'', ''snapcrafters/ci-screenshots'']
        else if patRequest_ID q = 8
          then [''snapcrafters/ci-screenshots'', ''snapcrafters/sample-app'']
        else [])"

definition demo_requests :: "patRequest list" where
  "demo_requests =
     map (\<lambda>c. \<lparr>patRequest_ID = int (length (takeWhile (\<lambda>d. d \<noteq> c) ''0123456789'')),
                 RepositoriesURL = ''https://api.github.com/request/'' @ [c] @ ''/repositories''\<rparr>)
       ''5678''"

definition demo_token_calls :: "call list" where
  "demo_token_calls =
     [TimeNow, TimeNow,
      HttpDo \<lparr>rq_method = ''GET'', rq_url = ''https://api.github.com/app/installations'',
               rq_headers = [(''Authorization'', ''Bearer jwt''),
                             (''Accept'', ''application/vnd.github.v3+json'')],
               rq_body = []\<rparr>,
      HttpDo \<lparr>rq_method = ''POST'',
               rq_url = ''https://api.github.com/app/installations/1/access_tokens'',
               rq_headers = [(''Authorization'', ''Bearer jwt''),
                             (''Accept'', ''application/vnd.github.v3+json'')],
               rq_body = []\<rparr>]"

text \<open>
  The manager's web client; the calls of its login, with and without a session; the tokens
  it lists; and the calls by which it creates a token for \<^verbatim>\<open>sample-app\<close>.
\<close>

definition demo_pc :: PATClient where
  "demo_pc = NewPATClient (Bot demo_creds)"

definition demo_login_calls :: "bool \<Rightarrow> call list" where
  "demo_login_calls logged_in =
     WebHead ''https://github.com/settings/'' #
     (if logged_in then []
      else [WebGet ''https://github.com/login'',
            WebPostForm ''https://github.com/session''
              [(''authenticity_token'', [''tok-login'']),
               (''login'', [''snapcrafters_bot_login-value'']),
               (''password'', [''snapcrafters_bot_password-value''])]])"

definition demo_pats :: "PAT list" where
  "demo_pats =
     [\<lparr>PAT_ID = ''11'', PAT_Name = ''token8r-0000-sample-app-latest'', PAT_Token = [],
       deleteToken = ''del-11''\<rparr>,
      \<lparr>PAT_ID = ''12'', PAT_Name = ''token8r-0000-other-app-latest'', PAT_Token = [],
       deleteToken = ''del-12''\<rparr>,
      \<lparr>PAT_ID = ''13'', PAT_Name = ''token8r-0000-my-sample-app-latest'', PAT_Token = [],
       deleteToken = ''del-13''\<rparr>]"

definition demo_create_calls :: "string \<Rightarrow> call list" where
  "demo_create_calls name =
     [WebGet ''https://github.com/settings/personal-access-tokens/new'',
      WebDo \<lparr>rq_method = ''GET'',
             rq_url = ''https://github.com/settings/personal-access-tokens/suggestions?target_name=snapcrafters&q=sample-app&'',
             rq_headers = [(''Accept'', ''text/fragment+html'')], rq_body = []\<rparr>,
      WebDo \<lparr>rq_method = ''GET'',
             rq_url = ''https://github.com/settings/personal-access-tokens/suggestions?target_name=snapcrafters&q=ci-screenshots&'',
             rq_headers = [(''Accept'', ''text/fragment+html'')], rq_body = []\<rparr>,
      TimeNow,
      WebPostForm ''https://github.com/settings/personal-access-tokens''
        [(''authenticity_token'', [''tok-new'']),
         (''user_programmatic_access[name]'', [name]),
         (''user_programmatic_access[default_expires_at]'', [''custom'']),
         (''user_programmatic_access[custom_expires_at]'', [''2027-01-01'']),
         (''user_programmatic_access[description]'', [[]]),
         (''target_name'', [''snapcrafters'']),
         (''install_target'', [''selected'']),
         (''integration[default_permissions][contents]'', [''write'']),
         (''integration[default_permissions][metadata]'', [''read'']),
         (''repository_ids[]'', [''1001'', ''1002''])]]"

text \<open>The pending request with the id \<open>n\<close>, and the call that lists the pending requests.\<close>

definition demo_request :: "nat \<Rightarrow> patRequest" where
  "demo_request n =
     \<lparr>patRequest_ID = int n,
      RepositoriesURL = ''https://api.github.com/request/'' @ [''0123456789'' ! n] @ ''/repositories''\<rparr>"

definition demo_list_call :: call where
  "demo_list_call =
     HttpDo \<lparr>rq_method = ''GET'',
             rq_url = ''https://api.github.com/orgs/snapcrafters/personal-access-token-requests'',
             rq_headers = [(''Authorization'', ''Bearer ghs_demo''),
                           (''Accept'', ''application/vnd.github.json''),
                           (''X-GitHub-Api-Version'', ''2022-11-28'')],
             rq_body = []\<rparr>"

text \<open>
  The same world with the network down: the request that detects the web session fails.
\<close>

definition offline_world :: world where
  "offline_world = demo_world\<lparr>w_WebHead := (\<lambda>h url. Inl ''connection refused'')\<rparr>"

text \<open>
  The calls by which the request for \<^verbatim>\<open>sample-app\<close> is approved, and those of the clean-up
  for \<^verbatim>\<open>sample-app\<close> and the track \<^verbatim>\<open>latest\<close> in the run \<^verbatim>\<open>9f86\<close>.
\<close>

definition demo_approve_calls :: "call list" where
  "demo_approve_calls =
     demo_token_calls @ [demo_list_call] @
     map (listing_call ''ghs_demo'') [demo_request 5, demo_request 6, demo_request 7] @
     [ReviewPersonalAccessTokenRequest ''snapcrafters'' 7 ''approve'']"

definition demo_cleanup_calls :: "bool \<Rightarrow> call list" where
  "demo_cleanup_calls logged_in =
     demo_login_calls logged_in @
     [delete_call \<lparr>PAT_ID = ''11'', PAT_Name = ''token8r-0000-sample-app-latest'', PAT_Token = [],
                    deleteToken = ''del-11''\<rparr>,
      WebHead ''https://github.com/settings/'',
      delete_call \<lparr>PAT_ID = ''13'', PAT_Name = ''token8r-0000-my-sample-app-latest'', PAT_Token = [],
                    deleteToken = ''del-13''\<rparr>]"

section \<open>Running the combinators\<close>

lemma ret_apply [simp]: "ret x s = (Val x, s)"
  by (simp add: ret_def)

lemma panic_apply [simp]: "panic msg s = (Panic msg, s)"
  by (simp add: panic_def)

lemma lift_apply [simp]: "lift r s = (r, s)"
  by (simp add: lift_def)

lemma perform_apply [simp]:
  "perform c answer s = (Val (answer (calls s)), s\<lparr>calls := calls s @ [c]\<rparr>)"
  by (simp add: perform_def)

lemma bnd_Val: "m s = (Val x, s') \<Longrightarrow> bnd m k s = k x s'"
  by (simp add: bnd_def)

lemma bnd_Panic: "m s = (Panic msg, s') \<Longrightarrow> bnd m k s = (Panic msg, s')"
  by (simp add: bnd_def)

lemma on_err_Inl: "m s = (Val (Inl e), s') \<Longrightarrow> on_err m wrap k s = (Val (Inl (wrap e)), s')"
  by (simp add: on_err_def bnd_def)

lemma on_err_Inr: "m s = (Val (Inr x), s') \<Longrightarrow> on_err m wrap k s = k x s'"
  by (simp add: on_err_def bnd_def)

lemma on_err_Panic: "m s = (Panic msg, s') \<Longrightarrow> on_err m wrap k s = (Panic msg, s')"
  by (simp add: on_err_def bnd_def)

lemma bnd_ValD:
  "bnd m k s = (Val y, s'') \<Longrightarrow> \<exists>x s'. m s = (Val x, s') \<and> k x s' = (Val y, s'')"
  by (auto simp: bnd_def split: prod.splits outcome.splits)

lemma on_err_InrD:
  "on_err m wrap k s = (Val (Inr y), s'') \<Longrightarrow>
   \<exists>x s'. m s = (Val (Inr x), s') \<and> k x s' = (Val (Inr y), s'')"
  by (auto simp: on_err_def bnd_def split: prod.splits outcome.splits sum.splits)

section \<open>Computations append their calls\<close>

named_theorems appends_intros

lemma appends_ret [appends_intros]: "appends (ret x)"
  by (simp add: appends_def)
lemma appends_panic [appends_intros]: "appends (panic msg)"
  by (simp add: appends_def)
lemma appends_lift [appends_intros]: "appends (lift r)"
  by (simp add: appends_def)
lemma appends_perform [appends_intros]: "appends (perform c answer)"
  by (simp add: appends_def)
lemma appends_get_oc_token [appends_intros]: "appends get_oc_token"
  by (simp add: appends_def get_oc_token_def)
lemma appends_set_oc_token [appends_intros]: "appends (set_oc_token t)"
  by (simp add: appends_def set_oc_token_def)

lemma appends_bnd [appends_intros]:
  assumes "appends m" and "\<And>x. appends (k x)"
  shows "appends (bnd m k)"
proof -
  have "prefix (calls s) (calls (snd (bnd m k s)))" for s
  proof (cases "m s")
    case (Pair r s')
    have 1: "prefix (calls s) (calls s')"
      using assms(1) Pair by (auto simp: appends_def dest: spec[of _ s])
    show ?thesis
    proof (cases r)
      case (Val x)
      have "prefix (calls s') (calls (snd (k x s')))"
        using assms(2)[of x] by (simp add: appends_def)
      with 1 Pair Val show ?thesis by (auto simp: bnd_def)
    next
      case (Panic msg)
      with 1 Pair show ?thesis by (simp add: bnd_def)
    qed
  qed
  then show ?thesis by (simp add: appends_def)
qed

lemma appends_case_sum [appends_intros]:
  "(\<And>e. appends (f e)) \<Longrightarrow> (\<And>x. appends (g x)) \<Longrightarrow> appends (case r of Inl e \<Rightarrow> f e | Inr x \<Rightarrow> g x)"
  by (cases r) auto
lemma appends_case_option [appends_intros]:
  "appends f \<Longrightarrow> (\<And>x. appends (g x)) \<Longrightarrow> appends (case r of None \<Rightarrow> f | Some x \<Rightarrow> g x)"
  by (cases r) auto
lemma appends_case_list [appends_intros]:
  "appends f \<Longrightarrow> (\<And>x xs. appends (g x xs)) \<Longrightarrow> appends (case r of [] \<Rightarrow> f | x # xs \<Rightarrow> g x xs)"
  by (cases r) auto
lemma appends_case_prod [appends_intros]:
  "(\<And>a b. appends (f a b)) \<Longrightarrow> appends (case r of (a, b) \<Rightarrow> f a b)"
  by (cases r) auto
lemma appends_if [appends_intros]:
  "appends f \<Longrightarrow> appends g \<Longrightarrow> appends (if c then f else g)"
  by simp
lemma appends_Let [appends_intros]:
  "(\<And>x. appends (f x)) \<Longrightarrow> appends (Let v f)"
  by (simp add: Let_def)
lemma appends_on_err [appends_intros]:
  "appends m \<Longrightarrow> (\<And>x. appends (k x)) \<Longrightarrow> appends (on_err m wrap k)"
  unfolding on_err_def by (intro appends_intros)


lemma issues_first_perform: "issues_first c (perform c answer) s"
  by (simp add: issues_first_def)

lemma issues_first_bnd:
  assumes "issues_first c m s" and "\<And>x. appends (k x)"
  shows "issues_first c (bnd m k) s"
proof (cases "m s")
  case (Pair r s')
  from assms(1) Pair obtain rest where 1: "calls s' = calls s @ c # rest"
    by (auto simp: issues_first_def)
  show ?thesis
  proof (cases r)
    case (Val x)
    have "prefix (calls s') (calls (snd (k x s')))"
      using assms(2)[of x] by (simp add: appends_def)
    then obtain more where "calls (snd (k x s')) = calls s' @ more"
      by (auto simp: prefix_def)
    with 1 Pair Val show ?thesis by (simp add: issues_first_def bnd_def)
  next
    case (Panic msg)
    with 1 Pair show ?thesis by (simp add: issues_first_def bnd_def)
  qed
qed

lemma issues_first_on_err:
  "issues_first c m s \<Longrightarrow> (\<And>x. appends (k x)) \<Longrightarrow> issues_first c (on_err m wrap k) s"
  unfolding on_err_def by (intro issues_first_bnd appends_intros)


lemma on_err_InrE:
  assumes "on_err m wrap k s = (Val (Inr y), s'')"
  obtains x s' where "m s = (Val (Inr x), s')" and "k x s' = (Val (Inr y), s'')"
  using on_err_InrD[OF assms] by blast

lemma on_err_perform_InrE:
  assumes "on_err (perform c answer) wrap k s = (Val (Inr y), s')"
  obtains x where "answer (calls s) = Inr x" and "k x (s\<lparr>calls := calls s @ [c]\<rparr>) = (Val (Inr y), s')"
  using assms by (auto dest!: on_err_InrD)

lemma bnd_perform_ValE:
  assumes "bnd (perform c answer) k s = (Val y, s')"
  obtains "k (answer (calls s)) (s\<lparr>calls := calls s @ [c]\<rparr>) = (Val y, s')"
  using assms by (auto dest!: bnd_ValD)

lemma bnd_deref_ValE:
  assumes "bnd (lift (deref p)) k s = (Val y, s')"
  obtains v where "p = Some v" and "k v s = (Val y, s')"
  using assms by (auto simp: deref_def dest!: bnd_ValD split: option.splits)

lemma new_calls_eq: "calls (snd (m s)) = calls s @ xs \<Longrightarrow> new_calls m s = xs"
  by (simp add: new_calls_def)

section \<open>Executing a computation step by step\<close>

lemma bnd_ret [simp]: "bnd (ret x) k s = k x s"
  by (simp add: bnd_def)

lemma bnd_lift_Val [simp]: "bnd (lift (Val x)) k s = k x s"
  by (simp add: bnd_def)

lemma bnd_lift_Panic [simp]: "bnd (lift (Panic msg)) k s = (Panic msg, s)"
  by (simp add: bnd_def)

lemma bnd_panic [simp]: "bnd (panic msg) k s = (Panic msg, s)"
  by (simp add: bnd_def)

lemma bnd_perform [simp]:
  "bnd (perform c answer) k s = k (answer (calls s)) (s\<lparr>calls := calls s @ [c]\<rparr>)"
  by (simp add: bnd_def)

lemma bnd_get_oc_token [simp]: "bnd get_oc_token k s = k (oc_token s) s"
  by (simp add: bnd_def get_oc_token_def)

lemma bnd_set_oc_token [simp]: "bnd (set_oc_token t) k s = k () (s\<lparr>oc_token := t\<rparr>)"
  by (simp add: bnd_def set_oc_token_def)

lemma on_err_ret_Inl [simp]: "on_err (ret (Inl e)) wrap k s = (Val (Inl (wrap e)), s)"
  by (simp add: on_err_def)

lemma on_err_ret_Inr [simp]: "on_err (ret (Inr x)) wrap k s = k x s"
  by (simp add: on_err_def)

lemma on_err_perform:
  "on_err (perform c answer) wrap k s =
     (case answer (calls s) of
        Inl e \<Rightarrow> (Val (Inl (wrap e)), s\<lparr>calls := calls s @ [c]\<rparr>)
      | Inr x \<Rightarrow> k x (s\<lparr>calls := calls s @ [c]\<rparr>))"
  by (simp add: on_err_def split: sum.splits)

lemma on_err_cong_run: "m s = m' s' \<Longrightarrow> on_err m wrap k s = on_err m' wrap k s'"
  by (simp add: on_err_def bnd_def)

lemma bnd_cong_run: "m s = m' s' \<Longrightarrow> bnd m k s = bnd m' k s'"
  by (simp add: bnd_def)

section \<open>Computations that add only calls of one kind\<close>

named_theorems adds_only_intros

lemma adds_only_ret [adds_only_intros]: "adds_only Q (ret x)"
  by (simp add: adds_only_def)
lemma adds_only_panic [adds_only_intros]: "adds_only Q (panic msg)"
  by (simp add: adds_only_def)
lemma adds_only_lift [adds_only_intros]: "adds_only Q (lift r)"
  by (simp add: adds_only_def)
lemma adds_only_perform: "Q c \<Longrightarrow> adds_only Q (perform c answer)"
  by (simp add: adds_only_def)
lemma adds_only_get_oc_token [adds_only_intros]: "adds_only Q get_oc_token"
  by (simp add: adds_only_def get_oc_token_def)
lemma adds_only_set_oc_token [adds_only_intros]: "adds_only Q (set_oc_token t)"
  by (simp add: adds_only_def set_oc_token_def)

lemma adds_only_bnd [adds_only_intros]:
  assumes "adds_only Q m" and "\<And>x. adds_only Q (k x)"
  shows "adds_only Q (bnd m k)"
proof -
  have "\<exists>xs. calls (snd (bnd m k s)) = calls s @ xs \<and> list_all Q xs" for s
  proof (cases "m s")
    case (Pair r s')
    from assms(1) Pair obtain xs where 1: "calls s' = calls s @ xs" "list_all Q xs"
      by (auto simp: adds_only_def dest: spec[of _ s])
    show ?thesis
    proof (cases r)
      case (Val x)
      from assms(2)[of x] obtain ys where "calls (snd (k x s')) = calls s' @ ys" "list_all Q ys"
        by (auto simp: adds_only_def)
      with 1 Pair Val show ?thesis by (auto simp: bnd_def)
    next
      case (Panic msg)
      with 1 Pair show ?thesis by (auto simp: bnd_def)
    qed
  qed
  then show ?thesis by (simp add: adds_only_def)
qed

lemma adds_only_case_sum [adds_only_intros]:
  "(\<And>e. adds_only Q (f e)) \<Longrightarrow> (\<And>x. adds_only Q (g x)) \<Longrightarrow>
   adds_only Q (case r of Inl e \<Rightarrow> f e | Inr x \<Rightarrow> g x)"
  by (cases r) auto
lemma adds_only_case_option [adds_only_intros]:
  "adds_only Q f \<Longrightarrow> (\<And>x. adds_only Q (g x)) \<Longrightarrow> adds_only Q (case r of None \<Rightarrow> f | Some x \<Rightarrow> g x)"
  by (cases r) auto
lemma adds_only_case_list [adds_only_intros]:
  "adds_only Q f \<Longrightarrow> (\<And>x xs. adds_only Q (g x xs)) \<Longrightarrow>
   adds_only Q (case r of [] \<Rightarrow> f | x # xs \<Rightarrow> g x xs)"
  by (cases r) auto
lemma adds_only_case_prod [adds_only_intros]:
  "(\<And>a b. adds_only Q (f a b)) \<Longrightarrow> adds_only Q (case r of (a, b) \<Rightarrow> f a b)"
  by (cases r) auto
lemma adds_only_if [adds_only_intros]:
  "adds_only Q f \<Longrightarrow> adds_only Q g \<Longrightarrow> adds_only Q (if c then f else g)"
  by simp
lemma adds_only_Let [adds_only_intros]:
  "(\<And>x. adds_only Q (f x)) \<Longrightarrow> adds_only Q (Let v f)"
  by (simp add: Let_def)
lemma adds_only_on_err [adds_only_intros]:
  "adds_only Q m \<Longrightarrow> (\<And>x. adds_only Q (k x)) \<Longrightarrow> adds_only Q (on_err m wrap k)"
  unfolding on_err_def by (intro adds_only_intros)

lemma first_then_bnd:
  assumes "first_then c Q m s" and "\<And>x. adds_only Q (k x)"
  shows "first_then c Q (bnd m k) s"
proof (cases "m s")
  case (Pair r s')
  from assms(1) Pair obtain xs where 1: "calls s' = calls s @ c # xs" "list_all Q xs"
    by (auto simp: first_then_def)
  show ?thesis
  proof (cases r)
    case (Val x)
    from assms(2)[of x] obtain ys where "calls (snd (k x s')) = calls s' @ ys" "list_all Q ys"
      by (auto simp: adds_only_def)
    with 1 Pair Val show ?thesis by (auto simp: bnd_def first_then_def)
  next
    case (Panic msg)
    with 1 Pair show ?thesis by (auto simp: bnd_def first_then_def)
  qed
qed

lemma first_then_on_err:
  "first_then c Q m s \<Longrightarrow> (\<And>x. adds_only Q (k x)) \<Longrightarrow> first_then c Q (on_err m wrap k) s"
  unfolding on_err_def by (intro first_then_bnd adds_only_intros)

lemma first_then_perform: "first_then c Q (perform c answer) s"
  by (simp add: first_then_def)


lemma on_err_on_err:
  "on_err (on_err m w1 k1) w2 k2 = on_err m (\<lambda>e. w2 (w1 e)) (\<lambda>x. on_err (k1 x) w2 k2)"
  by (rule ext) (simp add: on_err_def bnd_def split: prod.splits outcome.splits sum.splits)

lemma on_err_bnd: "on_err (bnd m k1) w k2 = bnd m (\<lambda>x. on_err (k1 x) w k2)"
  by (rule ext) (simp add: on_err_def bnd_def split: prod.splits outcome.splits sum.splits)

lemma bnd_bnd: "bnd (bnd m k1) k2 = bnd m (\<lambda>x. bnd (k1 x) k2)"
  by (rule ext) (simp add: bnd_def split: prod.splits outcome.splits)

lemma bnd_on_err:
  "bnd (on_err m w k1) k2 =
     bnd m (\<lambda>r. case r of Inl e \<Rightarrow> k2 (Inl (w e)) | Inr x \<Rightarrow> bnd (k1 x) k2)"
  by (rule ext) (simp add: on_err_def bnd_def split: prod.splits outcome.splits sum.splits)

lemmas exec = on_err_on_err on_err_bnd bnd_bnd bnd_on_err on_err_perform


lemma adds_onlyD:
  assumes "adds_only Q m" and "m s = (r, s')"
  obtains xs where "calls s' = calls s @ xs" and "list_all Q xs"
  using assms by (auto simp: adds_only_def dest: spec[of _ s])

lemma filter_none: "list_all (\<lambda>c. \<not> P c) xs \<Longrightarrow> filter P xs = []"
  by (induction xs) auto

section \<open>The store client: lemmas\<close>

lemma appends_post [appends_intros]: "appends (post L W url body)"
  unfolding post_def by (intro appends_intros)
lemma appends_getRootMacaroon [appends_intros]: "appends (getRootMacaroon L W sc tr)"
  unfolding getRootMacaroon_def by (intro appends_intros)
lemma appends_getDischargedMacaroon [appends_intros]: "appends (getDischargedMacaroon L W sc root params)"
  unfolding getDischargedMacaroon_def by (intro appends_intros)
lemma appends_StoreClient_login [appends_intros]: "appends (StoreClient_login L W sc params)"
  unfolding StoreClient_login_def by (intro appends_intros)
lemma appends_GenerateStoreToken [appends_intros]: "appends (GenerateStoreToken L W sc snap track channel)"
  unfolding GenerateStoreToken_def by (intro appends_intros)


lemma issues_first_post:
  assumes "json_Marshal L body = Inr b" and "http_NewRequest L ''POST'' url = None"
  shows "issues_first
           (HttpDo \<lparr>rq_method = ''POST'', rq_url = url,
                    rq_headers = [(''Content-Type'', ''application/json''), (''Accept'', ''application/json'')],
                    rq_body = b\<rparr>)
           (post L W url body) s"
  using assms unfolding post_def
  by (simp add: Let_def) (intro issues_first_on_err issues_first_perform appends_intros)

lemma issues_first_GenerateStoreToken:
  assumes "channelPermissions channel = Some perms"
    and "json_Marshal L
           (tokenRequest_json
              \<lparr>tr_Permissions = perms,
               tr_Description = ''tokenator-'' @ snap @ ''-'' @ track,
               tr_TTL = 31536000,
               tr_Packages = [NewSnapPackage snap],
               tr_Channels = [track @ ''/'' @ channel]\<rparr>) = Inr b"
    and "http_NewRequest L ''POST'' (BaseURL (endpoints sc) @ Tokens (authEndpoints sc)) = None"
  shows "issues_first
           (HttpDo \<lparr>rq_method = ''POST'', rq_url = BaseURL (endpoints sc) @ Tokens (authEndpoints sc),
                    rq_headers = [(''Content-Type'', ''application/json''), (''Accept'', ''application/json'')],
                    rq_body = b\<rparr>)
           (GenerateStoreToken L W sc snap track channel) s"
  using assms unfolding GenerateStoreToken_def StoreClient_login_def getRootMacaroon_def
  by (simp add: Let_def) (intro issues_first_on_err issues_first_post appends_intros, simp_all)

lemma channelPermissions_None:
  "channel \<noteq> ''candidate'' \<Longrightarrow> channel \<noteq> ''stable'' \<Longrightarrow> channelPermissions channel = None"
  by (simp add: channelPermissions_def)

lemma GenerateStoreToken_invalid:
  "channel \<noteq> ''candidate'' \<Longrightarrow> channel \<noteq> ''stable'' \<Longrightarrow>
   GenerateStoreToken L W sc snap track channel s = (Val (Inl ''invalid channel specified''), s)"
  by (simp add: GenerateStoreToken_def channelPermissions_None)


lemma IndexFunc_none: "list_all (\<lambda>x. \<not> f x) xs \<Longrightarrow> IndexFunc xs f = - 1"
  by (induction xs) (auto simp: Let_def)


lemma NewUbuntuOneToken_InrD:
  "NewUbuntuOneToken L root dis = Inr token \<Longrightarrow>
   \<exists>rb db. MarshalBinary L root = Inr rb \<and> MarshalBinary L dis = Inr db \<and>
     token = \<lparr>TokenType = ''u1-macaroon'',
              UbuntuOneMacaroons = \<lparr>RootMacaroon = b64raw_Encode L rb,
                                    DischargedMacaroon = b64raw_Encode L db\<rparr>\<rparr>"
  by (auto simp: NewUbuntuOneToken_def split: sum.splits)

lemma StoreClient_login_InrD:
  assumes "StoreClient_login L W sc params s = (Val (Inr cred), s')"
  shows "\<exists>root dis rb db tokenJSON.
           MarshalBinary L root = Inr rb \<and> MarshalBinary L dis = Inr db \<and>
           json_Marshal L
             (JObj [(''t'', JStr ''u1-macaroon''),
                    (''v'', JObj [(''r'', JStr (b64raw_Encode L rb)),
                                  (''d'', JStr (b64raw_Encode L db))])]) = Inr tokenJSON \<and>
           cred = b64std_Encode L tokenJSON"
proof -
  from assms obtain root s1 dis s2 where
    k: "(case NewUbuntuOneToken L root dis of
           Inl e \<Rightarrow> ret (Inl (Errorf ''failed to create a valid Ubuntu One token: '' e))
         | Inr token \<Rightarrow>
             (case json_Marshal L (UbuntuOneToken_json token) of
                Inl e \<Rightarrow> ret (Inl (Errorf ''failed to marshal Ubuntu One to JSON: '' e))
              | Inr tokenJSON \<Rightarrow> ret (Inr (b64std_Encode L tokenJSON)))) s2 = (Val (Inr cred), s')"
    unfolding StoreClient_login_def Let_def
    by (blast dest!: on_err_InrD)
  then obtain token tokenJSON where
    t: "NewUbuntuOneToken L root dis = Inr token"
    and j: "json_Marshal L (UbuntuOneToken_json token) = Inr tokenJSON"
    and c: "cred = b64std_Encode L tokenJSON"
    by (auto split: sum.splits)
  from NewUbuntuOneToken_InrD[OF t] obtain rb db where
    m: "MarshalBinary L root = Inr rb" "MarshalBinary L dis = Inr db"
    and tk: "token = \<lparr>TokenType = ''u1-macaroon'',
              UbuntuOneMacaroons = \<lparr>RootMacaroon = b64raw_Encode L rb,
                                    DischargedMacaroon = b64raw_Encode L db\<rparr>\<rparr>"
    by blast
  from j tk have "json_Marshal L
             (JObj [(''t'', JStr ''u1-macaroon''),
                    (''v'', JObj [(''r'', JStr (b64raw_Encode L rb)),
                                  (''d'', JStr (b64raw_Encode L db))])]) = Inr tokenJSON"
    by (simp add: UbuntuOneToken_json_def ubuntuOneMacaroons_json_def)
  with m c show ?thesis by blast
qed

lemma GenerateStoreToken_InrD:
  assumes "GenerateStoreToken L W sc snap track channel s = (Val (Inr cred), s')"
  shows "\<exists>params. StoreClient_login L W sc params s = (Val (Inr cred), s')"
  using assms unfolding GenerateStoreToken_def Let_def
  by (auto split: option.splits dest!: on_err_InrD)

lemma StoreClient_login_runs:
  assumes "StoreClient_login L W sc params s = (Val (Inr cred), s')"
  shows "\<exists>root dis rb db tokenJSON s1.
           getRootMacaroon L W sc
             \<lparr>tr_Permissions = tp_Permissions params,
              tr_Description = tp_Description params,
              tr_TTL = tp_TTL params,
              tr_Packages = map NewSnapPackage (tp_Packages params),
              tr_Channels = tp_Channels params\<rparr> s = (Val (Inr root), s1) \<and>
           getDischargedMacaroon L W sc root params s1 = (Val (Inr dis), s') \<and>
           MarshalBinary L root = Inr rb \<and> MarshalBinary L dis = Inr db \<and>
           json_Marshal L
             (JObj [(''t'', JStr ''u1-macaroon''),
                    (''v'', JObj [(''r'', JStr (b64raw_Encode L rb)),
                                  (''d'', JStr (b64raw_Encode L db))])]) = Inr tokenJSON \<and>
           cred = b64std_Encode L tokenJSON"
proof -
  from assms[unfolded StoreClient_login_def Let_def]
  obtain root s1 where
    r: "getRootMacaroon L W sc
             \<lparr>tr_Permissions = tp_Permissions params,
              tr_Description = tp_Description params,
              tr_TTL = tp_TTL params,
              tr_Packages = map NewSnapPackage (tp_Packages params),
              tr_Channels = tp_Channels params\<rparr> s = (Val (Inr root), s1)"
    and k1: "on_err (getDischargedMacaroon L W sc root params)
           (Errorf ''failed to get discharged macaroon: '')
           (\<lambda>dischargedMacaroon.
              case NewUbuntuOneToken L root dischargedMacaroon of
                Inl e \<Rightarrow> ret (Inl (Errorf ''failed to create a valid Ubuntu One token: '' e))
              | Inr token \<Rightarrow>
                  (case json_Marshal L (UbuntuOneToken_json token) of
                     Inl e \<Rightarrow> ret (Inl (Errorf ''failed to marshal Ubuntu One to JSON: '' e))
                   | Inr tokenJSON \<Rightarrow> ret (Inr (b64std_Encode L tokenJSON)))) s1 = (Val (Inr cred), s')"
    by (rule on_err_InrE)
  from k1 obtain dis s2 where
    d: "getDischargedMacaroon L W sc root params s1 = (Val (Inr dis), s2)"
    and k: "(case NewUbuntuOneToken L root dis of
           Inl e \<Rightarrow> ret (Inl (Errorf ''failed to create a valid Ubuntu One token: '' e))
         | Inr token \<Rightarrow>
             (case json_Marshal L (UbuntuOneToken_json token) of
                Inl e \<Rightarrow> ret (Inl (Errorf ''failed to marshal Ubuntu One to JSON: '' e))
              | Inr tokenJSON \<Rightarrow> ret (Inr (b64std_Encode L tokenJSON)))) s2 = (Val (Inr cred), s')"
    by (rule on_err_InrE)
  from k obtain token tokenJSON where
    t: "NewUbuntuOneToken L root dis = Inr token"
    and j: "json_Marshal L (UbuntuOneToken_json token) = Inr tokenJSON"
    and c: "cred = b64std_Encode L tokenJSON" and s2: "s2 = s'"
    by (auto split: sum.splits)
  from NewUbuntuOneToken_InrD[OF t] obtain rb db where
    m: "MarshalBinary L root = Inr rb" "MarshalBinary L dis = Inr db"
    and tk: "token = \<lparr>TokenType = ''u1-macaroon'',
              UbuntuOneMacaroons = \<lparr>RootMacaroon = b64raw_Encode L rb,
                                    DischargedMacaroon = b64raw_Encode L db\<rparr>\<rparr>"
    by blast
  from j tk have "json_Marshal L
             (JObj [(''t'', JStr ''u1-macaroon''),
                    (''v'', JObj [(''r'', JStr (b64raw_Encode L rb)),
                                  (''d'', JStr (b64raw_Encode L db))])]) = Inr tokenJSON"
    by (simp add: UbuntuOneToken_json_def ubuntuOneMacaroons_json_def)
  with m c r d s2 show ?thesis by blast
qed

lemma GenerateStoreToken_runs:
  assumes "GenerateStoreToken L W sc snap track channel s = (Val (Inr cred), s')"
  shows "\<exists>perms. channelPermissions channel = Some perms \<and>
           StoreClient_login L W sc
             \<lparr>tp_Channels = [track @ ''/'' @ channel],
              tp_Credentials = credentials sc,
              tp_Description = ''tokenator-'' @ snap @ ''-'' @ track,
              tp_Packages = [snap],
              tp_Permissions = perms,
              tp_TTL = 31536000\<rparr> s = (Val (Inr cred), s')"
  using assms unfolding GenerateStoreToken_def Let_def
  by (auto split: option.splits dest!: on_err_InrD)

section \<open>The concrete library and world: their parts\<close>

lemma demo_libs_sel [simp]:
  "json_Marshal demo_libs = (\<lambda>j. Inr (demo_render j))"
  "gjson_Get demo_libs = demo_gjson_Get"
  "b64raw_Decode demo_libs = Inr"
  "b64raw_Encode demo_libs = (\<lambda>b. b)"
  "b64std_Decode demo_libs = Inr"
  "b64std_Encode demo_libs = (\<lambda>b. b)"
  "UnmarshalBinary demo_libs = demo_UnmarshalBinary"
  "MarshalBinary demo_libs = demo_MarshalBinary"
  "url_Parse demo_libs = demo_url_Parse"
  "Values_Encode demo_libs = (\<lambda>q. concat (map (\<lambda>(k, vs). k @ ''='' @ concat vs @ ''&'') q))"
  "http_NewRequest demo_libs = (\<lambda>m u. None)"
  "Unmarshal_patRequests demo_libs = demo_Unmarshal_patRequests"
  "Unmarshal_Repositories demo_libs = demo_Unmarshal_Repositories"
  "ParseRSAPrivateKeyFromPEM demo_libs = Inr"
  "SignedString demo_libs = (\<lambda>c k. Inr ''jwt'')"
  "sha256_hex demo_libs = (\<lambda>b. ''9f86d081884c7d659a2feaa0c55ad015a3bf4f1b2b0b822cd15d6c15b0f00a08'')"
  "next_year_date demo_libs = (\<lambda>t. ''2027-01-01'')"
  "Atoi demo_libs = demo_Atoi"
  "Itoa demo_libs = demo_Itoa"
  "ToLower demo_libs = (\<lambda>s. s)"
  "Errorf0 demo_libs = (\<lambda>s. s)"
  by (simp_all add: demo_libs_def)

lemma demo_world_sel [simp]:
  "w_HttpDo demo_world = demo_HttpDo"
  "w_ReposGet demo_world = (\<lambda>h org repo. Inr \<lparr>Repository_ID = Some 42, FullName = Some (org @ ''/'' @ repo)\<rparr>)"
  "w_GetEnvironment demo_world =
        (\<lambda>h org repo env. if demo_env_created h org repo env then (Some 200, None)
                           else (Some 404, Some ''404 Not Found''))"
  "w_CreateUpdateEnv demo_world = (\<lambda>h org repo env args. Inr ())"
  "w_CreateDeploymentBranchPolicy demo_world = (\<lambda>h org repo env name. Inr ())"
  "w_GetEnvPublicKey demo_world =
        (\<lambda>h repoID env. Inr \<lparr>KeyID = Some ''key-1'', Key = Some ''0123456789abcdef0123456789abcdef''\<rparr>)"
  "w_SealAnonymous demo_world = (\<lambda>h key msg. Inr (''sealed:'' @ msg))"
  "w_CreateOrUpdateEnvSecret demo_world = (\<lambda>h repoID env secret. Inr ())"
  "w_Review demo_world = (\<lambda>h org requestId action. Inr ())"
  "w_WebHead demo_world = (\<lambda>h url. if demo_logged_in h then Inr ''/settings/profile'' else Inr ''/login'')"
  "w_WebGet demo_world = demo_WebGet"
  "w_WebPostForm demo_world = demo_WebPostForm"
  "w_WebDo demo_world =
        (\<lambda>h req. Inr (Inr (empty_doc\<lparr>doc_remove_buttons :=
                                        [(''sample-app'', ''1001''), (''ci-screenshots'', ''1002'')]\<rparr>)))"
  "w_TimeNow demo_world = (\<lambda>h. 1700000000)"
  "w_Flags demo_world = Run [] False"
  "w_ReadInConfig demo_world = (\<lambda>h. None)"
  "w_ViperUnmarshal demo_world = (\<lambda>h. Inr demo_config)"
  "w_GetString demo_world = (\<lambda>k. k @ ''-value'')"
  "w_GetInt demo_world = (\<lambda>k. 1)"
  by (simp_all add: demo_world_def)

lemma demo_sc_sel [simp]:
  "authEndpoints demo_sc = UBUNTU_ONE_SNAP_STORE_AUTH_ENDPOINTS"
  "credentials demo_sc = \<lparr>Login = ''snapcraft_login-value'', Password = ''snapcraft_password-value'', TOTPSecret = []\<rparr>"
  "endpoints demo_sc = SNAP_STORE_ENDPOINTS"
  by (simp_all add: demo_sc_def demo_creds_def NewSnapStoreClient_def)

lemma endpoints_sel [simp]:
  "BaseURL SNAP_STORE_ENDPOINTS = ''https://dashboard.snapcraft.io''"
  "AuthURL UBUNTU_ONE_SNAP_STORE_AUTH_ENDPOINTS = ''https://login.ubuntu.com''"
  "Tokens UBUNTU_ONE_SNAP_STORE_AUTH_ENDPOINTS = ''/dev/api/acl/''"
  "TokensExchange UBUNTU_ONE_SNAP_STORE_AUTH_ENDPOINTS = ''/api/v2/tokens/discharge''"
  by (simp_all add: SNAP_STORE_ENDPOINTS_def UBUNTU_ONE_SNAP_STORE_AUTH_ENDPOINTS_def)

lemma demo_url: "demo_url_Parse ''https://login.ubuntu.com'' = Inr \<lparr>Host = ''login.ubuntu.com'', Path = []\<rparr>"
  by code_simp

lemma nomatch_world_HttpDo [simp]:
  "w_HttpDo nomatch_world =
       (\<lambda>h req. if rq_url req = ''https://dashboard.snapcraft.io/dev/api/acl/''
                  then Inr (Inr ''macaroon=ROOT-NOMATCH'')
                  else demo_HttpDo h req)"
  by (simp add: nomatch_world_def)


lemma demo_GenerateStoreToken:
  assumes "channelPermissions channel = Some perms"
  shows "GenerateStoreToken demo_libs demo_world demo_sc ''sample-app'' ''latest'' channel s
           = (Val (Inr demo_credential), s\<lparr>calls := calls s @ demo_store_calls channel perms\<rparr>)"
  using assms
  by (simp add: GenerateStoreToken_def StoreClient_login_def getRootMacaroon_def
        getDischargedMacaroon_def post_def on_err_def bnd_def deserializeMacaroon_def
        NewUbuntuOneToken_def index_def demo_url
        demo_gjson_Get_def demo_UnmarshalBinary_def demo_MarshalBinary_def demo_macaroons_def
        demo_root_def demo_discharge_def demo_HttpDo_def demo_store_calls_def
        demo_credential_def demo_envelope_def UbuntuOneToken_json_def ubuntuOneMacaroons_json_def
        del: demo_render.simps)

lemma demo_getRootMacaroon:
  "getRootMacaroon demo_libs demo_world demo_sc tr s
     = (Val (Inr demo_root),
        s\<lparr>calls := calls s @
           [HttpDo \<lparr>rq_method = ''POST'', rq_url = ''https://dashboard.snapcraft.io/dev/api/acl/'',
                    rq_headers = [(''Content-Type'', ''application/json''), (''Accept'', ''application/json'')],
                    rq_body = demo_render (tokenRequest_json tr)\<rparr>]\<rparr>)"
  by (simp add: getRootMacaroon_def post_def on_err_def bnd_def deserializeMacaroon_def
        demo_gjson_Get_def demo_UnmarshalBinary_def demo_macaroons_def demo_HttpDo_def
        del: demo_render.simps)

lemma demo_getDischargedMacaroon:
  "getDischargedMacaroon demo_libs demo_world demo_sc demo_root params s
     = (Val (Inr demo_discharge),
        s\<lparr>calls := calls s @
           [HttpDo \<lparr>rq_method = ''POST'', rq_url = ''https://login.ubuntu.com/api/v2/tokens/discharge'',
                    rq_headers = [(''Content-Type'', ''application/json''), (''Accept'', ''application/json'')],
                    rq_body = demo_render (macaroonDischargeParams_json
                                \<lparr>mdp_Email = Login (tp_Credentials params),
                                 mdp_Password = Password (tp_Credentials params),
                                 mdp_CaveatId = ''cav-sso''\<rparr>)\<rparr>]\<rparr>)"
  by (simp add: getDischargedMacaroon_def post_def on_err_def bnd_def deserializeMacaroon_def
        index_def demo_url demo_root_def
        demo_gjson_Get_def demo_UnmarshalBinary_def demo_macaroons_def demo_HttpDo_def
        del: demo_render.simps)

lemma demo_MarshalBinary_roundtrip:
  "demo_MarshalBinary m = Inr b \<Longrightarrow> demo_UnmarshalBinary b = Inr m"
  by (auto simp: demo_MarshalBinary_def demo_UnmarshalBinary_def demo_macaroons_def
           split: if_splits)

lemma demo_rc_org [simp]: "rc_org demo_rc = ''snapcrafters''"
  by (simp add: demo_rc_def NewRepoClient_def)

lemma demo_track_sel [simp]:
  "Track_Name demo_track = ''latest''"
  "Track_Branch demo_track = ''candidate''"
  "Track_Environment demo_track = ''Candidate Branch''"
  by (simp_all add: demo_track_def)

lemma demo_SetEnvSecret:
  "SetEnvSecret demo_libs demo_world demo_rc ''sample-app'' demo_track name v s
     = (Val (Inr ()),
        s\<lparr>calls := calls s @
           demo_secret_calls
             (\<not> demo_env_created (calls s) ''snapcrafters'' ''sample-app'' ''Candidate Branch'')
             name v\<rparr>)"
  by (simp add: SetEnvSecret_def ensureEnvironment_def createEnvironment_def encryptSecret_def
        exec deref_def created_env_settings_def demo_env_created_def demo_secret_calls_def)


section \<open>The repository client: lemmas\<close>

lemmas repo_defs = SetEnvSecret_def ensureEnvironment_def createEnvironment_def encryptSecret_def
  on_err_def bnd_def deref_def

lemma createEnvironment_InrD:
  assumes "createEnvironment W rc repo track s = (Val (Inr u), s')"
  shows "s' = s\<lparr>calls := calls s @
                 [CreateUpdateEnv (rc_org rc) repo (Track_Environment track) created_env_settings,
                  CreateDeploymentBranchPolicy (rc_org rc) repo (Track_Environment track)
                    (Track_Branch track)]\<rparr>"
  using assms unfolding createEnvironment_def Let_def created_env_settings_def
proof (elim on_err_perform_InrE, goal_cases)
  case (1 x y)
  then show ?case by simp
qed

lemma ensureEnvironment_InrD:
  assumes "ensureEnvironment W rc repo track s = (Val (Inr u), s')"
  shows "\<exists>status err.
           w_GetEnvironment W (calls s) (rc_org rc) repo (Track_Environment track) = (Some status, err) \<and>
           s' = s\<lparr>calls := calls s @
                   GetEnvironment (rc_org rc) repo (Track_Environment track) #
                   (if status = 404
                    then [CreateUpdateEnv (rc_org rc) repo (Track_Environment track) created_env_settings,
                          CreateDeploymentBranchPolicy (rc_org rc) repo (Track_Environment track)
                            (Track_Branch track)]
                    else [])\<rparr>"
proof (cases "w_GetEnvironment W (calls s) (rc_org rc) repo (Track_Environment track)")
  case (Pair resp err)
  let ?s1 = "s\<lparr>calls := calls s @ [GetEnvironment (rc_org rc) repo (Track_Environment track)]\<rparr>"
  show ?thesis
  proof (cases resp)
    case None
    with assms Pair show ?thesis
      by (simp add: ensureEnvironment_def deref_def)
  next
    case (Some status)
    show ?thesis
    proof (cases "status = 404")
      case True
      from assms Pair Some True have
        "on_err (createEnvironment W rc repo track) (Errorf ''failed to create environment: '')
           (\<lambda>_. ret (Inr ())) ?s1 = (Val (Inr u), s')"
        by (simp add: ensureEnvironment_def deref_def)
      from on_err_InrD[OF this] obtain u' s2 where
        c: "createEnvironment W rc repo track ?s1 = (Val (Inr u'), s2)"
        and "ret (Inr ()) s2 = (Val (Inr u), s')"
        by auto
      then have "s' = s2" by simp
      with createEnvironment_InrD[OF c] Pair Some True show ?thesis by simp
    next
      case False
      with assms Pair Some have "s' = ?s1"
        by (cases err) (simp_all add: ensureEnvironment_def deref_def)
      with Pair Some False show ?thesis by simp
    qed
  qed
qed

lemma encryptSecret_InrD:
  assumes "encryptSecret L W rc repo envName secretName secretValue s = (Val (Inr secret), s')"
  shows "\<exists>repoID key.
           Repository_ID repo = Some repoID \<and> Secret_Name secret = secretName \<and>
           s' = s\<lparr>calls := calls s @ [GetEnvPublicKey repoID envName, SealAnonymous key secretValue]\<rparr>"
  using assms unfolding encryptSecret_def
proof (elim bnd_deref_ValE on_err_perform_InrE, goal_cases)
  case (1 repoID key keyText)
  let ?s1 = "s\<lparr>calls := calls s @ [GetEnvPublicKey repoID envName]\<rparr>"
  show ?case
  proof (cases "b64std_Decode L keyText")
    case (Inl e)
    with 1(4) show ?thesis by simp
  next
    case (Inr keyBytes)
    show ?thesis
    proof (cases "length keyBytes < 32")
      case True
      with 1(4) Inr show ?thesis by simp
    next
      case False
      with 1(4) Inr have
        "on_err (perform (SealAnonymous (take 32 keyBytes) secretValue)
                          (\<lambda>h. w_SealAnonymous W h (take 32 keyBytes) secretValue))
                  (Errorf ''failed to encrypt secret: '')
                  (\<lambda>encrypted.
                     bnd (lift (deref (KeyID key)))
                       (\<lambda>keyID.
                          ret (Inr \<lparr>Secret_Name = secretName,
                                    Secret_KeyID = keyID,
                                    Secret_EncryptedValue = b64std_Encode L encrypted\<rparr>))) ?s1
          = (Val (Inr secret), s')"
        by simp
      then show ?thesis
      proof (elim bnd_deref_ValE on_err_perform_InrE, goal_cases)
        case (1 encrypted keyID)
        with \<open>Repository_ID repo = Some repoID\<close> show ?case by auto
      qed
    qed
  qed
qed


lemma SetEnvSecret_InrD:
  assumes "SetEnvSecret L W rc repo track secretName secretValue s = (Val (Inr u), s')"
  shows "\<exists>status err repoID key secret.
           w_GetEnvironment W (calls s @ [ReposGet (rc_org rc) repo]) (rc_org rc) repo
             (Track_Environment track) = (Some status, err) \<and>
           Secret_Name secret = secretName \<and>
           s' = s\<lparr>calls := calls s @
                   [ReposGet (rc_org rc) repo,
                    GetEnvironment (rc_org rc) repo (Track_Environment track)] @
                   (if status = 404
                    then [CreateUpdateEnv (rc_org rc) repo (Track_Environment track) created_env_settings,
                          CreateDeploymentBranchPolicy (rc_org rc) repo (Track_Environment track)
                            (Track_Branch track)]
                    else []) @
                   [GetEnvPublicKey repoID (Track_Environment track),
                    SealAnonymous key secretValue,
                    CreateOrUpdateEnvSecret repoID (Track_Environment track) secret]\<rparr>"
  using assms unfolding SetEnvSecret_def
proof (elim on_err_perform_InrE on_err_InrE bnd_deref_ValE, goal_cases)
  case (1 r u1 s1 secret s2 repoID u2)
  from ensureEnvironment_InrD[OF 1(2)] obtain status err where
    g: "w_GetEnvironment W (calls s @ [ReposGet (rc_org rc) repo]) (rc_org rc) repo
          (Track_Environment track) = (Some status, err)"
    and s1: "s1 = s\<lparr>calls := calls s @ [ReposGet (rc_org rc) repo] @
                   GetEnvironment (rc_org rc) repo (Track_Environment track) #
                   (if status = 404
                    then [CreateUpdateEnv (rc_org rc) repo (Track_Environment track) created_env_settings,
                          CreateDeploymentBranchPolicy (rc_org rc) repo (Track_Environment track)
                            (Track_Branch track)]
                    else [])\<rparr>"
    by auto
  from encryptSecret_InrD[OF 1(3)] 1(4) obtain key where
    n: "Secret_Name secret = secretName"
    and s2: "s2 = s1\<lparr>calls := calls s1 @ [GetEnvPublicKey repoID (Track_Environment track),
                                           SealAnonymous key secretValue]\<rparr>"
    by auto
  from 1(6) have s': "s' = s2\<lparr>calls := calls s2 @
                         [CreateOrUpdateEnvSecret repoID (Track_Environment track) secret]\<rparr>"
    by simp
  show ?case
    by (rule exI[of _ status], rule exI[of _ err], rule exI[of _ repoID], rule exI[of _ key],
        rule exI[of _ secret]) (use g n s1 s2 s' in simp)
qed



lemma not_creation [simp]:
  "\<not> is_env_creation (CreateDeploymentBranchPolicy a b c d)"
  "\<not> is_env_creation (GetEnvPublicKey i e)"
  "\<not> is_env_creation (SealAnonymous k v)"
  "\<not> is_env_creation (CreateOrUpdateEnvSecret i e x)"
  "\<not> is_env_creation (ReposGet a b)"
  "\<not> is_env_creation (GetEnvironment a b c)"
  "is_env_creation (CreateUpdateEnv a b c y)"
  by (simp_all add: is_env_creation_def)

lemma not_upload [simp]:
  "\<not> is_secret_upload (CreateDeploymentBranchPolicy a b c d)"
  "\<not> is_secret_upload (GetEnvPublicKey i e)"
  "\<not> is_secret_upload (SealAnonymous k v)"
  "\<not> is_secret_upload (CreateUpdateEnv a b c y)"
  "\<not> is_secret_upload (ReposGet a b)"
  "\<not> is_secret_upload (GetEnvironment a b c)"
  "is_secret_upload (CreateOrUpdateEnvSecret i e x)"
  by (simp_all add: is_secret_upload_def)

lemma createEnvironment_first_then:
  "first_then (CreateUpdateEnv (rc_org rc) repo (Track_Environment track) created_env_settings)
     (\<lambda>c. \<not> is_env_creation c) (createEnvironment W rc repo track) s"
  unfolding createEnvironment_def Let_def created_env_settings_def
  by (intro first_then_on_err first_then_perform adds_only_intros adds_only_perform) simp

lemma encryptSecret_no_creation:
  "adds_only (\<lambda>c. \<not> is_env_creation c) (encryptSecret L W rc r env name v)"
  unfolding encryptSecret_def
  by (intro adds_only_intros adds_only_perform) simp_all

lemma SetEnvSecret_404_calls:
  assumes "w_ReposGet W (calls s) (rc_org rc) repo = Inr r"
    and "w_GetEnvironment W (calls s @ [ReposGet (rc_org rc) repo]) (rc_org rc) repo
           (Track_Environment track) = (Some 404, err)"
  shows "\<exists>xs. new_calls (SetEnvSecret L W rc repo track secretName secretValue) s
           = [ReposGet (rc_org rc) repo,
              GetEnvironment (rc_org rc) repo (Track_Environment track),
              CreateUpdateEnv (rc_org rc) repo (Track_Environment track) created_env_settings] @ xs
         \<and> list_all (\<lambda>c. \<not> is_env_creation c) xs"
proof -
  let ?s2 = "s\<lparr>calls := calls s @ [ReposGet (rc_org rc) repo,
                                     GetEnvironment (rc_org rc) repo (Track_Environment track)]\<rparr>"
  let ?K = "\<lambda>u::unit.
     on_err (encryptSecret L W rc r (Track_Environment track) secretName secretValue)
       (Errorf ''failed to encrypt secret: '')
       (\<lambda>secret.
     bnd (lift (deref (Repository_ID r)))
       (\<lambda>repoID.
     on_err (perform (CreateOrUpdateEnvSecret repoID (Track_Environment track) secret)
               (\<lambda>h. w_CreateOrUpdateEnvSecret W h repoID (Track_Environment track) secret))
       (Errorf ''failed to set secret in environment: '')
       (\<lambda>_. ret (Inr ()))))"
  let ?s1 = "s\<lparr>calls := calls s @ [ReposGet (rc_org rc) repo]\<rparr>"
  have 1: "SetEnvSecret L W rc repo track secretName secretValue s
          = on_err (ensureEnvironment W rc repo track)
              (Errorf ''failed to get environment: '') ?K ?s1"
    using assms(1) by (simp add: SetEnvSecret_def on_err_perform)
  have 2: "ensureEnvironment W rc repo track ?s1
          = on_err (createEnvironment W rc repo track)
                      (Errorf ''failed to create environment: '')
                      (\<lambda>_. ret (Inr ())) ?s2"
    using assms(2) by (simp add: ensureEnvironment_def deref_def)
  have unf: "SetEnvSecret L W rc repo track secretName secretValue s
          = on_err (on_err (createEnvironment W rc repo track)
                      (Errorf ''failed to create environment: '')
                      (\<lambda>_. ret (Inr ())))
              (Errorf ''failed to get environment: '') ?K ?s2"
    unfolding 1
    by (rule on_err_cong_run
          [of "ensureEnvironment W rc repo track" ?s1
              "on_err (createEnvironment W rc repo track)
                 (Errorf ''failed to create environment: '') (\<lambda>_. ret (Inr ()))" ?s2,
           OF 2])
  have "first_then (CreateUpdateEnv (rc_org rc) repo (Track_Environment track) created_env_settings)
          (\<lambda>c. \<not> is_env_creation c)
          (on_err (on_err (createEnvironment W rc repo track)
                      (Errorf ''failed to create environment: '')
                      (\<lambda>_. ret (Inr ())))
              (Errorf ''failed to get environment: '') ?K) ?s2"
    by (intro first_then_on_err createEnvironment_first_then adds_only_intros
          encryptSecret_no_creation adds_only_perform) simp
  then show ?thesis
    by (auto simp: unf new_calls_def first_then_def)
qed


section \<open>The organisation client: lemmas\<close>

lemma not_review [simp]:
  "\<not> is_review (HttpDo r)" "\<not> is_review TimeNow"
  "is_review (ReviewPersonalAccessTokenRequest a b c)"
  by (simp_all add: is_review_def)

lemma ContainsFullName_named:
  "list_all (\<lambda>r. FullName r \<noteq> None) repos \<Longrightarrow>
   ContainsFullName repos name = Val (Some name \<in> set (map FullName repos))"
  by (induction repos) (auto simp: deref_def)

lemma listPATRequestRepositories_InrD:
  assumes "listPATRequestRepositories L W oc q s = (Val (Inr repos), s')"
  shows "s' = s\<lparr>calls := calls s @ [listing_call (oc_token s) q]\<rparr>"
  using assms
  by (auto simp: listPATRequestRepositories_def client_Do_def on_err_perform listing_call_def
           split: option.splits sum.splits)

lemma OrgClient_client_token:
  assumes "OrgClient_client L W oc s = (Val (Inr tok), s1)"
  shows "oc_token s1 = tok"
  using assms unfolding OrgClient_client_def
  by (auto dest!: on_err_InrD)

lemma listPATRequests_token:
  assumes "listPATRequests L W oc s = (Val (Inr reqs), s')"
  shows "oc_token s' = oc_token s"
  using assms
  by (auto simp: listPATRequests_def client_Do_def on_err_perform Let_def
           split: option.splits sum.splits)

lemma skips_calls:
  "skips L W oc repo pre s = Some s' \<Longrightarrow>
   calls s' = calls s @ map (listing_call (oc_token s)) pre \<and> oc_token s' = oc_token s"
proof (induction pre arbitrary: s)
  case Nil
  then show ?case by simp
next
  case (Cons q qs)
  from Cons.prems obtain repos s1 where
    l: "listPATRequestRepositories L W oc q s = (Val (Inr repos), s1)"
    and r: "skips L W oc repo qs s1 = Some s'"
    by (auto split: prod.splits outcome.splits sum.splits if_splits)
  from listPATRequestRepositories_InrD[OF l]
  have s1: "s1 = s\<lparr>calls := calls s @ [listing_call (oc_token s) q]\<rparr>" .
  from Cons.IH[OF r] s1 show ?case by simp
qed

lemma findPATRequest_loop_skip:
  assumes "listPATRequestRepositories L W oc q s = (Val (Inr repos), s1)"
    and "length repos \<noteq> 2 \<or> (named repos \<and> \<not> request_matches (oc_org oc) repo repos)"
  shows "findPATRequest_loop L W oc repo (q # qs) s = findPATRequest_loop L W oc repo qs s1"
proof -
  note step = on_err_Inr[where m = "listPATRequestRepositories L W oc q" and s = s, OF assms(1)]
  show ?thesis
  proof (cases "length repos \<noteq> 2")
    case True
    then show ?thesis by (simp add: step)
  next
    case False
    with assms(2) have n: "list_all (\<lambda>r. FullName r \<noteq> None) repos"
      and m: "\<not> request_matches (oc_org oc) repo repos"
      by (simp_all add: named_def)
    from False m show ?thesis
      by (auto simp: step ContainsFullName_named[OF n] request_matches_def)
  qed
qed

lemma findPATRequest_loop_match:
  assumes "listPATRequestRepositories L W oc q s = (Val (Inr repos), s1)"
    and "named repos" and "request_matches (oc_org oc) repo repos"
  shows "findPATRequest_loop L W oc repo (q # qs) s = (Val (Inr (patRequest_ID q)), s1)"
proof -
  note step = on_err_Inr[where m = "listPATRequestRepositories L W oc q" and s = s, OF assms(1)]
  from assms(2) have n: "list_all (\<lambda>r. FullName r \<noteq> None) repos" by (simp add: named_def)
  from assms(3) show ?thesis
    by (simp add: step ContainsFullName_named[OF n] request_matches_def)
qed

lemma findPATRequest_loop_skips:
  "skips L W oc repo pre s = Some s' \<Longrightarrow>
   findPATRequest_loop L W oc repo (pre @ rest) s = findPATRequest_loop L W oc repo rest s'"
proof (induction pre arbitrary: s)
  case Nil
  then show ?case by simp
next
  case (Cons q qs)
  from Cons.prems obtain repos s1 where
    l: "listPATRequestRepositories L W oc q s = (Val (Inr repos), s1)"
    and c: "length repos \<noteq> 2 \<or> (named repos \<and> \<not> request_matches (oc_org oc) repo repos)"
    and r: "skips L W oc repo qs s1 = Some s'"
    by (auto split: prod.splits outcome.splits sum.splits if_splits)
  have "findPATRequest_loop L W oc repo ((q # qs) @ rest) s
          = findPATRequest_loop L W oc repo (qs @ rest) s1"
    using findPATRequest_loop_skip[OF l c, of "qs @ rest"] by simp
  with Cons.IH[OF r] show ?case by simp
qed

lemma request_matches_exact:
  assumes "repo \<noteq> ''ci-screenshots''"
  shows "request_matches org repo repos \<longleftrightarrow>
           length repos = 2 \<and>
           set (map FullName repos) = {Some (org @ ''/'' @ repo), Some (org @ ''/ci-screenshots'')}"
proof -
  from assms have ne: "org @ ''/'' @ repo \<noteq> org @ ''/ci-screenshots''" by simp
  show ?thesis
  proof
    assume m: "request_matches org repo repos"
    then obtain a b where ab: "repos = [a, b]"
      by (cases repos; cases "tl repos"; cases "tl (tl repos)") (auto simp: request_matches_def)
    with m ne show "length repos = 2 \<and>
           set (map FullName repos) = {Some (org @ ''/'' @ repo), Some (org @ ''/ci-screenshots'')}"
      by (cases "FullName a"; cases "FullName b") (auto simp: request_matches_def)
  next
    assume "length repos = 2 \<and>
           set (map FullName repos) = {Some (org @ ''/'' @ repo), Some (org @ ''/ci-screenshots'')}"
    then show "request_matches org repo repos"
      by (simp add: request_matches_def)
  qed
qed

lemma ApprovePATRequest_unfold:
  assumes "OrgClient_client L W oc s = (Val (Inr tok), s1)"
    and "listPATRequests L W oc s1 = (Val (Inr reqs), s2)"
  shows "ApprovePATRequest L W oc repo s =
          on_err (findPATRequest_loop L W oc repo reqs)
            (\<lambda>e. ''could not find PAT request for '' @ oc_org oc @ ''/'' @ repo)
            (\<lambda>requestId.
               on_err (perform (ReviewPersonalAccessTokenRequest (oc_org oc) requestId ''approve'')
                         (\<lambda>h. w_Review W h (oc_org oc) requestId ''approve''))
                 (Errorf ''failed to approve personal access token request: '')
                 (\<lambda>_. ret (Inr ()))) s2"
proof -
  have a: "ApprovePATRequest L W oc repo s =
          on_err (findPATRequest L W oc repo)
            (\<lambda>e. ''could not find PAT request for '' @ oc_org oc @ ''/'' @ repo)
            (\<lambda>requestId.
               on_err (perform (ReviewPersonalAccessTokenRequest (oc_org oc) requestId ''approve'')
                         (\<lambda>h. w_Review W h (oc_org oc) requestId ''approve''))
                 (Errorf ''failed to approve personal access token request: '')
                 (\<lambda>_. ret (Inr ()))) s1"
    unfolding ApprovePATRequest_def
    by (simp add: on_err_Inr[where m = "OrgClient_client L W oc" and s = s, OF assms(1)])
  have f: "findPATRequest L W oc repo s1 = findPATRequest_loop L W oc repo reqs s2"
    unfolding findPATRequest_def
    by (simp add: on_err_Inr[where m = "listPATRequests L W oc" and s = s1, OF assms(2)])
  show ?thesis
    unfolding a
    by (rule on_err_cong_run[where m = "findPATRequest L W oc repo" and s = s1
          and m' = "findPATRequest_loop L W oc repo reqs" and s' = s2, OF f])
qed

section \<open>The sample organisation: token, pending requests and their repositories\<close>

lemma demo_oc_sel [simp]:
  "oc_org demo_oc = ''snapcrafters''"
  "oc_credentials demo_oc = \<lparr>App_ID = 1, App_Secret = ''app_secret-value''\<rparr>"
  by (simp_all add: demo_oc_def NewOrgClient_def demo_creds_def)

lemma demo_OrgClient_client:
  "OrgClient_client demo_libs demo_world demo_oc s
     = (Val (Inr ''ghs_demo''), s\<lparr>calls := calls s @ demo_token_calls, oc_token := ''ghs_demo''\<rparr>)"
  by (simp add: OrgClient_client_def GetAppToken_def encodeJWT_def getAppTokenEndpoint_def
        fetchAppToken_def client_Do_def exec demo_HttpDo_def demo_gjson_Get_def
        demo_token_calls_def)

lemma demo_Unmarshal_requests: "demo_Unmarshal_patRequests ''requests:5678'' = Inr demo_requests"
  by (simp add: demo_Unmarshal_patRequests_def demo_requests_def)

lemma demo_listPATRequests:
  "listPATRequests demo_libs demo_world demo_oc s
     = (Val (Inr demo_requests),
        s\<lparr>calls := calls s @
           [HttpDo \<lparr>rq_method = ''GET'',
                    rq_url = ''https://api.github.com/orgs/snapcrafters/personal-access-token-requests'',
                    rq_headers = [(''Authorization'', ''Bearer '' @ oc_token s),
                                  (''Accept'', ''application/vnd.github.json''),
                                  (''X-GitHub-Api-Version'', ''2022-11-28'')],
                    rq_body = []\<rparr>]\<rparr>)"
  by (simp add: listPATRequests_def client_Do_def exec demo_HttpDo_def demo_Unmarshal_requests)

lemma demo_repos:
  "demo_Unmarshal_Repositories ''repos:snapcrafters/sample-app,snapcrafters/ci-screenshots,snapcrafters/ci''
     = Inr (map (\<lambda>n. \<lparr>Repository_ID = None, FullName = Some n\<rparr>)
              [''snapcrafters/sample-app'', ''snapcrafters/ci-screenshots'', ''snapcrafters/ci''])"
  "demo_Unmarshal_Repositories ''repos:snapcrafters/other-app,snapcrafters/ci-screenshots''
     = Inr (map (\<lambda>n. \<lparr>Repository_ID = None, FullName = Some n\<rparr>)
              [''snapcrafters/other-app'', ''snapcrafters/ci-screenshots''])"
  "demo_Unmarshal_Repositories ''repos:snapcrafters/sample-app,snapcrafters/ci-screenshots''
     = Inr (map (\<lambda>n. \<lparr>Repository_ID = None, FullName = Some n\<rparr>)
              [''snapcrafters/sample-app'', ''snapcrafters/ci-screenshots''])"
  "demo_Unmarshal_Repositories ''repos:snapcrafters/ci-screenshots,snapcrafters/sample-app''
     = Inr (map (\<lambda>n. \<lparr>Repository_ID = None, FullName = Some n\<rparr>)
              [''snapcrafters/ci-screenshots'', ''snapcrafters/sample-app''])"
  by (simp_all add: demo_Unmarshal_Repositories_def Split_def Split_from.simps)

lemma demo_request_ID [simp]: "patRequest_ID (demo_request n) = int n"
  by (simp add: demo_request_def)

lemma demo_requests_eq: "demo_requests = map demo_request [5, 6, 7, 8]"
  by (simp add: demo_requests_def demo_request_def)

lemma demo_repos_of_request:
  "demo_repos_of (demo_request 5) =
     map (\<lambda>n. \<lparr>Repository_ID = None, FullName = Some n\<rparr>)
       [''snapcrafters/sample-app'', ''snapcrafters/ci-screenshots'', ''snapcrafters/ci'']"
  "demo_repos_of (demo_request 6) =
     map (\<lambda>n. \<lparr>Repository_ID = None, FullName = Some n\<rparr>)
       [''snapcrafters/other-app'', ''snapcrafters/ci-screenshots'']"
  "demo_repos_of (demo_request 7) =
     map (\<lambda>n. \<lparr>Repository_ID = None, FullName = Some n\<rparr>)
       [''snapcrafters/sample-app'', ''snapcrafters/ci-screenshots'']"
  "demo_repos_of (demo_request 8) =
     map (\<lambda>n. \<lparr>Repository_ID = None, FullName = Some n\<rparr>)
       [''snapcrafters/ci-screenshots'', ''snapcrafters/sample-app'']"
  by (simp_all add: demo_repos_of_def demo_request_def)

lemma demo_listing:
  "listPATRequestRepositories demo_libs demo_world demo_oc (demo_request 5) s
     = (Val (Inr (demo_repos_of (demo_request 5))),
        s\<lparr>calls := calls s @ [listing_call (oc_token s) (demo_request 5)]\<rparr>)"
  "listPATRequestRepositories demo_libs demo_world demo_oc (demo_request 6) s
     = (Val (Inr (demo_repos_of (demo_request 6))),
        s\<lparr>calls := calls s @ [listing_call (oc_token s) (demo_request 6)]\<rparr>)"
  "listPATRequestRepositories demo_libs demo_world demo_oc (demo_request 7) s
     = (Val (Inr (demo_repos_of (demo_request 7))),
        s\<lparr>calls := calls s @ [listing_call (oc_token s) (demo_request 7)]\<rparr>)"
  "listPATRequestRepositories demo_libs demo_world demo_oc (demo_request 8) s
     = (Val (Inr (demo_repos_of (demo_request 8))),
        s\<lparr>calls := calls s @ [listing_call (oc_token s) (demo_request 8)]\<rparr>)"
  unfolding demo_repos_of_request
  by (simp_all add: listPATRequestRepositories_def client_Do_def exec
        demo_HttpDo_def demo_repos demo_request_def listing_call_def)

lemma demo_matches:
  "\<not> request_matches ''snapcrafters'' ''sample-app'' (demo_repos_of (demo_request 5))"
  "\<not> request_matches ''snapcrafters'' ''sample-app'' (demo_repos_of (demo_request 6))"
  "request_matches ''snapcrafters'' ''sample-app'' (demo_repos_of (demo_request 7))"
  "request_matches ''snapcrafters'' ''sample-app'' (demo_repos_of (demo_request 8))"
  "\<not> request_matches ''snapcrafters'' ''no-such-app'' (demo_repos_of (demo_request 5))"
  "\<not> request_matches ''snapcrafters'' ''no-such-app'' (demo_repos_of (demo_request 6))"
  "\<not> request_matches ''snapcrafters'' ''no-such-app'' (demo_repos_of (demo_request 7))"
  "\<not> request_matches ''snapcrafters'' ''no-such-app'' (demo_repos_of (demo_request 8))"
  "request_matches ''snapcrafters'' ''ci-screenshots'' (demo_repos_of (demo_request 6))"
  "length (demo_repos_of (demo_request 5)) \<noteq> 2"
  by (simp_all add: demo_repos_of_def demo_request_def request_matches_def)

lemma demo_named_request: "named (demo_repos_of q)"
  by (simp add: named_def demo_repos_of_def)

lemma demo_state:
  "OrgClient_client demo_libs demo_world demo_oc s0
     = (Val (Inr ''ghs_demo''), \<lparr>calls = demo_token_calls, oc_token = ''ghs_demo''\<rparr>)"
  "listPATRequests demo_libs demo_world demo_oc \<lparr>calls = demo_token_calls, oc_token = ''ghs_demo''\<rparr>
     = (Val (Inr (map demo_request [5, 6, 7, 8])),
        \<lparr>calls = demo_token_calls @ [demo_list_call], oc_token = ''ghs_demo''\<rparr>)"
  by (simp_all add: demo_OrgClient_client demo_listPATRequests s0_def demo_requests_eq
        demo_list_call_def)

lemma demo_skips:
  "skips demo_libs demo_world demo_oc ''sample-app'' [demo_request 5, demo_request 6]
     \<lparr>calls = demo_token_calls @ [demo_list_call], oc_token = ''ghs_demo''\<rparr>
   = Some \<lparr>calls = demo_token_calls @ [demo_list_call] @
              map (listing_call ''ghs_demo'') [demo_request 5, demo_request 6],
           oc_token = ''ghs_demo''\<rparr>"
  "skips demo_libs demo_world demo_oc ''no-such-app'' (map demo_request [5, 6, 7, 8])
     \<lparr>calls = demo_token_calls @ [demo_list_call], oc_token = ''ghs_demo''\<rparr>
   = Some \<lparr>calls = demo_token_calls @ [demo_list_call] @
              map (listing_call ''ghs_demo'') (map demo_request [5, 6, 7, 8]),
           oc_token = ''ghs_demo''\<rparr>"
  "skips demo_libs demo_world demo_oc ''ci-screenshots'' [demo_request 5]
     \<lparr>calls = demo_token_calls @ [demo_list_call], oc_token = ''ghs_demo''\<rparr>
   = Some \<lparr>calls = demo_token_calls @ [demo_list_call] @
              map (listing_call ''ghs_demo'') [demo_request 5],
           oc_token = ''ghs_demo''\<rparr>"
  by (simp_all add: demo_listing demo_matches demo_named_request)

section \<open>The sample web session\<close>

lemma empty_doc_sel [simp]:
  "doc_total_pages empty_doc = None"
  "doc_access_tokens empty_doc = []"
  "doc_new_form_token empty_doc = None"
  "doc_error_text empty_doc = []"
  "doc_flash_errors empty_doc = []"
  "doc_hidden_inputs empty_doc = []"
  "doc_remove_buttons empty_doc = []"
  by (simp_all add: empty_doc_def)

lemma demo_pc_sel [simp]:
  "username demo_pc = ''snapcrafters_bot_login-value''"
  "password demo_pc = ''snapcrafters_bot_password-value''"
  by (simp_all add: demo_pc_def NewPATClient_def demo_creds_def)

lemma demo_logged_in_append [simp]:
  "demo_logged_in (h @ xs) = (demo_logged_in h \<or> demo_logged_in xs)"
  by (simp add: demo_logged_in_def)

lemma demo_logged_in_login [simp]: "demo_logged_in (demo_login_calls b) = (\<not> b)"
  by (simp add: demo_logged_in_def demo_login_calls_def)

lemma demo_PATClient_login:
  "PATClient_login demo_libs demo_world demo_pc s
     = (Val (Inr ()), s\<lparr>calls := calls s @ demo_login_calls (demo_logged_in (calls s))\<rparr>)"
  by (simp add: PATClient_login_def getWebpage_def postForm_def exec demo_WebGet_def
        demo_WebPostForm_def demo_login_calls_def)

lemma demo_getRepositoryID:
  "getRepositoryID demo_libs demo_world demo_pc ''snapcrafters'' ''sample-app'' s
     = (Val (Inr ''1001''),
        s\<lparr>calls := calls s @
           [WebDo \<lparr>rq_method = ''GET'',
             rq_url = ''https://github.com/settings/personal-access-tokens/suggestions?target_name=snapcrafters&q=sample-app&'',
             rq_headers = [(''Accept'', ''text/fragment+html'')], rq_body = []\<rparr>]\<rparr>)"
  "getRepositoryID demo_libs demo_world demo_pc ''snapcrafters'' ''ci-screenshots'' s
     = (Val (Inr ''1002''),
        s\<lparr>calls := calls s @
           [WebDo \<lparr>rq_method = ''GET'',
             rq_url = ''https://github.com/settings/personal-access-tokens/suggestions?target_name=snapcrafters&q=ci-screenshots&'',
             rq_headers = [(''Accept'', ''text/fragment+html'')], rq_body = []\<rparr>]\<rparr>)"
  by (simp_all add: getRepositoryID_def exec)

lemma demo_Split:
  "Split ''snapcrafters/sample-app'' ''/'' = [''snapcrafters'', ''sample-app'']"
  "Split ''snapcrafters/ci-screenshots'' ''/'' = [''snapcrafters'', ''ci-screenshots'']"
  by (simp_all add: Split_def Split_from.simps)

lemma demo_Create_repoIDs:
  "Create_repoIDs demo_libs demo_world demo_pc []
      [''snapcrafters/sample-app'', ''snapcrafters/ci-screenshots''] s
     = (Val (Inr [''1001'', ''1002'']),
        s\<lparr>calls := calls s @
          [WebDo \<lparr>rq_method = ''GET'',
             rq_url = ''https://github.com/settings/personal-access-tokens/suggestions?target_name=snapcrafters&q=sample-app&'',
             rq_headers = [(''Accept'', ''text/fragment+html'')], rq_body = []\<rparr>,
           WebDo \<lparr>rq_method = ''GET'',
             rq_url = ''https://github.com/settings/personal-access-tokens/suggestions?target_name=snapcrafters&q=ci-screenshots&'',
             rq_headers = [(''Accept'', ''text/fragment+html'')], rq_body = []\<rparr>]\<rparr>)"
  by (simp add: demo_Split index_def
        on_err_Inr[where m = "getRepositoryID demo_libs demo_world demo_pc ''snapcrafters'' ''sample-app''",
                   OF demo_getRepositoryID(1)]
        on_err_Inr[where m = "getRepositoryID demo_libs demo_world demo_pc ''snapcrafters'' ''ci-screenshots''",
                   OF demo_getRepositoryID(2)])

lemma demo_Create:
  "Create demo_libs demo_world demo_pc name
      [''snapcrafters/sample-app'', ''snapcrafters/ci-screenshots''] ''snapcrafters'' s
     = (Val (Inr \<lparr>PAT_ID = ''101'', PAT_Name = name, PAT_Token = ''github_pat_NEW'',
                   deleteToken = ''del-101''\<rparr>),
        s\<lparr>calls := calls s @ demo_login_calls (demo_logged_in (calls s)) @ demo_create_calls name\<rparr>)"
  unfolding Create_def
  by (simp add: on_err_Inr[where m = "PATClient_login demo_libs demo_world demo_pc", OF demo_PATClient_login]
        on_err_Inr[where m = "Create_repoIDs demo_libs demo_world demo_pc [] [''snapcrafters/sample-app'', ''snapcrafters/ci-screenshots'']", OF demo_Create_repoIDs]
        getWebpage_def postForm_def exec demo_WebGet_def demo_WebPostForm_def
        demo_create_calls_def
        del: Create_repoIDs.simps)

lemma demo_parse: "parsePATListPage (empty_doc\<lparr>doc_access_tokens := demo_listed\<rparr>) ''token8r'' = demo_pats"
  by (simp add: parsePATListPage_def demo_listed_def demo_pats_def Contains_def
        sublist_Cons_right)

lemma demo_PATClient_List:
  "PATClient_List demo_libs demo_world demo_pc ''token8r'' s
     = (Val (Inr demo_pats),
        s\<lparr>calls := calls s @ demo_login_calls (demo_logged_in (calls s)) @
             [WebGet ''https://github.com/settings/tokens?page=1&type=beta'']\<rparr>)"
  unfolding PATClient_List_def
  by (simp add: on_err_Inr[where m = "PATClient_login demo_libs demo_world demo_pc", OF demo_PATClient_login]
        getWebpage_def exec demo_WebGet_def demo_parse demo_Atoi_def
        del: Create_repoIDs.simps)

lemma demo_PAT_Delete:
  "PAT_Delete demo_libs demo_world demo_pc p s
     = (Val (Inr ()),
        s\<lparr>calls := calls s @ demo_login_calls (demo_logged_in (calls s)) @ [delete_call p]\<rparr>)"
  unfolding PAT_Delete_def
  by (simp add: on_err_Inr[where m = "PATClient_login demo_libs demo_world demo_pc", OF demo_PATClient_login]
        postForm_def exec demo_WebPostForm_def delete_call_def)

lemma demo_getWebpage_new:
  "getWebpage demo_world ''https://github.com/settings/personal-access-tokens/new'' s
     = (Val (Inr (empty_doc\<lparr>doc_new_form_token := Some ''tok-new''\<rparr>)),
        s\<lparr>calls := calls s @ [WebGet ''https://github.com/settings/personal-access-tokens/new'']\<rparr>)"
  by (simp add: getWebpage_def demo_WebGet_def)

section \<open>Splitting a repository name\<close>

lemma Split_from_no_sep:
  "CHR ''/'' \<notin> set rest \<Longrightarrow> Split_from ''/'' cur rest = [cur @ rest]"
proof (induction rest arbitrary: cur)
  case Nil
  show ?case by (subst Split_from.simps) simp
next
  case (Cons c cs)
  then have "Split_from ''/'' (cur @ [c]) cs = [(cur @ [c]) @ cs]" by simp
  with Cons.prems show ?case by (subst Split_from.simps) auto
qed

lemma Split_from_nonempty: "Split_from sep cur rest \<noteq> []"
proof (induction sep cur rest rule: Split_from.induct)
  case (1 sep cur rest)
  show ?case
    by (subst Split_from.simps) (use 1 in \<open>auto split: list.splits\<close>)
qed

lemma Split_from_sep:
  "CHR ''/'' \<in> set rest \<Longrightarrow> 2 \<le> length (Split_from ''/'' cur rest)"
proof (induction rest arbitrary: cur)
  case Nil
  then show ?case by simp
next
  case (Cons c cs)
  show ?case
  proof (cases "c = CHR ''/''")
    case True
    have "Split_from ''/'' [] cs \<noteq> []" by (rule Split_from_nonempty)
    then have "1 \<le> length (Split_from ''/'' [] cs)" by (cases "Split_from ''/'' [] cs") simp_all
    with True show ?thesis by (subst Split_from.simps) simp
  next
    case False
    with Cons.prems have "CHR ''/'' \<in> set cs" by simp
    from Cons.IH[OF this, of "cur @ [c]"] False show ?thesis
      by (subst Split_from.simps) simp
  qed
qed

lemma index_Split_1:
  "index (Split repo ''/'') 1 = Panic ''runtime error: index out of range'' \<longleftrightarrow> CHR ''/'' \<notin> set repo"
proof (cases "CHR ''/'' \<in> set repo")
  case True
  from Split_from_sep[OF this, of "[]"] True show ?thesis
    by (simp add: index_def Split_def)
next
  case False
  then show ?thesis by (simp add: index_def Split_def Split_from_no_sep)
qed

lemma index_Split_0: "\<exists>r0. index (Split repo ''/'') 0 = Val r0"
  using Split_from_nonempty[of "''/''" "[]" repo] by (simp add: index_def Split_def)

section \<open>The command: lemmas\<close>

lemma offline_world_sel [simp]:
  "w_WebHead offline_world = (\<lambda>h url. Inl ''connection refused'')"
  "w_Flags offline_world = Run [] False"
  "w_ReadInConfig offline_world = (\<lambda>h. None)"
  "w_ViperUnmarshal offline_world = (\<lambda>h. Inr demo_config)"
  "w_GetString offline_world = (\<lambda>k. k @ ''-value'')"
  "w_GetInt offline_world = (\<lambda>k. 1)"
  "w_TimeNow offline_world = (\<lambda>h. 1700000000)"
  by (simp_all add: offline_world_def)

lemma offline_parseConfig:
  "parseConfig offline_world s0 = (Val (Inr demo_config), \<lparr>calls = [ReadInConfig, ViperUnmarshal], oc_token = []\<rparr>)"
  by (simp add: parseConfig_def s0_def)

lemma offline_parseCreds: "parseCreds offline_world = Inr demo_creds"
  by (simp add: parseCreds_def demo_creds_def)

lemma offline_NewManager:
  "NewManager demo_libs offline_world demo_config demo_creds
     \<lparr>calls = [ReadInConfig, ViperUnmarshal], oc_token = []\<rparr>
   = (Val demo_manager, \<lparr>calls = [ReadInConfig, ViperUnmarshal, TimeNow], oc_token = []\<rparr>)"
  by (simp add: NewManager_def generateID_def demo_manager_def demo_config_def exec)

lemma offline_Process:
  "Process demo_libs offline_world demo_manager []
     \<lparr>calls = [ReadInConfig, ViperUnmarshal, TimeNow], oc_token = []\<rparr>
   = (Val (Inl ''failed to list personal access tokens: failed to login to Github: failed to detect Github session login status''),
      \<lparr>calls = [ReadInConfig, ViperUnmarshal, TimeNow, WebHead ''https://github.com/settings/''],
       oc_token = []\<rparr>)"
  by (simp add: Process_def PATClient_List_def PATClient_login_def exec Errorf_def)

lemma main_exit_status_after_config_error:
  assumes "w_Flags W = Run repositories verbose"
    and "parseConfig W s = (Val (Inl e), s1)"
  shows "main L W s
           = (Val 1, s1\<lparr>calls := calls s1 @ [SlogError (''failed to parse config: '' @ e)]\<rparr>)"
proof -
  have "RunE L W repositories s = (Val (Inl (''failed to parse config: '' @ e)), s1)"
    unfolding RunE_def
    by (simp add: on_err_Inl[where m = "parseConfig W" and s = s, OF assms(2)] Errorf_def)
  then have "Execute L W s = (Val (Inl (''failed to parse config: '' @ e)), s1)"
    by (simp add: Execute_def assms(1))
  note st = bnd_Val[where m = "Execute L W" and s = s, OF this]
  show ?thesis unfolding main_def by (simp add: st)
qed

section \<open>Deleting calls\<close>

lemma is_delete_simps [simp]:
  "\<not> is_delete (HttpDo r)" "\<not> is_delete TimeNow"
  "\<not> is_delete (ReviewPersonalAccessTokenRequest org requestId action)"
  "\<not> is_delete (ReposGet a b)" "\<not> is_delete (GetEnvironment a b c)"
  "\<not> is_delete (CreateUpdateEnv a b c y)" "\<not> is_delete (CreateDeploymentBranchPolicy a b c d)"
  "\<not> is_delete (GetEnvPublicKey i e)" "\<not> is_delete (SealAnonymous k v)"
  "\<not> is_delete (CreateOrUpdateEnvSecret i e x)"
  "\<not> is_delete (WebHead u)" "\<not> is_delete (WebGet u)" "\<not> is_delete (WebDo r)"
  "\<not> is_delete (WebPostForm ''https://github.com/session'' f)"
  "\<not> is_delete (WebPostForm ''https://github.com/settings/personal-access-tokens'' f)"
  "is_delete (delete_call p)"
  by (simp_all add: is_delete_def delete_call_def)

section \<open>Which calls the operations add\<close>

lemma getWebpage_adds_only: "Q (WebGet url) \<Longrightarrow> adds_only Q (getWebpage W url)"
  unfolding getWebpage_def by (intro adds_only_intros adds_only_perform)

lemma postForm_adds_only: "Q (WebPostForm url f) \<Longrightarrow> adds_only Q (postForm W url f)"
  unfolding postForm_def by (intro adds_only_intros adds_only_perform)

lemma PATClient_login_adds_only:
  assumes "\<And>u. Q (WebHead u)" "\<And>u. Q (WebGet u)" "\<And>f. Q (WebPostForm ''https://github.com/session'' f)"
  shows "adds_only Q (PATClient_login L W pc)"
  unfolding PATClient_login_def
  by (intro adds_only_intros adds_only_perform getWebpage_adds_only postForm_adds_only assms)

lemma getRepositoryID_adds_only:
  assumes "\<And>r. Q (WebDo r)"
  shows "adds_only Q (getRepositoryID L W pc owner repo)"
  unfolding getRepositoryID_def
  by (intro adds_only_intros adds_only_perform assms)

lemma Create_repoIDs_adds_only:
  assumes "\<And>r. Q (WebDo r)"
  shows "adds_only Q (Create_repoIDs L W pc ids repos)"
proof (induction repos arbitrary: ids)
  case Nil
  show ?case unfolding Create_repoIDs.simps by (rule adds_only_ret)
next
  case (Cons r rs)
  show ?case
    unfolding Create_repoIDs.simps
    by (intro adds_only_intros getRepositoryID_adds_only assms Cons)
qed

lemma Create_adds_only:
  assumes "\<And>u. Q (WebHead u)" "\<And>u. Q (WebGet u)" "\<And>f. Q (WebPostForm ''https://github.com/session'' f)"
    and "\<And>r. Q (WebDo r)" "Q TimeNow"
    and "\<And>f. Q (WebPostForm ''https://github.com/settings/personal-access-tokens'' f)"
  shows "adds_only Q (Create L W pc name repos owner)"
  unfolding Create_def
  by (intro adds_only_intros adds_only_perform getWebpage_adds_only postForm_adds_only
        PATClient_login_adds_only Create_repoIDs_adds_only assms)

lemma client_Do_adds_only: "Q (HttpDo req) \<Longrightarrow> adds_only Q (client_Do W req)"
  unfolding client_Do_def by (rule adds_only_perform)

lemma GetAppToken_adds_only:
  assumes "\<And>r. Q (HttpDo r)" "Q TimeNow"
  shows "adds_only Q (GetAppToken L W creds)"
  unfolding GetAppToken_def encodeJWT_def getAppTokenEndpoint_def fetchAppToken_def
  by (intro adds_only_intros adds_only_perform client_Do_adds_only assms)

lemma listPATRequestRepositories_adds_only:
  assumes "\<And>r. Q (HttpDo r)"
  shows "adds_only Q (listPATRequestRepositories L W oc q)"
  unfolding listPATRequestRepositories_def
  by (intro adds_only_intros client_Do_adds_only assms)

lemma findPATRequest_loop_adds_only:
  assumes "\<And>r. Q (HttpDo r)"
  shows "adds_only Q (findPATRequest_loop L W oc repo reqs)"
proof (induction reqs)
  case Nil
  show ?case unfolding findPATRequest_loop.simps by (rule adds_only_ret)
next
  case (Cons q qs)
  show ?case
    unfolding findPATRequest_loop.simps
    by (intro adds_only_intros listPATRequestRepositories_adds_only assms Cons)
qed

lemma ApprovePATRequest_adds_only:
  assumes "\<And>r. Q (HttpDo r)" "Q TimeNow" "\<And>a b c. Q (ReviewPersonalAccessTokenRequest a b c)"
  shows "adds_only Q (ApprovePATRequest L W oc repo)"
  unfolding ApprovePATRequest_def OrgClient_client_def findPATRequest_def listPATRequests_def
  by (intro adds_only_intros adds_only_perform client_Do_adds_only GetAppToken_adds_only
        findPATRequest_loop_adds_only assms)

lemma SetEnvSecret_adds_only:
  assumes "\<And>a b. Q (ReposGet a b)" "\<And>a b c. Q (GetEnvironment a b c)"
    "\<And>a b c y. Q (CreateUpdateEnv a b c y)" "\<And>a b c d. Q (CreateDeploymentBranchPolicy a b c d)"
    "\<And>i e. Q (GetEnvPublicKey i e)" "\<And>k v. Q (SealAnonymous k v)"
    "\<And>i e x. Q (CreateOrUpdateEnvSecret i e x)"
  shows "adds_only Q (SetEnvSecret L W rc repo track name v)"
  unfolding SetEnvSecret_def ensureEnvironment_def createEnvironment_def encryptSecret_def
  by (intro adds_only_intros adds_only_perform assms)

section \<open>The deletions of the clean-up\<close>

lemma deletes_ret: "deletes [] (ret (Inr ()))"
  by (simp add: deletes_def)

lemma deletes_on_err:
  assumes m: "adds_only (\<lambda>c. \<not> is_delete c) m" and k: "\<And>x. deletes ps (k x)"
  shows "deletes ps (on_err m wrap k)"
  unfolding deletes_def
proof
  fix s
  obtain r s1 where ms: "m s = (r, s1)" by (cases "m s")
  from adds_onlyD[OF m ms] obtain xs where
    xs: "calls s1 = calls s @ xs" "list_all (\<lambda>c. \<not> is_delete c) xs" .
  then have f: "filter is_delete xs = []" by (simp add: filter_none)
  show "\<exists>xs. calls (snd (on_err m wrap k s)) = calls s @ xs \<and>
             prefix (filter is_delete xs) (map delete_call ps) \<and>
             (fst (on_err m wrap k s) = Val (Inr ()) \<longrightarrow> filter is_delete xs = map delete_call ps)"
  proof (cases r)
    case (Panic msg)
    with ms xs f show ?thesis by (simp add: on_err_Panic[where m = m and s = s, OF ms[unfolded Panic]])
  next
    case (Val v)
    show ?thesis
    proof (cases v)
      case (Inl e)
      with ms Val have "m s = (Val (Inl e), s1)" by simp
      note st = on_err_Inl[where m = m and s = s, OF this]
      from xs f show ?thesis by (simp add: st)
    next
      case (Inr x)
      with ms Val have "m s = (Val (Inr x), s1)" by simp
      note st = on_err_Inr[where m = m and s = s, OF this]
      from k[of x, unfolded deletes_def, rule_format, of s1] obtain ys where
        ys: "calls (snd (k x s1)) = calls s1 @ ys"
            "prefix (filter is_delete ys) (map delete_call ps)"
            "fst (k x s1) = Val (Inr ()) \<longrightarrow> filter is_delete ys = map delete_call ps"
        by blast
      show ?thesis
        by (rule exI[of _ "xs @ ys"]) (use xs f ys in \<open>simp add: st\<close>)
    qed
  qed
qed

lemma postForm_last_calls:
  "calls (snd (on_err (postForm W url f) wrap (\<lambda>_. ret (Inr ())) s)) = calls s @ [WebPostForm url f]"
  by (simp add: postForm_def on_err_def bnd_def split: sum.splits)

lemma PAT_Delete_calls:
  "\<exists>xs. calls (snd (PAT_Delete L W pc p s)) = calls s @ xs \<and>
        (filter is_delete xs = [] \<and> fst (PAT_Delete L W pc p s) \<noteq> Val (Inr ())
         \<or> filter is_delete xs = [delete_call p])"
proof -
  let ?login = "PATClient_login L W pc"
  have lo: "adds_only (\<lambda>c. \<not> is_delete c) ?login"
    by (rule PATClient_login_adds_only) simp_all
  obtain r s1 where ms: "?login s = (r, s1)" by (cases "?login s")
  from adds_onlyD[OF lo ms] obtain xs where
    xs: "calls s1 = calls s @ xs" "list_all (\<lambda>c. \<not> is_delete c) xs" .
  then have f: "filter is_delete xs = []" by (simp add: filter_none)
  show ?thesis
  proof (cases r)
    case (Panic msg)
    with ms xs f show ?thesis
      unfolding PAT_Delete_def
      by (simp add: on_err_Panic[where m = ?login and s = s, OF ms[unfolded Panic]])
  next
    case (Val v)
    show ?thesis
    proof (cases v)
      case (Inl e)
      with ms Val have "?login s = (Val (Inl e), s1)" by simp
      note st = on_err_Inl[where m = ?login and s = s, OF this]
      from xs f show ?thesis unfolding PAT_Delete_def by (simp add: st)
    next
      case (Inr x)
      with ms Val have "?login s = (Val (Inr x), s1)" by simp
      note st = on_err_Inr[where m = ?login and s = s, OF this]
      have "calls (snd (PAT_Delete L W pc p s)) = calls s @ xs @ [delete_call p]"
        unfolding PAT_Delete_def
        by (simp add: st Let_def postForm_last_calls xs delete_call_def)
      with f show ?thesis by simp
    qed
  qed
qed

lemma deletes_cleanup_loop:
  "deletes (filter (\<lambda>p. Contains (PAT_Name p) (snap @ ''-'' @ Track_Name track) \<and>
                        \<not> Contains (PAT_Name p) (m_id m)) pats)
     (cleanup_loop L W m snap track pats)"
proof (induction pats)
  case Nil
  show ?case by (simp add: deletes_def)
next
  case (Cons p ps)
  let ?P = "\<lambda>p. Contains (PAT_Name p) (snap @ ''-'' @ Track_Name track) \<and>
                        \<not> Contains (PAT_Name p) (m_id m)"
  show ?case
  proof (cases "?P p")
    case False
    then have "cleanup_loop L W m snap track (p # ps) = cleanup_loop L W m snap track ps"
      and "filter ?P (p # ps) = filter ?P ps"
      by (auto simp: Let_def)
    with Cons show ?thesis by (simp only:)
  next
    case True
    have "\<exists>xs. calls (snd (cleanup_loop L W m snap track (p # ps) s)) = calls s @ xs \<and>
             prefix (filter is_delete xs) (map delete_call (filter ?P (p # ps))) \<and>
             (fst (cleanup_loop L W m snap track (p # ps) s) = Val (Inr ()) \<longrightarrow>
                filter is_delete xs = map delete_call (filter ?P (p # ps)))" for s
    proof -
      let ?d = "PAT_Delete L W (patClient m) p"
      have u: "cleanup_loop L W m snap track (p # ps) s
                 = on_err ?d (Errorf ''failed to delete personal access token: '')
                     (\<lambda>_. cleanup_loop L W m snap track ps) s"
        using True by (simp add: Let_def)
      from PAT_Delete_calls[of L W "patClient m" p s] obtain xs where
        xs: "calls (snd (?d s)) = calls s @ xs"
        and c: "filter is_delete xs = [] \<and> fst (?d s) \<noteq> Val (Inr ())
                \<or> filter is_delete xs = [delete_call p]"
        by blast
      obtain r s1 where ms: "?d s = (r, s1)" by (cases "?d s")
      show ?thesis
      proof (cases "r = Val (Inr ())")
        case True
        with ms have "?d s = (Val (Inr ()), s1)" by simp
        note st = on_err_Inr[where m = ?d and s = s, OF this]
        from True ms c have fx: "filter is_delete xs = [delete_call p]" by auto
        from Cons[unfolded deletes_def, rule_format, of s1] obtain ys where
          ys: "calls (snd (cleanup_loop L W m snap track ps s1)) = calls s1 @ ys"
              "prefix (filter is_delete ys) (map delete_call (filter ?P ps))"
              "fst (cleanup_loop L W m snap track ps s1) = Val (Inr ()) \<longrightarrow>
                 filter is_delete ys = map delete_call (filter ?P ps)"
          by blast
        show ?thesis
          unfolding u
          by (rule exI[of _ "xs @ ys"]) (use xs ms ys fx \<open>?P p\<close> in \<open>simp add: st\<close>)
      next
        case False
        have "fst (on_err ?d (Errorf ''failed to delete personal access token: '')
                     (\<lambda>_. cleanup_loop L W m snap track ps) s) \<noteq> Val (Inr ())
              \<and> snd (on_err ?d (Errorf ''failed to delete personal access token: '')
                     (\<lambda>_. cleanup_loop L W m snap track ps) s) = s1"
          using False ms by (cases r) (auto simp: on_err_def bnd_def split: sum.splits)
        moreover from c have "prefix (filter is_delete xs) (map delete_call (filter ?P (p # ps)))"
          using \<open>?P p\<close> by auto
        ultimately show ?thesis
          unfolding u
          by (intro exI[of _ xs]) (use xs ms in simp)
      qed
    qed
    then show ?thesis unfolding deletes_def by blast
  qed
qed

lemma deletes_setBotCommitSecret:
  "deletes (filter (\<lambda>p. Contains (PAT_Name p) (snap @ ''-'' @ Track_Name track) \<and>
                        \<not> Contains (PAT_Name p) (m_id m)) pats)
     (setBotCommitSecret L W m snap track pats)"
  unfolding setBotCommitSecret_def Let_def
  by (intro deletes_on_err deletes_cleanup_loop Create_adds_only ApprovePATRequest_adds_only
        SetEnvSecret_adds_only) simp_all

section \<open>The sample run of the bot-commit step\<close>

lemma demo_manager_sel [simp]:
  "m_id demo_manager = ''9f86''"
  "m_config demo_manager = demo_config"
  "m_credentials demo_manager = demo_creds"
  "orgClient demo_manager = demo_oc"
  "patClient demo_manager = demo_pc"
  "repoClient demo_manager = demo_rc"
  "storeClient demo_manager = demo_sc"
  by (simp_all add: demo_manager_def demo_oc_def demo_pc_def demo_rc_def demo_sc_def)

lemma demo_config_sel [simp]:
  "Config_Org demo_config = ''snapcrafters''"
  "Config_Repos demo_config = [\<lparr>Repo_Name = ''sample-app'', Repo_Snaps = [], Repo_Tracks = []\<rparr>]"
  by (simp_all add: demo_config_def)

lemma demo_ApprovePATRequest:
  "ApprovePATRequest demo_libs demo_world demo_oc ''sample-app'' s
     = (Val (Inr ()), s\<lparr>calls := calls s @ demo_approve_calls, oc_token := ''ghs_demo''\<rparr>)"
proof -
  let ?s2 = "s\<lparr>calls := calls s @ demo_token_calls @ [demo_list_call], oc_token := ''ghs_demo''\<rparr>"
  have l: "listPATRequests demo_libs demo_world demo_oc
             (s\<lparr>calls := calls s @ demo_token_calls, oc_token := ''ghs_demo''\<rparr>)
           = (Val (Inr ([demo_request 5, demo_request 6] @ [demo_request 7, demo_request 8])), ?s2)"
    by (simp add: demo_listPATRequests demo_requests_eq demo_list_call_def)
  have k: "skips demo_libs demo_world demo_oc ''sample-app'' [demo_request 5, demo_request 6] ?s2
           = Some (s\<lparr>calls := calls s @ demo_token_calls @ [demo_list_call] @
                       map (listing_call ''ghs_demo'') [demo_request 5, demo_request 6],
                     oc_token := ''ghs_demo''\<rparr>)"
    by (simp add: demo_listing demo_matches demo_named_request)
  note M = findPATRequest_loop_match[where L = demo_libs and W = demo_world and oc = demo_oc,
             unfolded demo_oc_sel]
  have f: "findPATRequest_loop demo_libs demo_world demo_oc ''sample-app''
              ([demo_request 5, demo_request 6] @ [demo_request 7, demo_request 8]) ?s2
          = (Val (Inr 7),
             s\<lparr>calls := calls s @ demo_token_calls @ [demo_list_call] @
                       map (listing_call ''ghs_demo'') [demo_request 5, demo_request 6, demo_request 7],
               oc_token := ''ghs_demo''\<rparr>)"
    using findPATRequest_loop_skips[OF k, of "[demo_request 7, demo_request 8]"]
          M[OF demo_listing(3) demo_named_request demo_matches(3), of "[demo_request 8]"]
    by simp
  show ?thesis
    unfolding ApprovePATRequest_unfold[OF demo_OrgClient_client l]
      on_err_Inr[where m = "findPATRequest_loop demo_libs demo_world demo_oc ''sample-app''
              ([demo_request 5, demo_request 6] @ [demo_request 7, demo_request 8])", OF f]
    by (simp add: on_err_perform demo_approve_calls_def)
qed

lemma demo_env_created_append [simp]:
  "demo_env_created (h @ xs) org repo env
     = (demo_env_created h org repo env \<or> demo_env_created xs org repo env)"
  by (simp add: demo_env_created_def)

lemma demo_env_created_lists [simp]:
  "\<not> demo_env_created (demo_login_calls b) org repo env"
  "\<not> demo_env_created (demo_create_calls name) org repo env"
  "\<not> demo_env_created demo_approve_calls org repo env"
  "\<not> demo_env_created (demo_store_calls channel perms) org repo env"
  "\<not> demo_env_created [WebGet u] org repo env"
  "\<not> demo_env_created [delete_call p] org repo env"
  "demo_env_created (demo_secret_calls fresh name v) ''snapcrafters'' ''sample-app'' ''Candidate Branch''
     = fresh"
  by (simp_all add: demo_env_created_def demo_login_calls_def demo_create_calls_def
        demo_approve_calls_def demo_token_calls_def demo_list_call_def listing_call_def
        demo_store_calls_def demo_secret_calls_def delete_call_def del: demo_render.simps)

lemma demo_logged_in_lists [simp]:
  "\<not> demo_logged_in (demo_create_calls name)"
  "\<not> demo_logged_in demo_approve_calls"
  "\<not> demo_logged_in (demo_store_calls channel perms)"
  "\<not> demo_logged_in (demo_secret_calls fresh nm v)"
  "\<not> demo_logged_in [WebGet u]"
  "\<not> demo_logged_in [delete_call p]"
  by (simp_all add: demo_logged_in_def demo_create_calls_def
        demo_approve_calls_def demo_token_calls_def demo_list_call_def listing_call_def
        demo_store_calls_def demo_secret_calls_def delete_call_def del: demo_render.simps)

lemma demo_superseded:
  "filter (\<lambda>p. Contains (PAT_Name p) ''sample-app-latest'' \<and>
               \<not> Contains (PAT_Name p) ''9f86'') demo_pats
     = [\<lparr>PAT_ID = ''11'', PAT_Name = ''token8r-0000-sample-app-latest'', PAT_Token = [],
         deleteToken = ''del-11''\<rparr>,
        \<lparr>PAT_ID = ''13'', PAT_Name = ''token8r-0000-my-sample-app-latest'', PAT_Token = [],
         deleteToken = ''del-13''\<rparr>]"
  by (simp add: demo_pats_def Contains_def sublist_Cons_right)

lemma demo_login_calls_True: "demo_login_calls True = [WebHead ''https://github.com/settings/'']"
  by (simp add: demo_login_calls_def)

lemma demo_cleanup_loop:
  "cleanup_loop demo_libs demo_world demo_manager ''sample-app'' demo_track demo_pats s
     = (Val (Inr ()), s\<lparr>calls := calls s @ demo_cleanup_calls (demo_logged_in (calls s))\<rparr>)"
proof -
  have c: "Contains ''token8r-0000-sample-app-latest'' ''sample-app-latest''"
      "\<not> Contains ''token8r-0000-sample-app-latest'' ''9f86''"
      "\<not> Contains ''token8r-0000-other-app-latest'' ''sample-app-latest''"
      "Contains ''token8r-0000-my-sample-app-latest'' ''sample-app-latest''"
      "\<not> Contains ''token8r-0000-my-sample-app-latest'' ''9f86''"
    by (simp_all add: Contains_def sublist_Cons_right)
  show ?thesis
    by (simp add: demo_pats_def c demo_cleanup_calls_def demo_login_calls_True
          on_err_Inr[where m = "PAT_Delete demo_libs demo_world demo_pc p" for p, OF demo_PAT_Delete])
qed

lemma demo_setBotCommitSecret:
  "setBotCommitSecret demo_libs demo_world demo_manager ''sample-app'' demo_track demo_pats s
     = (Val (Inr ()),
        s\<lparr>calls := calls s @ demo_login_calls (demo_logged_in (calls s)) @
             demo_create_calls ''token8r-9f86-sample-app-latest'' @
             demo_approve_calls @
             demo_secret_calls
               (\<not> demo_env_created (calls s) ''snapcrafters'' ''sample-app'' ''Candidate Branch'')
               ''SNAPCRAFTERS_BOT_COMMIT'' ''github_pat_NEW'' @
             demo_cleanup_calls True,
           oc_token := ''ghs_demo''\<rparr>)"
  unfolding setBotCommitSecret_def
  by (simp add: Let_def
        on_err_Inr[where m = "Create demo_libs demo_world demo_pc n r ow" for n r ow, OF demo_Create]
        on_err_Inr[where m = "ApprovePATRequest demo_libs demo_world demo_oc ''sample-app''",
                   OF demo_ApprovePATRequest]
        on_err_Inr[where m = "SetEnvSecret demo_libs demo_world demo_rc ''sample-app'' demo_track n v" for n v,
                   OF demo_SetEnvSecret]
        demo_cleanup_loop)

section \<open>The default track\<close>

text \<open>
  Claim C8. \<^verbatim>\<open>SetDefaults\<close> sets the tracks of a repository to exactly the one track
  (latest, candidate, "Candidate Branch"), whatever the tracks were before (so in
  particular when there were none), and leaves the other fields alone; applying it a
  second time changes nothing: \<^verbatim>\<open>SetDefaults\<close> composed with itself is \<^verbatim>\<open>SetDefaults\<close>.
\<close>

theorem SetDefaults_idempotent:
  "Repo_Tracks (SetDefaults s) =
     [\<lparr>Track_Name = ''latest'', Track_Branch = ''candidate'',
       Track_Environment = ''Candidate Branch''\<rparr>]
   \<and> SetDefaults (SetDefaults s) = SetDefaults s
   \<and> Repo_Name (SetDefaults s) = Repo_Name s
   \<and> Repo_Snaps (SetDefaults s) = Repo_Snaps s"
  by (simp add: SetDefaults_def)

section \<open>The channel check of the store client\<close>

text \<open>
  Claim C7. For every channel other than "candidate" and "stable",
  \<^verbatim>\<open>GenerateStoreToken\<close> returns the error "invalid channel specified" and leaves the
  state as it found it, so no HTTP request has been issued. For the channel "candidate"
  the first request it issues, once the body is marshalled and the request is built, is
  the POST to the store's token endpoint of a token request whose permissions are
  package_access, package_push, package_update and package_release; for "stable" it is
  the same POST with the permissions package_access and package_release only.
\<close>

theorem GenerateStoreToken_channels:
  "(channel \<noteq> ''candidate'' \<and> channel \<noteq> ''stable'' \<longrightarrow>
      GenerateStoreToken L W sc snap track channel s = (Val (Inl ''invalid channel specified''), s))
   \<and> (json_Marshal L
         (tokenRequest_json
            \<lparr>tr_Permissions = [''package_access'', ''package_push'', ''package_update'', ''package_release''],
             tr_Description = ''tokenator-'' @ snap @ ''-'' @ track,
             tr_TTL = 31536000,
             tr_Packages = [NewSnapPackage snap],
             tr_Channels = [track @ ''/candidate'']\<rparr>) = Inr b
       \<and> http_NewRequest L ''POST'' (BaseURL (endpoints sc) @ Tokens (authEndpoints sc)) = None \<longrightarrow>
       issues_first
         (HttpDo \<lparr>rq_method = ''POST'', rq_url = BaseURL (endpoints sc) @ Tokens (authEndpoints sc),
                  rq_headers = [(''Content-Type'', ''application/json''), (''Accept'', ''application/json'')],
                  rq_body = b\<rparr>)
         (GenerateStoreToken L W sc snap track ''candidate'') s)
   \<and> (json_Marshal L
         (tokenRequest_json
            \<lparr>tr_Permissions = [''package_access'', ''package_release''],
             tr_Description = ''tokenator-'' @ snap @ ''-'' @ track,
             tr_TTL = 31536000,
             tr_Packages = [NewSnapPackage snap],
             tr_Channels = [track @ ''/stable'']\<rparr>) = Inr b'
       \<and> http_NewRequest L ''POST'' (BaseURL (endpoints sc) @ Tokens (authEndpoints sc)) = None \<longrightarrow>
       issues_first
         (HttpDo \<lparr>rq_method = ''POST'', rq_url = BaseURL (endpoints sc) @ Tokens (authEndpoints sc),
                  rq_headers = [(''Content-Type'', ''application/json''), (''Accept'', ''application/json'')],
                  rq_body = b'\<rparr>)
         (GenerateStoreToken L W sc snap track ''stable'') s)"
proof (intro conjI impI)
  assume "channel \<noteq> ''candidate'' \<and> channel \<noteq> ''stable''"
  then show "GenerateStoreToken L W sc snap track channel s = (Val (Inl ''invalid channel specified''), s)"
    by (simp add: GenerateStoreToken_invalid)
next
  assume a: "json_Marshal L
         (tokenRequest_json
            \<lparr>tr_Permissions = [''package_access'', ''package_push'', ''package_update'', ''package_release''],
             tr_Description = ''tokenator-'' @ snap @ ''-'' @ track,
             tr_TTL = 31536000,
             tr_Packages = [NewSnapPackage snap],
             tr_Channels = [track @ ''/candidate'']\<rparr>) = Inr b
       \<and> http_NewRequest L ''POST'' (BaseURL (endpoints sc) @ Tokens (authEndpoints sc)) = None"
  show "issues_first
         (HttpDo \<lparr>rq_method = ''POST'', rq_url = BaseURL (endpoints sc) @ Tokens (authEndpoints sc),
                  rq_headers = [(''Content-Type'', ''application/json''), (''Accept'', ''application/json'')],
                  rq_body = b\<rparr>)
         (GenerateStoreToken L W sc snap track ''candidate'') s"
    by (rule issues_first_GenerateStoreToken[where perms = "[''package_access'', ''package_push'', ''package_update'', ''package_release'']"])
       (use a in \<open>simp_all add: channelPermissions_def\<close>)
next
  assume a: "json_Marshal L
         (tokenRequest_json
            \<lparr>tr_Permissions = [''package_access'', ''package_release''],
             tr_Description = ''tokenator-'' @ snap @ ''-'' @ track,
             tr_TTL = 31536000,
             tr_Packages = [NewSnapPackage snap],
             tr_Channels = [track @ ''/stable'']\<rparr>) = Inr b'
       \<and> http_NewRequest L ''POST'' (BaseURL (endpoints sc) @ Tokens (authEndpoints sc)) = None"
  show "issues_first
         (HttpDo \<lparr>rq_method = ''POST'', rq_url = BaseURL (endpoints sc) @ Tokens (authEndpoints sc),
                  rq_headers = [(''Content-Type'', ''application/json''), (''Accept'', ''application/json'')],
                  rq_body = b'\<rparr>)
         (GenerateStoreToken L W sc snap track ''stable'') s"
    by (rule issues_first_GenerateStoreToken[where perms = "[''package_access'', ''package_release'']"])
       (use a in \<open>simp_all add: channelPermissions_def\<close>)
qed

theorem GenerateStoreToken_channels_witness:
  "GenerateStoreToken demo_libs demo_world demo_sc ''sample-app'' ''latest'' ''edge'' s0
     = (Val (Inl ''invalid channel specified''), s0)
   \<and> issues_first
         (HttpDo \<lparr>rq_method = ''POST'', rq_url = ''https://dashboard.snapcraft.io/dev/api/acl/'',
                  rq_headers = [(''Content-Type'', ''application/json''), (''Accept'', ''application/json'')],
                  rq_body = demo_render (tokenRequest_json
            \<lparr>tr_Permissions = [''package_access'', ''package_push'', ''package_update'', ''package_release''],
             tr_Description = ''tokenator-sample-app-latest'',
             tr_TTL = 31536000,
             tr_Packages = [NewSnapPackage ''sample-app''],
             tr_Channels = [''latest/candidate'']\<rparr>)\<rparr>)
         (GenerateStoreToken demo_libs demo_world demo_sc ''sample-app'' ''latest'' ''candidate'') s0
   \<and> issues_first
         (HttpDo \<lparr>rq_method = ''POST'', rq_url = ''https://dashboard.snapcraft.io/dev/api/acl/'',
                  rq_headers = [(''Content-Type'', ''application/json''), (''Accept'', ''application/json'')],
                  rq_body = demo_render (tokenRequest_json
            \<lparr>tr_Permissions = [''package_access'', ''package_release''],
             tr_Description = ''tokenator-sample-app-latest'',
             tr_TTL = 31536000,
             tr_Packages = [NewSnapPackage ''sample-app''],
             tr_Channels = [''latest/stable'']\<rparr>)\<rparr>)
         (GenerateStoreToken demo_libs demo_world demo_sc ''sample-app'' ''latest'' ''stable'') s0"
  using GenerateStoreToken_channels
          [of "''edge''" demo_libs demo_world demo_sc "''sample-app''" "''latest''" s0
              "demo_render (tokenRequest_json
            \<lparr>tr_Permissions = [''package_access'', ''package_push'', ''package_update'', ''package_release''],
             tr_Description = ''tokenator-sample-app-latest'',
             tr_TTL = 31536000,
             tr_Packages = [NewSnapPackage ''sample-app''],
             tr_Channels = [''latest/candidate'']\<rparr>)"
              "demo_render (tokenRequest_json
            \<lparr>tr_Permissions = [''package_access'', ''package_release''],
             tr_Description = ''tokenator-sample-app-latest'',
             tr_TTL = 31536000,
             tr_Packages = [NewSnapPackage ''sample-app''],
             tr_Channels = [''latest/stable'']\<rparr>)"]
  by simp


section \<open>A root macaroon without a caveat of the authentication host\<close>

text \<open>
  Claim C1 says that a root macaroon with no caveat located at the authentication
  authority's host makes \<^verbatim>\<open>GenerateStoreToken\<close> return a wrapped error. The code does not:
  \<^verbatim>\<open>slices.IndexFunc\<close> returns \<open>-1\<close>, which \<^verbatim>\<open>getDischargedMacaroon\<close> uses as an index
  without a check, and \<^verbatim>\<open>root.Caveats()[-1]\<close> panics. Whenever the authentication URL
  parses and no caveat of the root macaroon is located at its host,
  \<^verbatim>\<open>getDischargedMacaroon\<close> panics with an index out of range, before any request.
\<close>

theorem getDischargedMacaroon_no_match_panics:
  assumes "url_Parse L (AuthURL (authEndpoints sc)) = Inr u"
    and "list_all (\<lambda>c. Caveat_Location c \<noteq> Host u) (Caveats root)"
  shows "getDischargedMacaroon L W sc root params s
           = (Panic ''runtime error: index out of range'', s)"
  using assms
  by (simp add: getDischargedMacaroon_def bnd_def index_def IndexFunc_none)

text \<open>
  The panic reaches the caller of \<^verbatim>\<open>GenerateStoreToken\<close>: against a store that issues
  such a root macaroon, the call for the channel "candidate" posts the token request and
  then panics.
\<close>

theorem GenerateStoreToken_no_match_panics:
  "GenerateStoreToken demo_libs nomatch_world demo_sc ''sample-app'' ''latest'' ''candidate'' s0
     = (Panic ''runtime error: index out of range'',
        s0\<lparr>calls := [HttpDo \<lparr>rq_method = ''POST'', rq_url = ''https://dashboard.snapcraft.io/dev/api/acl/'',
                  rq_headers = [(''Content-Type'', ''application/json''), (''Accept'', ''application/json'')],
                  rq_body = demo_render (tokenRequest_json
            \<lparr>tr_Permissions = [''package_access'', ''package_push'', ''package_update'', ''package_release''],
             tr_Description = ''tokenator-sample-app-latest'',
             tr_TTL = 31536000,
             tr_Packages = [NewSnapPackage ''sample-app''],
             tr_Channels = [''latest/candidate'']\<rparr>)\<rparr>]\<rparr>)"
proof -
  have u: "url_Parse demo_libs (AuthURL (authEndpoints demo_sc)) = Inr \<lparr>Host = ''login.ubuntu.com'', Path = []\<rparr>"
    by (simp add: demo_url)
  have c: "list_all (\<lambda>c. Caveat_Location c \<noteq> Host \<lparr>Host = ''login.ubuntu.com'', Path = []\<rparr>)
             (Caveats demo_root_nomatch)"
    by (simp add: demo_root_nomatch_def)
  note p = getDischargedMacaroon_no_match_panics[OF u c]
  show ?thesis
    by (simp add: GenerateStoreToken_def channelPermissions_def StoreClient_login_def
          getRootMacaroon_def post_def on_err_def bnd_def deserializeMacaroon_def p
          demo_gjson_Get_def demo_UnmarshalBinary_def demo_macaroons_def s0_def)
qed


section \<open>The shape of the store credential\<close>

text \<open>
  Claim C5, as amended. Every credential that \<^verbatim>\<open>GenerateStoreToken\<close> returns is the
  standard base64 encoding of the JSON text of an object with exactly two members: "t",
  the string "u1-macaroon", and "v", an object with exactly two members "r" and "d".
  The string under "r" is the raw URL base64 encoding of the binary form of the root
  macaroon, the one that \<^verbatim>\<open>getRootMacaroon\<close> obtained in this run for the token request of
  the snap, track and channel; the string under "d" is that of the discharge macaroon, the
  one that \<^verbatim>\<open>getDischargedMacaroon\<close> then obtained for that root macaroon. Where the
  base64 decoding and \<^verbatim>\<open>UnmarshalBinary\<close> invert their encodings, "r" and "d" decode as
  these two macaroons.
\<close>

theorem credential_envelope:
  assumes "GenerateStoreToken L W sc snap track channel s = (Val (Inr cred), s')"
  shows "\<exists>perms root dis rb db s1.
           channelPermissions channel = Some perms \<and>
           getRootMacaroon L W sc
             \<lparr>tr_Permissions = perms,
              tr_Description = ''tokenator-'' @ snap @ ''-'' @ track,
              tr_TTL = 31536000,
              tr_Packages = [NewSnapPackage snap],
              tr_Channels = [track @ ''/'' @ channel]\<rparr> s = (Val (Inr root), s1) \<and>
           getDischargedMacaroon L W sc root
             \<lparr>tp_Channels = [track @ ''/'' @ channel],
              tp_Credentials = credentials sc,
              tp_Description = ''tokenator-'' @ snap @ ''-'' @ track,
              tp_Packages = [snap],
              tp_Permissions = perms,
              tp_TTL = 31536000\<rparr> s1 = (Val (Inr dis), s') \<and>
           MarshalBinary L root = Inr rb \<and> MarshalBinary L dis = Inr db \<and>
           encodes_credential L
             (JObj [(''t'', JStr ''u1-macaroon''),
                    (''v'', JObj [(''r'', JStr (b64raw_Encode L rb)),
                                  (''d'', JStr (b64raw_Encode L db))])]) cred \<and>
           ((\<forall>b. b64raw_Decode L (b64raw_Encode L b) = Inr b) \<and>
            (\<forall>m b. MarshalBinary L m = Inr b \<longrightarrow> UnmarshalBinary L b = Inr m) \<longrightarrow>
            decode_macaroon L (JStr (b64raw_Encode L rb)) = Some root \<and>
            decode_macaroon L (JStr (b64raw_Encode L db)) = Some dis)"
proof -
  from GenerateStoreToken_runs[OF assms] obtain perms where
    p: "channelPermissions channel = Some perms"
    and lg: "StoreClient_login L W sc
             \<lparr>tp_Channels = [track @ ''/'' @ channel],
              tp_Credentials = credentials sc,
              tp_Description = ''tokenator-'' @ snap @ ''-'' @ track,
              tp_Packages = [snap],
              tp_Permissions = perms,
              tp_TTL = 31536000\<rparr> s = (Val (Inr cred), s')"
    by blast
  from StoreClient_login_runs[OF lg] obtain root dis rb db tokenJSON s1 where
    r: "getRootMacaroon L W sc
             \<lparr>tr_Permissions = perms,
              tr_Description = ''tokenator-'' @ snap @ ''-'' @ track,
              tr_TTL = 31536000,
              tr_Packages = [NewSnapPackage snap],
              tr_Channels = [track @ ''/'' @ channel]\<rparr> s = (Val (Inr root), s1)"
    and d: "getDischargedMacaroon L W sc root
             \<lparr>tp_Channels = [track @ ''/'' @ channel],
              tp_Credentials = credentials sc,
              tp_Description = ''tokenator-'' @ snap @ ''-'' @ track,
              tp_Packages = [snap],
              tp_Permissions = perms,
              tp_TTL = 31536000\<rparr> s1 = (Val (Inr dis), s')"
    and m: "MarshalBinary L root = Inr rb" "MarshalBinary L dis = Inr db"
    and j: "json_Marshal L
             (JObj [(''t'', JStr ''u1-macaroon''),
                    (''v'', JObj [(''r'', JStr (b64raw_Encode L rb)),
                                  (''d'', JStr (b64raw_Encode L db))])]) = Inr tokenJSON"
    and c: "cred = b64std_Encode L tokenJSON"
    by auto
  have e: "encodes_credential L
             (JObj [(''t'', JStr ''u1-macaroon''),
                    (''v'', JObj [(''r'', JStr (b64raw_Encode L rb)),
                                  (''d'', JStr (b64raw_Encode L db))])]) cred"
    using j c by (simp add: encodes_credential_def)
  have dc: "decode_macaroon L (JStr (b64raw_Encode L rb)) = Some root \<and>
            decode_macaroon L (JStr (b64raw_Encode L db)) = Some dis"
    if "(\<forall>b. b64raw_Decode L (b64raw_Encode L b) = Inr b) \<and>
            (\<forall>m b. MarshalBinary L m = Inr b \<longrightarrow> UnmarshalBinary L b = Inr m)"
    using that m by (simp add: decode_macaroon_def)
  from p r d m e dc show ?thesis by blast
qed

text \<open>
  The claim as it was stated asks that the two members of the decoded object themselves
  decode as macaroons. They do not: in the concrete world the credential decodes to the
  object \<open>demo_envelope\<close>, whose members are the token type "u1-macaroon", which is no
  macaroon, and the nested object "v", which is not a string at all.
\<close>

theorem credential_fields_counterexample:
  "fst (GenerateStoreToken demo_libs demo_world demo_sc ''sample-app'' ''latest'' ''candidate'' s0)
     = Val (Inr demo_credential)
   \<and> encodes_credential demo_libs demo_envelope demo_credential
   \<and> demo_envelope = JObj [(''t'', JStr ''u1-macaroon''),
                            (''v'', JObj [(''r'', JStr ''ROOT''), (''d'', JStr ''DISCHARGE'')])]
   \<and> \<not> two_macaroon_fields demo_libs demo_envelope"
  by (simp add: demo_GenerateStoreToken channelPermissions_def encodes_credential_def
        demo_credential_def two_macaroon_fields_def decode_macaroon_def demo_envelope_def
        del: demo_render.simps)

text \<open>
  The amended claim at the concrete world, where the library inverts its encodings: the
  root macaroon is \<open>demo_root\<close>, the discharge macaroon is \<open>demo_discharge\<close>, and the
  members "r" and "d" of the credential decode as them.
\<close>

theorem credential_envelope_witness:
  "\<exists>s1 s2.
     getRootMacaroon demo_libs demo_world demo_sc
       \<lparr>tr_Permissions = [''package_access'', ''package_push'', ''package_update'', ''package_release''],
        tr_Description = ''tokenator-sample-app-latest'',
        tr_TTL = 31536000,
        tr_Packages = [NewSnapPackage ''sample-app''],
        tr_Channels = [''latest/candidate'']\<rparr> s0 = (Val (Inr demo_root), s1) \<and>
     getDischargedMacaroon demo_libs demo_world demo_sc demo_root
       \<lparr>tp_Channels = [''latest/candidate''],
        tp_Credentials = credentials demo_sc,
        tp_Description = ''tokenator-sample-app-latest'',
        tp_Packages = [''sample-app''],
        tp_Permissions = [''package_access'', ''package_push'', ''package_update'', ''package_release''],
        tp_TTL = 31536000\<rparr> s1 = (Val (Inr demo_discharge), s2) \<and>
     fst (GenerateStoreToken demo_libs demo_world demo_sc ''sample-app'' ''latest'' ''candidate'' s0)
       = Val (Inr demo_credential) \<and>
     snd (GenerateStoreToken demo_libs demo_world demo_sc ''sample-app'' ''latest'' ''candidate'' s0) = s2 \<and>
     MarshalBinary demo_libs demo_root = Inr ''ROOT'' \<and>
     MarshalBinary demo_libs demo_discharge = Inr ''DISCHARGE'' \<and>
     encodes_credential demo_libs
       (JObj [(''t'', JStr ''u1-macaroon''),
              (''v'', JObj [(''r'', JStr ''ROOT''), (''d'', JStr ''DISCHARGE'')])]) demo_credential \<and>
     decode_macaroon demo_libs (JStr ''ROOT'') = Some demo_root \<and>
     decode_macaroon demo_libs (JStr ''DISCHARGE'') = Some demo_discharge"
proof -
  have run: "GenerateStoreToken demo_libs demo_world demo_sc ''sample-app'' ''latest'' ''candidate'' s0
          = (Val (Inr demo_credential),
             s0\<lparr>calls := calls s0 @ demo_store_calls ''candidate''
                   [''package_access'', ''package_push'', ''package_update'', ''package_release'']\<rparr>)"
    by (rule demo_GenerateStoreToken) (simp add: channelPermissions_def)
  have rt: "(\<forall>b. b64raw_Decode demo_libs (b64raw_Encode demo_libs b) = Inr b) \<and>
            (\<forall>m b. MarshalBinary demo_libs m = Inr b \<longrightarrow> UnmarshalBinary demo_libs b = Inr m)"
    by (simp add: demo_MarshalBinary_roundtrip)
  from credential_envelope[OF run] rt obtain perms root dis rb db s1 where
    p: "channelPermissions ''candidate'' = Some perms"
    and r: "getRootMacaroon demo_libs demo_world demo_sc
             \<lparr>tr_Permissions = perms,
              tr_Description = ''tokenator-'' @ ''sample-app'' @ ''-'' @ ''latest'',
              tr_TTL = 31536000,
              tr_Packages = [NewSnapPackage ''sample-app''],
              tr_Channels = [''latest'' @ ''/'' @ ''candidate'']\<rparr> s0 = (Val (Inr root), s1)"
    and d: "getDischargedMacaroon demo_libs demo_world demo_sc root
             \<lparr>tp_Channels = [''latest'' @ ''/'' @ ''candidate''],
              tp_Credentials = credentials demo_sc,
              tp_Description = ''tokenator-'' @ ''sample-app'' @ ''-'' @ ''latest'',
              tp_Packages = [''sample-app''],
              tp_Permissions = perms,
              tp_TTL = 31536000\<rparr> s1
           = (Val (Inr dis), s0\<lparr>calls := calls s0 @ demo_store_calls ''candidate''
                   [''package_access'', ''package_push'', ''package_update'', ''package_release'']\<rparr>)"
    and m: "MarshalBinary demo_libs root = Inr rb" "MarshalBinary demo_libs dis = Inr db"
    and e: "encodes_credential demo_libs
             (JObj [(''t'', JStr ''u1-macaroon''),
                    (''v'', JObj [(''r'', JStr (b64raw_Encode demo_libs rb)),
                                  (''d'', JStr (b64raw_Encode demo_libs db))])]) demo_credential"
    and dc: "decode_macaroon demo_libs (JStr (b64raw_Encode demo_libs rb)) = Some root"
            "decode_macaroon demo_libs (JStr (b64raw_Encode demo_libs db)) = Some dis"
    by blast
  from p have perms: "perms = [''package_access'', ''package_push'', ''package_update'', ''package_release'']"
    by (simp add: channelPermissions_def)
  from r have root: "root = demo_root" by (simp add: demo_getRootMacaroon)
  from d root have dis: "dis = demo_discharge" by (simp add: demo_getDischargedMacaroon)
  from m root dis have b: "rb = ''ROOT''" "db = ''DISCHARGE''"
    by (simp_all add: demo_MarshalBinary_def demo_root_def demo_discharge_def)
  from r d m e dc run show ?thesis
    unfolding perms root dis b by (auto simp del: demo_render.simps)
qed

section \<open>Setting a secret in an environment that does not exist\<close>

text \<open>
  Claim C9. Take any call of \<^verbatim>\<open>SetEnvSecret\<close> in which the repository is found and
  the fetch of the named environment answers with the status 404. Then: the calls it makes
  hold exactly one environment creation, and it asks for an environment that administrators
  may bypass, that prevents self-review, and whose deployment branches follow custom
  policies rather than the protected branches; that creation comes before any upload of a
  secret; and when the call succeeds, its calls are, in this order, the fetch of the
  repository, the fetch of the environment, the creation, one deployment branch policy
  named exactly by the track's branch, the fetch of the public key, the sealing of the
  value, and the upload of the secret under the given name.
\<close>

theorem SetEnvSecret_creates_environment:
  assumes "w_ReposGet W (calls s) (rc_org rc) repo = Inr r"
    and "w_GetEnvironment W (calls s @ [ReposGet (rc_org rc) repo]) (rc_org rc) repo
           (Track_Environment track) = (Some 404, err)"
  shows "filter is_env_creation (new_calls (SetEnvSecret L W rc repo track secretName secretValue) s)
           = [CreateUpdateEnv (rc_org rc) repo (Track_Environment track) created_env_settings]
       \<and> CreateUpdateEnv (rc_org rc) repo (Track_Environment track) created_env_settings
           \<in> set (takeWhile (\<lambda>c. \<not> is_secret_upload c)
                    (new_calls (SetEnvSecret L W rc repo track secretName secretValue) s))
       \<and> (fst (SetEnvSecret L W rc repo track secretName secretValue s) = Val (Inr ()) \<longrightarrow>
            (\<exists>repoID key secret.
               new_calls (SetEnvSecret L W rc repo track secretName secretValue) s
                 = [ReposGet (rc_org rc) repo,
                    GetEnvironment (rc_org rc) repo (Track_Environment track),
                    CreateUpdateEnv (rc_org rc) repo (Track_Environment track) created_env_settings,
                    CreateDeploymentBranchPolicy (rc_org rc) repo (Track_Environment track)
                      (Track_Branch track),
                    GetEnvPublicKey repoID (Track_Environment track),
                    SealAnonymous key secretValue,
                    CreateOrUpdateEnvSecret repoID (Track_Environment track) secret]
               \<and> Secret_Name secret = secretName))"
proof (intro conjI impI)
  from SetEnvSecret_404_calls[OF assms, of L secretName secretValue] obtain xs where
    n: "new_calls (SetEnvSecret L W rc repo track secretName secretValue) s
           = [ReposGet (rc_org rc) repo,
              GetEnvironment (rc_org rc) repo (Track_Environment track),
              CreateUpdateEnv (rc_org rc) repo (Track_Environment track) created_env_settings] @ xs"
    and x: "list_all (\<lambda>c. \<not> is_env_creation c) xs"
    by blast
  from x have "filter is_env_creation xs = []"
    by (induction xs) auto
  then show "filter is_env_creation (new_calls (SetEnvSecret L W rc repo track secretName secretValue) s)
           = [CreateUpdateEnv (rc_org rc) repo (Track_Environment track) created_env_settings]"
    by (simp add: n)
  show "CreateUpdateEnv (rc_org rc) repo (Track_Environment track) created_env_settings
           \<in> set (takeWhile (\<lambda>c. \<not> is_secret_upload c)
                    (new_calls (SetEnvSecret L W rc repo track secretName secretValue) s))"
    by (simp add: n)
next
  assume "fst (SetEnvSecret L W rc repo track secretName secretValue s) = Val (Inr ())"
  then have "SetEnvSecret L W rc repo track secretName secretValue s
               = (Val (Inr ()), snd (SetEnvSecret L W rc repo track secretName secretValue s))"
    by (metis prod.collapse)
  from SetEnvSecret_InrD[OF this] assms(2) obtain repoID key secret where
    "Secret_Name secret = secretName"
    "snd (SetEnvSecret L W rc repo track secretName secretValue s)
       = s\<lparr>calls := calls s @
                 [ReposGet (rc_org rc) repo,
                    GetEnvironment (rc_org rc) repo (Track_Environment track),
                    CreateUpdateEnv (rc_org rc) repo (Track_Environment track) created_env_settings,
                    CreateDeploymentBranchPolicy (rc_org rc) repo (Track_Environment track)
                      (Track_Branch track),
                    GetEnvPublicKey repoID (Track_Environment track),
                    SealAnonymous key secretValue,
                    CreateOrUpdateEnvSecret repoID (Track_Environment track) secret]\<rparr>"
    by auto
  then show "\<exists>repoID key secret.
               new_calls (SetEnvSecret L W rc repo track secretName secretValue) s
                 = [ReposGet (rc_org rc) repo,
                    GetEnvironment (rc_org rc) repo (Track_Environment track),
                    CreateUpdateEnv (rc_org rc) repo (Track_Environment track) created_env_settings,
                    CreateDeploymentBranchPolicy (rc_org rc) repo (Track_Environment track)
                      (Track_Branch track),
                    GetEnvPublicKey repoID (Track_Environment track),
                    SealAnonymous key secretValue,
                    CreateOrUpdateEnvSecret repoID (Track_Environment track) secret]
               \<and> Secret_Name secret = secretName"
    by (simp add: new_calls_def)
qed

text \<open>
  The concrete world answers 404 for an environment until it has been created, so the
  first secret set for \<^verbatim>\<open>sample-app\<close> creates "Candidate Branch".
\<close>

theorem SetEnvSecret_creates_environment_witness:
  "filter is_env_creation
     (new_calls (SetEnvSecret demo_libs demo_world demo_rc ''sample-app'' demo_track
                   ''LP_BUILD_SECRET'' ''lp_auth-value'') s0)
     = [CreateUpdateEnv ''snapcrafters'' ''sample-app'' ''Candidate Branch'' created_env_settings]
   \<and> CreateUpdateEnv ''snapcrafters'' ''sample-app'' ''Candidate Branch'' created_env_settings
       \<in> set (takeWhile (\<lambda>c. \<not> is_secret_upload c)
                (new_calls (SetEnvSecret demo_libs demo_world demo_rc ''sample-app'' demo_track
                   ''LP_BUILD_SECRET'' ''lp_auth-value'') s0))
   \<and> (\<exists>repoID key secret.
         new_calls (SetEnvSecret demo_libs demo_world demo_rc ''sample-app'' demo_track
                      ''LP_BUILD_SECRET'' ''lp_auth-value'') s0
           = [ReposGet ''snapcrafters'' ''sample-app'',
              GetEnvironment ''snapcrafters'' ''sample-app'' ''Candidate Branch'',
              CreateUpdateEnv ''snapcrafters'' ''sample-app'' ''Candidate Branch'' created_env_settings,
              CreateDeploymentBranchPolicy ''snapcrafters'' ''sample-app'' ''Candidate Branch''
                ''candidate'',
              GetEnvPublicKey repoID ''Candidate Branch'',
              SealAnonymous key ''lp_auth-value'',
              CreateOrUpdateEnvSecret repoID ''Candidate Branch'' secret]
         \<and> Secret_Name secret = ''LP_BUILD_SECRET'')"
proof -
  have 1: "w_ReposGet demo_world (calls s0) (rc_org demo_rc) ''sample-app''
             = Inr \<lparr>Repository_ID = Some 42, FullName = Some ''snapcrafters/sample-app''\<rparr>"
    by simp
  have 2: "w_GetEnvironment demo_world (calls s0 @ [ReposGet (rc_org demo_rc) ''sample-app''])
             (rc_org demo_rc) ''sample-app'' (Track_Environment demo_track)
             = (Some 404, Some ''404 Not Found'')"
    by (simp add: demo_env_created_def s0_def)
  have 3: "fst (SetEnvSecret demo_libs demo_world demo_rc ''sample-app'' demo_track
                  ''LP_BUILD_SECRET'' ''lp_auth-value'' s0) = Val (Inr ())"
    by (simp add: demo_SetEnvSecret)
  from SetEnvSecret_creates_environment
         [OF 1 2, of demo_libs "''LP_BUILD_SECRET''" "''lp_auth-value''"] 3
  show ?thesis by simp
qed

section \<open>Claim C3: which pending request is approved\<close>

text \<open>
  Claim C3, as the code has it. \<^const>\<open>ApprovePATRequest\<close> obtains the token, lists the
  pending requests, and fetches their repository lists one after the other, in listing order.
  It selects the first request whose list has exactly two entries and holds both
  \<open>org/repo\<close> and \<open>org/ci-screenshots\<close> (\<^const>\<open>request_matches\<close>); for every \<open>repo\<close>
  other than \<open>ci-screenshots\<close> these are the lists whose two entries are exactly these two
  names. A request whose list has another length or lacks one of the names is skipped.

  Let the requests listed be \<open>pre @ rest\<close>, where the requests of \<open>pre\<close>, fetched in turn
  from the state reached after the listing, are all skipped (\<^const>\<open>skips\<close>); the calls
  made for them are their fetches and nothing else.
  \<^item> When \<open>rest\<close> is empty, no request matches, and the call fails with
    \<open>could not find PAT request for org/repo\<close> without any review call.
  \<^item> When \<open>rest\<close> is \<open>q # later\<close> and the list fetched for \<open>q\<close> matches, the only further
    call is the review that approves \<open>q\<close>: the requests of \<open>later\<close> are never fetched and
    never examined, whether they match or not, and the call returns what the review
    returns, so it succeeds when the review does.
\<close>

theorem ApprovePATRequest_first_match:
  assumes "OrgClient_client L W oc s = (Val (Inr tok), s1)"
    and "listPATRequests L W oc s1 = (Val (Inr (pre @ rest)), s2)"
    and "skips L W oc repo pre s2 = Some s3"
  shows "calls s3 = calls s2 @ map (listing_call tok) pre
       \<and> (rest = [] \<longrightarrow>
            ApprovePATRequest L W oc repo s =
              (Val (Inl (''could not find PAT request for '' @ oc_org oc @ ''/'' @ repo)), s3))
       \<and> (rest = q # later \<and>
          listPATRequestRepositories L W oc q s3 = (Val (Inr repos), s4) \<and>
          named repos \<and> request_matches (oc_org oc) repo repos \<longrightarrow>
            calls s4 = calls s2 @ map (listing_call tok) (pre @ [q]) \<and>
            ApprovePATRequest L W oc repo s =
              (Val (case w_Review W (calls s4) (oc_org oc) (patRequest_ID q) ''approve'' of
                      Inl e \<Rightarrow> Inl (Errorf ''failed to approve personal access token request: '' e)
                    | Inr u \<Rightarrow> Inr ()),
               s4\<lparr>calls := calls s4 @
                  [ReviewPersonalAccessTokenRequest (oc_org oc) (patRequest_ID q) ''approve'']\<rparr>))
       \<and> (repo \<noteq> ''ci-screenshots'' \<longrightarrow>
            request_matches (oc_org oc) repo repos' =
              (length repos' = 2 \<and>
               set (map FullName repos') =
                 {Some (oc_org oc @ ''/'' @ repo), Some (oc_org oc @ ''/ci-screenshots'')}))"
proof (intro conjI impI)
  have t: "oc_token s2 = tok"
    using OrgClient_client_token[OF assms(1)] listPATRequests_token[OF assms(2)] by simp
  from skips_calls[OF assms(3)] t
  have c3: "calls s3 = calls s2 @ map (listing_call tok) pre"
    and t3: "oc_token s3 = tok" by simp_all
  show "calls s3 = calls s2 @ map (listing_call tok) pre" by (rule c3)
  note u = ApprovePATRequest_unfold[OF assms(1,2), of repo]
  note lp = findPATRequest_loop_skips[OF assms(3), of rest]
  {
    assume "rest = []"
    with lp have "findPATRequest_loop L W oc repo (pre @ rest) s2
        = (Val (Inl (''could not find PAT request for '' @ oc_org oc @ ''/'' @ repo)), s3)"
      by simp
    note st = on_err_Inl[where m = "findPATRequest_loop L W oc repo (pre @ rest)" and s = s2, OF this]
    show "ApprovePATRequest L W oc repo s =
              (Val (Inl (''could not find PAT request for '' @ oc_org oc @ ''/'' @ repo)), s3)"
      unfolding u by (simp add: st)
  }
  {
    assume a: "rest = q # later \<and>
          listPATRequestRepositories L W oc q s3 = (Val (Inr repos), s4) \<and>
          named repos \<and> request_matches (oc_org oc) repo repos"
    then have l: "listPATRequestRepositories L W oc q s3 = (Val (Inr repos), s4)"
      and n: "named repos" and m: "request_matches (oc_org oc) repo repos" and r: "rest = q # later"
      by simp_all
    from listPATRequestRepositories_InrD[OF l] c3 t3
    show "calls s4 = calls s2 @ map (listing_call tok) (pre @ [q])" by simp
    from findPATRequest_loop_match[OF l n m, of later] lp r
    have "findPATRequest_loop L W oc repo (pre @ rest) s2 = (Val (Inr (patRequest_ID q)), s4)"
      by simp
    note st = on_err_Inr[where m = "findPATRequest_loop L W oc repo (pre @ rest)" and s = s2, OF this]
    show "ApprovePATRequest L W oc repo s =
              (Val (case w_Review W (calls s4) (oc_org oc) (patRequest_ID q) ''approve'' of
                      Inl e \<Rightarrow> Inl (Errorf ''failed to approve personal access token request: '' e)
                    | Inr u \<Rightarrow> Inr ()),
               s4\<lparr>calls := calls s4 @
                  [ReviewPersonalAccessTokenRequest (oc_org oc) (patRequest_ID q) ''approve'']\<rparr>)"
      unfolding u by (simp add: st on_err_perform split: sum.splits)
  }
  {
    assume "repo \<noteq> ''ci-screenshots''"
    then show "request_matches (oc_org oc) repo repos' =
              (length repos' = 2 \<and>
               set (map FullName repos') =
                 {Some (oc_org oc @ ''/'' @ repo), Some (oc_org oc @ ''/ci-screenshots'')})"
      by (rule request_matches_exact)
  }
qed

text \<open>
  The theorem at the sample organisation, whose pending requests are 5 (three repositories), 6
  (\<open>other-app\<close>), 7 and 8 (both for \<open>sample-app\<close>). For \<open>sample-app\<close> the requests 5, 6 and
  7 are fetched and 7 is approved; for a snap without a request all four are fetched and the
  call fails.
\<close>

theorem ApprovePATRequest_first_match_witness:
  "ApprovePATRequest demo_libs demo_world demo_oc ''sample-app'' s0
     = (Val (Inr ()),
        \<lparr>calls = demo_token_calls @ [demo_list_call] @
                  map (listing_call ''ghs_demo'') [demo_request 5, demo_request 6, demo_request 7] @
                  [ReviewPersonalAccessTokenRequest ''snapcrafters'' 7 ''approve''],
         oc_token = ''ghs_demo''\<rparr>)
   \<and> ApprovePATRequest demo_libs demo_world demo_oc ''no-such-app'' s0
     = (Val (Inl ''could not find PAT request for snapcrafters/no-such-app''),
        \<lparr>calls = demo_token_calls @ [demo_list_call] @
                  map (listing_call ''ghs_demo'')
                    [demo_request 5, demo_request 6, demo_request 7, demo_request 8],
         oc_token = ''ghs_demo''\<rparr>)
   \<and> request_matches ''snapcrafters'' ''sample-app'' (demo_repos_of (demo_request 7))
   \<and> set (map FullName (demo_repos_of (demo_request 7)))
       = {Some ''snapcrafters/sample-app'', Some ''snapcrafters/ci-screenshots''}"
proof -
  have l: "listPATRequests demo_libs demo_world demo_oc \<lparr>calls = demo_token_calls, oc_token = ''ghs_demo''\<rparr>
     = (Val (Inr ([demo_request 5, demo_request 6] @ [demo_request 7, demo_request 8])),
        \<lparr>calls = demo_token_calls @ [demo_list_call], oc_token = ''ghs_demo''\<rparr>)"
    using demo_state(2) by simp
  have l': "listPATRequests demo_libs demo_world demo_oc \<lparr>calls = demo_token_calls, oc_token = ''ghs_demo''\<rparr>
     = (Val (Inr (map demo_request [5, 6, 7, 8] @ [])),
        \<lparr>calls = demo_token_calls @ [demo_list_call], oc_token = ''ghs_demo''\<rparr>)"
    using demo_state(2) by simp
  have m: "listPATRequestRepositories demo_libs demo_world demo_oc (demo_request 7)
             \<lparr>calls = demo_token_calls @ [demo_list_call] @
                map (listing_call ''ghs_demo'') [demo_request 5, demo_request 6],
              oc_token = ''ghs_demo''\<rparr>
           = (Val (Inr (demo_repos_of (demo_request 7))),
              \<lparr>calls = demo_token_calls @ [demo_list_call] @
                 map (listing_call ''ghs_demo'') [demo_request 5, demo_request 6, demo_request 7],
               oc_token = ''ghs_demo''\<rparr>)"
    by (simp add: demo_listing)
  note T1 = ApprovePATRequest_first_match[OF demo_state(1) l demo_skips(1),
         where q = "demo_request 7" and later = "[demo_request 8]"
           and repos = "demo_repos_of (demo_request 7)"
           and repos' = "demo_repos_of (demo_request 7)"
           and ?s4.0 = "\<lparr>calls = demo_token_calls @ [demo_list_call] @
                 map (listing_call ''ghs_demo'') [demo_request 5, demo_request 6, demo_request 7],
               oc_token = ''ghs_demo''\<rparr>"]
  note T2 = ApprovePATRequest_first_match[OF demo_state(1) l' demo_skips(2),
         where q = "demo_request 7" and later = "[]" and repos = "[]" and repos' = "[]"
           and ?s4.0 = s0]
  from T1[THEN conjunct2, THEN conjunct2, THEN conjunct1] m
  have 1: "ApprovePATRequest demo_libs demo_world demo_oc ''sample-app'' s0
     = (Val (Inr ()),
        \<lparr>calls = demo_token_calls @ [demo_list_call] @
                  map (listing_call ''ghs_demo'') [demo_request 5, demo_request 6, demo_request 7] @
                  [ReviewPersonalAccessTokenRequest ''snapcrafters'' 7 ''approve''],
         oc_token = ''ghs_demo''\<rparr>)"
    by (simp add: demo_matches demo_named_request)
  from T2[THEN conjunct2, THEN conjunct1]
  have 2: "ApprovePATRequest demo_libs demo_world demo_oc ''no-such-app'' s0
     = (Val (Inl ''could not find PAT request for snapcrafters/no-such-app''),
        \<lparr>calls = demo_token_calls @ [demo_list_call] @
                  map (listing_call ''ghs_demo'')
                    [demo_request 5, demo_request 6, demo_request 7, demo_request 8],
         oc_token = ''ghs_demo''\<rparr>)"
    by simp
  from T1[THEN conjunct2, THEN conjunct2, THEN conjunct2]
  have 3: "set (map FullName (demo_repos_of (demo_request 7)))
       = {Some ''snapcrafters/sample-app'', Some ''snapcrafters/ci-screenshots''}"
    by (simp add: demo_matches)
  from 1 2 3 demo_matches(3) show ?thesis by blast
qed

text \<open>
  The claim as it was stated fails in two ways at the sample organisation. Two matching
  requests are not an error: the requests 7 and 8 both hold exactly
  \<open>snapcrafters/sample-app\<close> and \<open>snapcrafters/ci-screenshots\<close>, and the call for
  \<open>sample-app\<close> returns no error, having approved request 7. And a list with another
  membership can be selected: for the repository \<open>ci-screenshots\<close> the two names coincide,
  and the call approves request 6, whose repositories are \<open>snapcrafters/other-app\<close> and
  \<open>snapcrafters/ci-screenshots\<close>.
\<close>

theorem ApprovePATRequest_two_matches_counterexample:
  "fst (listPATRequests demo_libs demo_world demo_oc \<lparr>calls = demo_token_calls, oc_token = ''ghs_demo''\<rparr>)
     = Val (Inr (map demo_request [5, 6, 7, 8]))
   \<and> fst (listPATRequestRepositories demo_libs demo_world demo_oc (demo_request 7) s0)
       = Val (Inr (map (\<lambda>n. \<lparr>Repository_ID = None, FullName = Some n\<rparr>)
                     [''snapcrafters/sample-app'', ''snapcrafters/ci-screenshots'']))
   \<and> fst (listPATRequestRepositories demo_libs demo_world demo_oc (demo_request 8) s0)
       = Val (Inr (map (\<lambda>n. \<lparr>Repository_ID = None, FullName = Some n\<rparr>)
                     [''snapcrafters/ci-screenshots'', ''snapcrafters/sample-app'']))
   \<and> fst (ApprovePATRequest demo_libs demo_world demo_oc ''sample-app'' s0) = Val (Inr ())
   \<and> filter is_review (calls (snd (ApprovePATRequest demo_libs demo_world demo_oc ''sample-app'' s0)))
       = [ReviewPersonalAccessTokenRequest ''snapcrafters'' 7 ''approve'']
   \<and> fst (listPATRequestRepositories demo_libs demo_world demo_oc (demo_request 6) s0)
       = Val (Inr (map (\<lambda>n. \<lparr>Repository_ID = None, FullName = Some n\<rparr>)
                     [''snapcrafters/other-app'', ''snapcrafters/ci-screenshots'']))
   \<and> fst (ApprovePATRequest demo_libs demo_world demo_oc ''ci-screenshots'' s0) = Val (Inr ())
   \<and> filter is_review (calls (snd (ApprovePATRequest demo_libs demo_world demo_oc ''ci-screenshots'' s0)))
       = [ReviewPersonalAccessTokenRequest ''snapcrafters'' 6 ''approve'']"
proof -
  have u: "ApprovePATRequest demo_libs demo_world demo_oc repo s0 =
          on_err (findPATRequest_loop demo_libs demo_world demo_oc repo (map demo_request [5, 6, 7, 8]))
            (\<lambda>e. ''could not find PAT request for '' @ oc_org demo_oc @ ''/'' @ repo)
            (\<lambda>requestId.
               on_err (perform (ReviewPersonalAccessTokenRequest (oc_org demo_oc) requestId ''approve'')
                         (\<lambda>h. w_Review demo_world h (oc_org demo_oc) requestId ''approve''))
                 (Errorf ''failed to approve personal access token request: '')
                 (\<lambda>_. ret (Inr ())))
            \<lparr>calls = demo_token_calls @ [demo_list_call], oc_token = ''ghs_demo''\<rparr>" for repo
    by (rule ApprovePATRequest_unfold[OF demo_state])
  note M = findPATRequest_loop_match[where L = demo_libs and W = demo_world and oc = demo_oc,
             unfolded demo_oc_sel]
  have f1: "findPATRequest_loop demo_libs demo_world demo_oc ''sample-app''
              (map demo_request [5, 6, 7, 8])
              \<lparr>calls = demo_token_calls @ [demo_list_call], oc_token = ''ghs_demo''\<rparr>
          = (Val (Inr 7),
             \<lparr>calls = demo_token_calls @ [demo_list_call] @
                 map (listing_call ''ghs_demo'') [demo_request 5, demo_request 6, demo_request 7],
               oc_token = ''ghs_demo''\<rparr>)"
    using findPATRequest_loop_skips[OF demo_skips(1), of "[demo_request 7, demo_request 8]"]
          M[OF demo_listing(3) demo_named_request demo_matches(3),
            of "[demo_request 8]"]
    by simp
  have f2: "findPATRequest_loop demo_libs demo_world demo_oc ''ci-screenshots''
              (map demo_request [5, 6, 7, 8])
              \<lparr>calls = demo_token_calls @ [demo_list_call], oc_token = ''ghs_demo''\<rparr>
          = (Val (Inr 6),
             \<lparr>calls = demo_token_calls @ [demo_list_call] @
                 map (listing_call ''ghs_demo'') [demo_request 5, demo_request 6],
               oc_token = ''ghs_demo''\<rparr>)"
    using findPATRequest_loop_skips[OF demo_skips(3), of "[demo_request 6, demo_request 7, demo_request 8]"]
          M[OF demo_listing(2) demo_named_request demo_matches(9),
            of "[demo_request 7, demo_request 8]"]
    by simp
  have nr: "filter is_review demo_token_calls = []" "\<not> is_review demo_list_call"
    "\<not> is_review (listing_call t q)" for t q
    by (simp_all add: demo_token_calls_def demo_list_call_def listing_call_def)
  have a1: "ApprovePATRequest demo_libs demo_world demo_oc ''sample-app'' s0
          = (Val (Inr ()),
             \<lparr>calls = demo_token_calls @ [demo_list_call] @
                 map (listing_call ''ghs_demo'') [demo_request 5, demo_request 6, demo_request 7] @
                 [ReviewPersonalAccessTokenRequest ''snapcrafters'' 7 ''approve''],
               oc_token = ''ghs_demo''\<rparr>)"
    unfolding u
      on_err_Inr[where m = "findPATRequest_loop demo_libs demo_world demo_oc ''sample-app'' (map demo_request [5, 6, 7, 8])", OF f1]
    by (simp add: on_err_perform)
  have a2: "ApprovePATRequest demo_libs demo_world demo_oc ''ci-screenshots'' s0
          = (Val (Inr ()),
             \<lparr>calls = demo_token_calls @ [demo_list_call] @
                 map (listing_call ''ghs_demo'') [demo_request 5, demo_request 6] @
                 [ReviewPersonalAccessTokenRequest ''snapcrafters'' 6 ''approve''],
               oc_token = ''ghs_demo''\<rparr>)"
    unfolding u
      on_err_Inr[where m = "findPATRequest_loop demo_libs demo_world demo_oc ''ci-screenshots'' (map demo_request [5, 6, 7, 8])", OF f2]
    by (simp add: on_err_perform)
  show ?thesis
    unfolding a1 a2
    by (simp add: nr demo_state(2) demo_listing demo_repos_of_request)
qed

section \<open>Claim C10: repository names without a separator\<close>

text \<open>
  Claim C10. \<^const>\<open>Create\<close> reads the first two pieces of every repository name split at
  \<^verbatim>\<open>"/"\<close>, so it needs every name to hold a \<^verbatim>\<open>"/"\<close>. Whenever the login succeeds and
  the token form is fetched with its authenticity token, a first repository name without
  \<^verbatim>\<open>"/"\<close> is split into one piece only, the index 1 is out of range, and the call panics:
  it returns no error value, and no repository id is looked up.
\<close>

theorem Create_panics_without_separator:
  assumes "PATClient_login L W pc s = (Val (Inr ()), s1)"
    and "getWebpage W ''https://github.com/settings/personal-access-tokens/new'' s1 = (Val (Inr form), s2)"
    and "doc_new_form_token form = Some createToken"
    and "CHR ''/'' \<notin> set repo"
  shows "Split repo ''/'' = [repo]
       \<and> index (Split repo ''/'') 1 = Panic ''runtime error: index out of range''
       \<and> Create L W pc name (repo # repos) resourceOwner s
           = (Panic ''runtime error: index out of range'', s2)"
proof -
  obtain r0 where r0: "index (Split repo ''/'') 0 = Val r0" using index_Split_0 by blast
  from assms(4) have r1: "index (Split repo ''/'') 1 = Panic ''runtime error: index out of range''"
    by (simp add: index_Split_1)
  have ids: "Create_repoIDs L W pc [] (repo # repos) s2 = (Panic ''runtime error: index out of range'', s2)"
    by (simp add: r0 r1)
  have "Create L W pc name (repo # repos) resourceOwner s
           = (Panic ''runtime error: index out of range'', s2)"
    unfolding Create_def
    by (simp add: on_err_Inr[where m = "PATClient_login L W pc" and s = s, OF assms(1)]
          on_err_Inr[where m = "getWebpage W ''https://github.com/settings/personal-access-tokens/new''" and s = s1, OF assms(2)]
          assms(3) on_err_Panic[where m = "Create_repoIDs L W pc [] (repo # repos)" and s = s2, OF ids]
        del: Create_repoIDs.simps)
  with r1 assms(4) show ?thesis by (simp add: Split_def Split_from_no_sep)
qed

text \<open>
  In the sample world the name \<^verbatim>\<open>sample-app\<close>, given without its owner, makes the call
  panic right after the token form has been fetched.
\<close>

theorem Create_panics_without_separator_witness:
  "Split ''sample-app'' ''/'' = [''sample-app'']
   \<and> index (Split ''sample-app'' ''/'') 1 = Panic ''runtime error: index out of range''
   \<and> Create demo_libs demo_world demo_pc ''token8r-9f86-sample-app-latest''
        [''sample-app'', ''snapcrafters/ci-screenshots''] ''snapcrafters'' s0
       = (Panic ''runtime error: index out of range'',
          \<lparr>calls = demo_login_calls False @
                    [WebGet ''https://github.com/settings/personal-access-tokens/new''],
           oc_token = []\<rparr>)"
  using Create_panics_without_separator
          [OF demo_PATClient_login demo_getWebpage_new, where s = s0 and repo = "''sample-app''"
             and createToken = "''tok-new''" and name = "''token8r-9f86-sample-app-latest''"
             and repos = "[''snapcrafters/ci-screenshots'']" and resourceOwner = "''snapcrafters''"]
  by (simp add: s0_def demo_logged_in_def index_def)

section \<open>Claim C4: the exit status after an error of Process\<close>

text \<open>
  Claim C4 asks that a run in which \<^const>\<open>Process\<close> returns an error logs that error and
  exits with a status other than zero. The code logs it and exits with the status 0:
  \<^const>\<open>RunE\<close> passes the error to \<^verbatim>\<open>slog.Error\<close> and then returns nil, so
  \<^const>\<open>Execute\<close> returns nil and \<^const>\<open>main\<close> returns without calling
  \<^verbatim>\<open>os.Exit(1)\<close>. For every run of the command (the flags parsed, the configuration and
  the credentials read, the manager built) in which \<^const>\<open>Process\<close> returns the error
  \<open>e\<close>, the program logs \<open>e\<close> as its last call and its exit status is 0. (An error of
  \<^const>\<open>parseConfig\<close>, returned by the same function, does end in the status 1:
  \<open>main_exit_status_after_config_error\<close>.)
\<close>

theorem main_exit_status_after_Process_error:
  assumes "w_Flags W = Run repositories verbose"
    and "parseConfig W s = (Val (Inr cfg), s1)"
    and "parseCreds W = Inr creds"
    and "NewManager L W cfg creds s1 = (Val mgr, s2)"
    and "Process L W mgr repositories s2 = (Val (Inl e), s3)"
  shows "main L W s = (Val 0, s3\<lparr>calls := calls s3 @ [SlogError e]\<rparr>)"
proof -
  have "RunE L W repositories s = (Val (Inr ()), s3\<lparr>calls := calls s3 @ [SlogError e]\<rparr>)"
    unfolding RunE_def
    by (simp add: on_err_Inr[where m = "parseConfig W" and s = s, OF assms(2)] assms(3)
          bnd_Val[where m = "NewManager L W cfg creds" and s = s1, OF assms(4)]
          bnd_Val[where m = "Process L W mgr repositories" and s = s2, OF assms(5)])
  then have "Execute L W s = (Val (Inr ()), s3\<lparr>calls := calls s3 @ [SlogError e]\<rparr>)"
    by (simp add: Execute_def assms(1))
  note st = bnd_Val[where m = "Execute L W" and s = s, OF this]
  show ?thesis unfolding main_def by (simp add: st)
qed

text \<open>
  With the network down, \<^const>\<open>Process\<close> fails at its first request; the program logs the
  error and exits with the status 0.
\<close>

theorem main_exit_status_after_Process_error_witness:
  "fst (Process demo_libs offline_world demo_manager []
         \<lparr>calls = [ReadInConfig, ViperUnmarshal, TimeNow], oc_token = []\<rparr>)
     = Val (Inl ''failed to list personal access tokens: failed to login to Github: failed to detect Github session login status'')
   \<and> main demo_libs offline_world s0
     = (Val 0,
        \<lparr>calls = [ReadInConfig, ViperUnmarshal, TimeNow, WebHead ''https://github.com/settings/'',
                  SlogError ''failed to list personal access tokens: failed to login to Github: failed to detect Github session login status''],
         oc_token = []\<rparr>)"
  using main_exit_status_after_Process_error
          [OF offline_world_sel(2) offline_parseConfig offline_parseCreds offline_NewManager
              offline_Process]
  by (simp add: offline_Process)

section \<open>Claim C2: which tokens the clean-up deletes\<close>




end
